theory Spec2Isabelle
  imports Complex_Main "HOL-Library.Sublist" "HOL-Library.Multiset"
begin

section \<open>Window-Go: the widget toolkit of package gui\<close>

text \<open>
  A shallow embedding of the widgets and of the window of package gui. Go's \<open>int\<close>
  is modelled as the unbounded \<open>int\<close>: the values are coordinates, indices and
  lengths of slices held in memory, and where a constructor computes with an argument as it
  is given the wrap-around of 64 bits is written out.
  A \<open>float64\<close> field is a \<open>real\<close>: the constructors only compare such values.
  A Go string is a \<open>string\<close>, the list of its bytes; a rune is an \<open>int\<close>, and
  the conversions between strings and runes are UTF-8. A mutating method takes the object and
  returns it updated. A panic of the Go runtime (an index or a slice bound out of range,
  a nil dereference) is the value \<open>None\<close>.
\<close>

subsection \<open>Colour constants (package colors) and box glyphs\<close>

definition colors_Reset :: string where
  "colors_Reset = CHR 0x1B # ''[0m''"

definition colors_Gray :: string where
  "colors_Gray = CHR 0x1B # ''[37m''"

definition colors_Gray2 :: string where
  "colors_Gray2 = CHR 0x1B # ''[38;5;235m''"

definition colors_BoldWhite :: string where
  "colors_BoldWhite = CHR 0x1B # ''[1;97m''"

definition colors_BgBlue :: string where
  "colors_BgBlue = CHR 0x1B # ''[44m''"

record BoxType =
  TopLeft :: string
  TopRight :: string
  BottomLeft :: string
  BottomRight :: string
  Horizontal :: string
  Vertical :: string

text \<open>The glyphs are the UTF-8 bytes of the box-drawing characters of the source.\<close>

definition BoxTypes :: "string \<rightharpoonup> BoxType" where
  "BoxTypes =
     [''single'' \<mapsto>
        \<lparr> TopLeft = [CHR 0xE2, CHR 0x94, CHR 0x8C], TopRight = [CHR 0xE2, CHR 0x94, CHR 0x90],
          BottomLeft = [CHR 0xE2, CHR 0x94, CHR 0x94], BottomRight = [CHR 0xE2, CHR 0x94, CHR 0x98],
          Horizontal = [CHR 0xE2, CHR 0x94, CHR 0x80], Vertical = [CHR 0xE2, CHR 0x94, CHR 0x82] \<rparr>,
      ''double'' \<mapsto>
        \<lparr> TopLeft = [CHR 0xE2, CHR 0x95, CHR 0x94], TopRight = [CHR 0xE2, CHR 0x95, CHR 0x97],
          BottomLeft = [CHR 0xE2, CHR 0x95, CHR 0x9A], BottomRight = [CHR 0xE2, CHR 0x95, CHR 0x9D],
          Horizontal = [CHR 0xE2, CHR 0x95, CHR 0x90], Vertical = [CHR 0xE2, CHR 0x95, CHR 0x91] \<rparr>,
      ''round'' \<mapsto>
        \<lparr> TopLeft = [CHR 0xE2, CHR 0x95, CHR 0xAD], TopRight = [CHR 0xE2, CHR 0x95, CHR 0xAE],
          BottomLeft = [CHR 0xE2, CHR 0x95, CHR 0xB0], BottomRight = [CHR 0xE2, CHR 0x95, CHR 0xAF],
          Horizontal = [CHR 0xE2, CHR 0x94, CHR 0x80], Vertical = [CHR 0xE2, CHR 0x94, CHR 0x82] \<rparr>,
      ''bold'' \<mapsto>
        \<lparr> TopLeft = [CHR 0xE2, CHR 0x94, CHR 0x8F], TopRight = [CHR 0xE2, CHR 0x94, CHR 0x93],
          BottomLeft = [CHR 0xE2, CHR 0x94, CHR 0x97], BottomRight = [CHR 0xE2, CHR 0x94, CHR 0x9B],
          Horizontal = [CHR 0xE2, CHR 0x94, CHR 0x81], Vertical = [CHR 0xE2, CHR 0x94, CHR 0x83] \<rparr>]"

subsection \<open>Formatting an integer (\<open>%d\<close> of fmt.Sprintf)\<close>

fun digits :: "nat \<Rightarrow> string" where
  "digits n = (if n < 10 then [char_of (48 + n)]
               else digits (n div 10) @ [char_of (48 + n mod 10)])"

declare digits.simps [simp del]

definition itoa :: "int \<Rightarrow> string" where
  "itoa i = (if i < 0 then CHR ''-'' # digits (nat (- i)) else digits (nat i))"

subsection \<open>ProgressBar\<close>

record ProgressBar =
  pb_Value :: real
  pb_MaxValue :: real
  pb_Color :: string
  pb_UnfilledColor :: string
  pb_ShowPercentage :: bool
  pb_X :: int
  pb_Y :: int
  pb_Width :: int

definition NewProgressBar ::
  "int \<Rightarrow> int \<Rightarrow> int \<Rightarrow> real \<Rightarrow> real \<Rightarrow> string \<Rightarrow> string \<Rightarrow> bool \<Rightarrow> ProgressBar" where
  "NewProgressBar x y width initialValue maxValue color unfilledColor showPercentage =
     (let maxValue = (if maxValue \<le> 0 then 100 else maxValue);
          initialValue = (if initialValue < 0 then 0 else initialValue);
          initialValue = (if initialValue > maxValue then maxValue else initialValue);
          unfilledColor = (if unfilledColor = [] then colors_Reset else unfilledColor)
      in \<lparr> pb_Value = initialValue, pb_MaxValue = maxValue, pb_Color = color,
           pb_UnfilledColor = unfilledColor, pb_ShowPercentage = showPercentage,
           pb_X = x, pb_Y = y, pb_Width = width \<rparr>)"

record GradientProgressBar =
  gpb_Value :: real
  gpb_MaxValue :: real
  gpb_StartColorHex :: string
  gpb_EndColorHex :: string
  gpb_UnfilledColor :: string
  gpb_ShowPercentage :: bool
  gpb_X :: int
  gpb_Y :: int
  gpb_Width :: int

definition NewGradientProgressBar ::
  "int \<Rightarrow> int \<Rightarrow> int \<Rightarrow> real \<Rightarrow> real \<Rightarrow> string \<Rightarrow> string \<Rightarrow> string \<Rightarrow> bool
     \<Rightarrow> GradientProgressBar" where
  "NewGradientProgressBar x y width initialValue maxValue startColorHex endColorHex
       unfilledColor showPercentage =
     (let maxValue = (if maxValue \<le> 0 then 100 else maxValue);
          initialValue = (if initialValue < 0 then 0 else initialValue);
          initialValue = (if initialValue > maxValue then maxValue else initialValue);
          unfilledColor = (if unfilledColor = [] then colors_Gray2 else unfilledColor)
      in \<lparr> gpb_Value = initialValue, gpb_MaxValue = maxValue,
           gpb_StartColorHex = startColorHex, gpb_EndColorHex = endColorHex,
           gpb_UnfilledColor = unfilledColor, gpb_ShowPercentage = showPercentage,
           gpb_X = x, gpb_Y = y, gpb_Width = width \<rparr>)"

subsection \<open>ScrollBar\<close>

text \<open>
  The field \<open>OnScroll\<close> of the source is a callback \<open>func(newValue int)\<close>. The
  record keeps whether one is installed (\<open>OnScroll != nil\<close>); \<open>SetValue\<close> returns,
  beside the updated scrollbar, the list of arguments the callback was called with, in
  order. The owner of the scrollbar applies the effect of the callback it installed.
\<close>

record ScrollBar =
  sb_X :: int
  sb_Y :: int
  sb_Height :: int
  sb_Value :: int
  sb_MaxValue :: int
  sb_Color :: string
  sb_ActiveColor :: string
  sb_IsActive :: bool
  sb_Visible :: bool
  sb_ContainerID :: string
  sb_thumbChar :: string
  sb_trackChar :: string
  sb_OnScroll :: bool

definition NewScrollBar ::
  "int \<Rightarrow> int \<Rightarrow> int \<Rightarrow> int \<Rightarrow> int \<Rightarrow> string \<Rightarrow> string \<Rightarrow> string \<Rightarrow> ScrollBar" where
  "NewScrollBar x y height value maxValue color activeColor containerID =
     (let height = (if height < 2 then 2 else height);
          value = (if value < 0 then 0 else value);
          maxValue = (if maxValue < 0 then 0 else maxValue);
          value = (if value > maxValue then maxValue else value)
      in \<lparr> sb_X = x, sb_Y = y, sb_Height = height, sb_Value = value,
           sb_MaxValue = maxValue, sb_Color = color, sb_ActiveColor = activeColor,
           sb_IsActive = False, sb_Visible = False, sb_ContainerID = containerID,
           sb_thumbChar = [CHR 0xE2, CHR 0x96, CHR 0x88],
           sb_trackChar = [CHR 0xE2, CHR 0x94, CHR 0x82], sb_OnScroll = False \<rparr>)"

definition SetValue :: "int \<Rightarrow> ScrollBar \<Rightarrow> ScrollBar \<times> int list" where
  "SetValue value sb =
     (let oldValue = sb_Value sb;
          newValue = (if value < 0 then 0
                      else if value > sb_MaxValue sb then sb_MaxValue sb
                      else value)
      in if newValue \<noteq> oldValue
         then (sb\<lparr>sb_Value := newValue\<rparr>, if sb_OnScroll sb then [newValue] else [])
         else (sb, []))"

subsection \<open>Container\<close>

text \<open>
  The container owns the scrollbar \<open>NewContainer\<close> creates for it, so the scrollbar is
  a field of the record. \<open>OnItemSelected\<close> is a callback of the client: the record
  keeps whether one is installed. A method that may call \<open>SetValue\<close> returns the
  calls made to the scrollbar's callback beside the updated container.
\<close>

record Container =
  c_X :: int
  c_Y :: int
  c_Width :: int
  c_Height :: int
  c_Content :: "string list"
  c_scrollBar :: ScrollBar
  c_needsScroll :: bool
  c_totalContentHeight :: int
  c_IsActive :: bool
  c_HighlightedIndex :: int
  c_SelectedIndex :: int
  c_Color :: string
  c_ActiveColor :: string
  c_SelectionColor :: string
  c_OnItemSelected :: bool
  c_cursorAbsX :: int
  c_cursorAbsY :: int
  c_lastConfirmedIndex :: int
  c_hasConfirmedSelection :: bool

definition c_SetValue :: "int \<Rightarrow> Container \<Rightarrow> Container \<times> int list" where
  \<comment> \<open>\<open>c.scrollBar.SetValue(value)\<close>\<close>
  "c_SetValue value c =
     (let (sb, calls) = SetValue value (c_scrollBar c) in (c\<lparr>c_scrollBar := sb\<rparr>, calls))"

definition ensureHighlightVisible :: "Container \<Rightarrow> Container \<times> int list" where
  "ensureHighlightVisible c =
     (if \<not> sb_Visible (c_scrollBar c) \<or> c_HighlightedIndex c < 0 then (c, [])
      else
        let scrollOffset = sb_Value (c_scrollBar c);
            bottomVisibleIndex = scrollOffset + c_Height c - 1
        in if c_HighlightedIndex c < scrollOffset
           then c_SetValue (c_HighlightedIndex c) c
           else if c_HighlightedIndex c > bottomVisibleIndex
           then c_SetValue (c_HighlightedIndex c - c_Height c + 1) c
           else (c, []))"

definition updateScrollState :: "Container \<Rightarrow> Container \<times> int list" where
  "updateScrollState c0 =
     (let c = c0\<lparr>c_totalContentHeight := int (length (c_Content c0))\<rparr>;
          c = c\<lparr>c_needsScroll := (c_totalContentHeight c > c_Height c)\<rparr>;
          c = (if c_HighlightedIndex c \<ge> c_totalContentHeight c
               then (if c_totalContentHeight c > 0
                     then c\<lparr>c_HighlightedIndex := c_totalContentHeight c - 1\<rparr>
                     else c\<lparr>c_HighlightedIndex := - 1\<rparr>)
               else c);
          c = c\<lparr>c_scrollBar := (c_scrollBar c)\<lparr>sb_Visible := c_needsScroll c\<rparr>\<rparr>;
          (c, calls1) =
            (if c_needsScroll c
             then
               let sbMaxValue = c_totalContentHeight c - c_Height c;
                   sbMaxValue = (if sbMaxValue < 0 then 0 else sbMaxValue);
                   c = c\<lparr>c_scrollBar := (c_scrollBar c)\<lparr>sb_MaxValue := sbMaxValue\<rparr>\<rparr>
               in c_SetValue (sb_Value (c_scrollBar c)) c
             else
               c_SetValue 0 (c\<lparr>c_scrollBar := (c_scrollBar c)\<lparr>sb_MaxValue := 0\<rparr>\<rparr>));
          (c, calls2) = ensureHighlightVisible c
      in (c, calls1 @ calls2))"

definition NewContainer :: "int \<Rightarrow> int \<Rightarrow> int \<Rightarrow> int \<Rightarrow> string list \<Rightarrow> Container" where
  "NewContainer x y width height content =
     (let width = (if width < 1 then 1 else width);
          height = (if height < 1 then 1 else height);
          sbX = width - 1;
          sbY = 0;
          sbHeight = height;
          containerID = ''container_'' @ itoa x @ ''_'' @ itoa y @ ''_scrollbar'';
          scrollBar = NewScrollBar sbX sbY sbHeight 0 0 colors_Gray colors_BoldWhite containerID;
          scrollBar = scrollBar\<lparr>sb_Visible := False\<rparr>;
          c = \<lparr> c_X = x, c_Y = y, c_Width = width, c_Height = height, c_Content = content,
                c_scrollBar = scrollBar, c_needsScroll = False, c_totalContentHeight = 0,
                c_IsActive = False, c_HighlightedIndex = 0, c_SelectedIndex = - 1,
                c_Color = [], c_ActiveColor = colors_BoldWhite,
                c_SelectionColor = colors_BgBlue @ colors_BoldWhite,
                c_OnItemSelected = False, c_cursorAbsX = 0, c_cursorAbsY = 0,
                c_lastConfirmedIndex = - 1, c_hasConfirmedSelection = False \<rparr>;
          c = fst (updateScrollState c);
          c = (if c_HighlightedIndex c \<ge> int (length (c_Content c)) \<and> length (c_Content c) > 0
               then c\<lparr>c_HighlightedIndex := int (length (c_Content c)) - 1\<rparr>
               else if length (c_Content c) = 0
               then c\<lparr>c_HighlightedIndex := - 1\<rparr>
               else c)
      in fst (ensureHighlightVisible c))"

definition SetContent :: "string list \<Rightarrow> Container \<Rightarrow> Container \<times> int list" where
  "SetContent content c =
     (let c = (if c_hasConfirmedSelection c \<and>
                  (c_lastConfirmedIndex c < 0 \<or> c_lastConfirmedIndex c \<ge> int (length content))
               then c\<lparr>c_hasConfirmedSelection := False, c_SelectedIndex := - 1\<rparr>
               else c)
      in updateScrollState (c\<lparr>c_Content := content\<rparr>))"

definition HighlightNext :: "Container \<Rightarrow> Container \<times> int list" where
  "HighlightNext c =
     (if c_HighlightedIndex c < c_totalContentHeight c - 1
      then ensureHighlightVisible (c\<lparr>c_HighlightedIndex := c_HighlightedIndex c + 1\<rparr>)
      else (c, []))"

definition HighlightPrevious :: "Container \<Rightarrow> Container \<times> int list" where
  "HighlightPrevious c =
     (if c_HighlightedIndex c > 0
      then ensureHighlightVisible (c\<lparr>c_HighlightedIndex := c_HighlightedIndex c - 1\<rparr>)
      else (c, []))"

definition c_SelectNext :: "Container \<Rightarrow> Container \<times> int list" where
  "c_SelectNext c = HighlightNext c"

definition c_SelectPrevious :: "Container \<Rightarrow> Container \<times> int list" where
  "c_SelectPrevious c = HighlightPrevious c"

text \<open>
  The viewport routine in the words of the specification, to compare the container's
  \<open>ensureHighlightVisible\<close> with.
\<close>

definition maxOffset :: "int \<Rightarrow> int \<Rightarrow> int" where
  "maxOffset contentLength height = max 0 (contentLength - height)"

definition ensureVisible_spec :: "int \<Rightarrow> int \<Rightarrow> int \<Rightarrow> int \<Rightarrow> int" where
  "ensureVisible_spec offset height maxOff highlighted =
     (let offset = (if highlighted < offset then highlighted
                    else if highlighted > offset + height - 1 then highlighted - height + 1
                    else offset)
      in max 0 (min maxOff offset))"


text \<open>
  The state the container's own operations keep: the scrollbar's maximum is the largest
  offset of the content, its value lies in range, it is visible exactly when the content
  is longer than the viewport, and the highlighted index is \<open>-1\<close> (no highlight) or an
  index of the content.
\<close>

definition container_wf :: "Container \<Rightarrow> bool" where
  "container_wf c =
     (1 \<le> c_Height c \<and>
      c_totalContentHeight c = int (length (c_Content c)) \<and>
      sb_MaxValue (c_scrollBar c) = maxOffset (int (length (c_Content c))) (c_Height c) \<and>
      0 \<le> sb_Value (c_scrollBar c) \<and> sb_Value (c_scrollBar c) \<le> sb_MaxValue (c_scrollBar c) \<and>
      sb_Visible (c_scrollBar c) = (int (length (c_Content c)) > c_Height c) \<and>
      - 1 \<le> c_HighlightedIndex c \<and> c_HighlightedIndex c \<le> int (length (c_Content c)) - 1)"

text \<open>Auxiliary functions of the proofs: the value \<open>SetValue\<close> stores, the offset
  \<open>ensureHighlightVisible\<close> leaves, the container before the last step of
  \<open>updateScrollState\<close>.\<close>

definition clampValue :: "int \<Rightarrow> int \<Rightarrow> int" where
  "clampValue mx v = (if v < 0 then 0 else if v > mx then mx else v)"

definition ehvOffset :: "Container \<Rightarrow> int" where
  "ehvOffset c =
     (if \<not> sb_Visible (c_scrollBar c) \<or> c_HighlightedIndex c < 0 then sb_Value (c_scrollBar c)
      else if c_HighlightedIndex c < sb_Value (c_scrollBar c)
      then clampValue (sb_MaxValue (c_scrollBar c)) (c_HighlightedIndex c)
      else if c_HighlightedIndex c > sb_Value (c_scrollBar c) + c_Height c - 1
      then clampValue (sb_MaxValue (c_scrollBar c)) (c_HighlightedIndex c - c_Height c + 1)
      else sb_Value (c_scrollBar c))"

definition ussPre :: "Container \<Rightarrow> Container" where
  "ussPre c0 =
     (let n = int (length (c_Content c0));
          h = (if c_HighlightedIndex c0 \<ge> n then (if n > 0 then n - 1 else - 1)
               else c_HighlightedIndex c0);
          mx = (if n > c_Height c0 then n - c_Height c0 else 0);
          v = (if n > c_Height c0 then clampValue mx (sb_Value (c_scrollBar c0)) else 0)
      in c0\<lparr>c_totalContentHeight := n, c_needsScroll := (n > c_Height c0),
             c_HighlightedIndex := h,
             c_scrollBar := (c_scrollBar c0)\<lparr>sb_Visible := (n > c_Height c0),
                                             sb_MaxValue := mx, sb_Value := v\<rparr>\<rparr>)"


text \<open>
  A container created empty, given 25 rows by \<open>SetContent\<close> (which leaves the
  highlighted index at \<open>-1\<close>) and scrolled down one row through its scrollbar.
\<close>

definition viewport_no_highlight :: Container where
  "viewport_no_highlight =
     (let c = fst (SetContent (replicate 25 ''row'') (NewContainer 0 0 20 10 []))
      in c\<lparr>c_scrollBar := fst (SetValue 1 (c_scrollBar c))\<rparr>)"


text \<open>
  A container of 25 rows and height 10 on whose scrollbar the client has installed a
  callback, scrolled to the last offset, 15; and its scrollbar at the point where
  \<open>updateScrollState\<close> calls \<open>SetValue\<close> with the value stored, the content having
  shrunk to 12 rows: the maximum has just been lowered to 2.
\<close>

definition scrolled_to_end :: Container where
  "scrolled_to_end =
     (let c = NewContainer 0 0 20 10 (replicate 25 ''row'');
          c = c\<lparr>c_scrollBar := (c_scrollBar c)\<lparr>sb_OnScroll := True\<rparr>\<rparr>
      in fst (c_SetValue 15 c))"

definition lowered_scrollBar :: ScrollBar where
  "lowered_scrollBar = (c_scrollBar scrolled_to_end)\<lparr>sb_MaxValue := 2\<rparr>"


subsection \<open>Functions of package strings\<close>

text \<open>
  \<open>strings.ReplaceAll\<close>, \<open>strings.Split\<close> and \<open>strings.Join\<close> of the Go
  library, on the bytes of the strings, scanning from the left and taking non-overlapping
  occurrences as the library does.
\<close>

function ReplaceAll :: "string \<Rightarrow> string \<Rightarrow> string \<Rightarrow> string" where
  "ReplaceAll s old new =
     (if old = [] then new @ concat (map (\<lambda>c. c # new) s)
      else if s = [] then []
      else if prefix old s then new @ ReplaceAll (drop (length old) s) old new
      else hd s # ReplaceAll (tl s) old new)"
  by pat_completeness auto
termination
  by (relation "measure (\<lambda>(s, old, new). length s)") auto

declare ReplaceAll.simps [simp del]

function splitFrom :: "string \<Rightarrow> string \<Rightarrow> string \<Rightarrow> string list" where
  "splitFrom sep cur s =
     (if s = [] then [cur]
      else if sep \<noteq> [] \<and> prefix sep s then cur # splitFrom sep [] (drop (length sep) s)
      else splitFrom sep (cur @ [hd s]) (tl s))"
  by pat_completeness auto
termination
  by (relation "measure (\<lambda>(sep, cur, s). length s)") auto

declare splitFrom.simps [simp del]

definition Split :: "string \<Rightarrow> string \<Rightarrow> string list" where
  "Split s sep = (if sep = [] then map (\<lambda>c. [c]) s else splitFrom sep [] s)"

fun Join :: "string list \<Rightarrow> string \<Rightarrow> string" where
  "Join [] sep = []"
| "Join [x] sep = x"
| "Join (x # y # ys) sep = x @ sep @ Join (y # ys) sep"

subsection \<open>Strings and runes\<close>

text \<open>
  A Go string is a sequence of bytes, a rune a code point (an \<open>int32\<close>). The
  conversion \<open>[]rune(s)\<close> and the loop \<open>for _, r := range s\<close> read the bytes as
  UTF-8: a well-formed encoding of one to four bytes gives its code point, and a byte that
  begins no well-formed encoding gives the rune \<open>U+FFFD\<close> and is passed alone
  (\<open>utf8.DecodeRuneInString\<close>: the rune and the number of bytes it takes). The
  conversions \<open>string(r)\<close> and \<open>string(rs)\<close> write each rune in UTF-8, a rune
  that is no Unicode scalar value as \<open>U+FFFD\<close>.
\<close>

definition RuneError :: int where
  "RuneError = 0xFFFD"

definition secondLo :: "nat \<Rightarrow> nat" where
  \<comment> \<open>the least second byte after the first byte \<open>b0\<close> of a longer encoding\<close>
  "secondLo b0 = (if b0 = 0xE0 then 0xA0 else if b0 = 0xF0 then 0x90 else 0x80)"

definition secondHi :: "nat \<Rightarrow> nat" where
  "secondHi b0 = (if b0 = 0xED then 0x9F else if b0 = 0xF4 then 0x8F else 0xBF)"

definition isCont :: "nat \<Rightarrow> bool" where
  "isCont b = (0x80 \<le> b \<and> b \<le> 0xBF)"

fun DecodeRuneInString :: "string \<Rightarrow> int \<times> nat" where
  "DecodeRuneInString [] = (RuneError, 0)"
| "DecodeRuneInString (c0 # cs) =
     (let b0 = (of_char c0 :: nat)
      in if b0 < 0x80 then (int b0, 1)
         else if 0xC2 \<le> b0 \<and> b0 \<le> 0xDF then
           (case cs of
              c1 # _ \<Rightarrow>
                (let b1 = (of_char c1 :: nat)
                 in if isCont b1 then (int ((b0 - 0xC0) * 0x40 + (b1 - 0x80)), 2)
                    else (RuneError, 1))
            | _ \<Rightarrow> (RuneError, 1))
         else if 0xE0 \<le> b0 \<and> b0 \<le> 0xEF then
           (case cs of
              c1 # c2 # _ \<Rightarrow>
                (let b1 = (of_char c1 :: nat); b2 = (of_char c2 :: nat)
                 in if secondLo b0 \<le> b1 \<and> b1 \<le> secondHi b0 \<and> isCont b2
                    then (int ((b0 - 0xE0) * 0x1000 + (b1 - 0x80) * 0x40 + (b2 - 0x80)), 3)
                    else (RuneError, 1))
            | _ \<Rightarrow> (RuneError, 1))
         else if 0xF0 \<le> b0 \<and> b0 \<le> 0xF4 then
           (case cs of
              c1 # c2 # c3 # _ \<Rightarrow>
                (let b1 = (of_char c1 :: nat); b2 = (of_char c2 :: nat);
                     b3 = (of_char c3 :: nat)
                 in if secondLo b0 \<le> b1 \<and> b1 \<le> secondHi b0 \<and> isCont b2 \<and> isCont b3
                    then (int ((b0 - 0xF0) * 0x40000 + (b1 - 0x80) * 0x1000
                                 + (b2 - 0x80) * 0x40 + (b3 - 0x80)), 4)
                    else (RuneError, 1))
            | _ \<Rightarrow> (RuneError, 1))
         else (RuneError, 1))"

function rangeString :: "string \<Rightarrow> (int \<times> string) list" where
  \<comment> \<open>the runes of \<open>for _, r := range s\<close>, each with the bytes it was read from\<close>
  "rangeString s =
     (if s = [] then []
      else (fst (DecodeRuneInString s), take (snd (DecodeRuneInString s)) s)
             # rangeString (drop (snd (DecodeRuneInString s)) s))"
  by pat_completeness auto
termination
  by (relation "measure length") (auto simp: neq_Nil_conv Let_def split: list.splits)

declare rangeString.simps [simp del]

definition runesOf :: "string \<Rightarrow> int list" where
  \<comment> \<open>\<open>[]rune(s)\<close>\<close>
  "runesOf s = map fst (rangeString s)"

definition encodeRune :: "int \<Rightarrow> string" where
  \<comment> \<open>\<open>string(r)\<close>\<close>
  "encodeRune r =
     (if r < 0 \<or> r > 0x10FFFF \<or> (0xD800 \<le> r \<and> r \<le> 0xDFFF)
      then [CHR 0xEF, CHR 0xBF, CHR 0xBD]
      else
        let n = nat r
        in if n < 0x80 then [char_of n]
           else if n < 0x800 then [char_of (0xC0 + n div 0x40), char_of (0x80 + n mod 0x40)]
           else if n < 0x10000
           then [char_of (0xE0 + n div 0x1000), char_of (0x80 + (n div 0x40) mod 0x40),
                 char_of (0x80 + n mod 0x40)]
           else [char_of (0xF0 + n div 0x40000), char_of (0x80 + (n div 0x1000) mod 0x40),
                 char_of (0x80 + (n div 0x40) mod 0x40), char_of (0x80 + n mod 0x40)])"

definition stringOf :: "int list \<Rightarrow> string" where
  \<comment> \<open>\<open>string(rs)\<close>\<close>
  "stringOf rs = concat (map encodeRune rs)"

definition IsSpace :: "int \<Rightarrow> bool" where
  \<comment> \<open>\<open>unicode.IsSpace\<close>: the white space of Latin-1, then of the rest of Unicode\<close>
  "IsSpace r =
     (if 0 \<le> r \<and> r \<le> 0xFF
      then r = 0x09 \<or> r = 0x0A \<or> r = 0x0B \<or> r = 0x0C \<or> r = 0x0D \<or> r = 0x20
           \<or> r = 0x85 \<or> r = 0xA0
      else r = 0x1680 \<or> (0x2000 \<le> r \<and> r \<le> 0x200A) \<or> r = 0x2028 \<or> r = 0x2029
           \<or> r = 0x202F \<or> r = 0x205F \<or> r = 0x3000)"

fun fieldsFrom :: "string \<Rightarrow> (int \<times> string) list \<Rightarrow> string list" where
  "fieldsFrom cur [] = (if cur = [] then [] else [cur])"
| "fieldsFrom cur ((r, bs) # rest) =
     (if IsSpace r then (if cur = [] then fieldsFrom [] rest else cur # fieldsFrom [] rest)
      else fieldsFrom (cur @ bs) rest)"

definition Fields :: "string \<Rightarrow> string list" where
  \<comment> \<open>\<open>strings.Fields\<close>: the maximal runs of runes that are no white space\<close>
  "Fields s = fieldsFrom [] (rangeString s)"

subsection \<open>TextArea\<close>

text \<open>
  The text area owns its scrollbar, a field of the record. \<open>NewTextArea\<close> installs
  on it the callback \<open>func(newValue int) { ta.viewTopLine = newValue }\<close>;
  \<open>ta_SetValue\<close> is \<open>ta.scrollBar.SetValue\<close> followed by the effect of the calls
  made to that callback. A method that slices the runes of a line at the cursor column
  panics when the column lies outside them: its result is an option.
\<close>

record TextArea =
  ta_X :: int
  ta_Y :: int
  ta_Width :: int
  ta_Height :: int
  ta_Color :: string
  ta_ActiveColor :: string
  ta_IsActive :: bool
  ta_Lines :: "string list"
  ta_cursorLine :: int
  ta_cursorCol :: int
  ta_viewTopLine :: int
  ta_scrollBar :: ScrollBar
  ta_needsScroll :: bool
  ta_maxChars :: int
  ta_wordCount :: int
  ta_charCount :: int
  ta_cursorAbsX :: int
  ta_cursorAbsY :: int
  ta_showWordCount :: bool
  ta_showCharCount :: bool
  ta_bottomLineText :: string

definition ta_SetValue :: "int \<Rightarrow> TextArea \<Rightarrow> TextArea" where
  "ta_SetValue value ta =
     (let (sb, calls) = SetValue value (ta_scrollBar ta)
      in fold (\<lambda>newValue t. t\<lparr>ta_viewTopLine := newValue\<rparr>) calls (ta\<lparr>ta_scrollBar := sb\<rparr>))"

definition charCountOf :: "string list \<Rightarrow> int" where
  \<comment> \<open>the loop of \<open>calculateCounts\<close>: the runes of every line and one newline between lines\<close>
  "charCountOf ls = (\<Sum>l\<leftarrow>ls. int (length (runesOf l))) + (int (length ls) - 1)"

definition calculateCounts :: "TextArea \<Rightarrow> TextArea" where
  "calculateCounts ta =
     (let fullText = Join (ta_Lines ta) '' '';
          words = Fields fullText;
          totalWords = int (length words);
          charCount = (if ta_Lines ta = [] then 0 else charCountOf (ta_Lines ta));
          parts = (if ta_showWordCount ta then [''Words: '' @ itoa totalWords] else []);
          parts = (if ta_showCharCount ta
                   then parts @ [''Chars: '' @ itoa charCount @
                                 (if ta_maxChars ta > 0 then ''/'' @ itoa (ta_maxChars ta) else [])]
                   else parts)
      in ta\<lparr>ta_charCount := charCount, ta_wordCount := totalWords,
             ta_bottomLineText := Join parts '' | ''\<rparr>)"

definition ta_updateScrollState :: "TextArea \<Rightarrow> TextArea" where
  "ta_updateScrollState ta0 =
     (let contentHeight = int (length (ta_Lines ta0));
          visibleHeight = ta_Height ta0 - 1;
          visibleHeight = (if visibleHeight < 1 then 1 else visibleHeight);
          ta = ta0\<lparr>ta_needsScroll := (contentHeight > visibleHeight)\<rparr>;
          ta = ta\<lparr>ta_scrollBar := (ta_scrollBar ta)\<lparr>sb_Visible := ta_needsScroll ta\<rparr>\<rparr>
      in if ta_needsScroll ta
         then
           let sbMaxValue = contentHeight - visibleHeight;
               sbMaxValue = (if sbMaxValue < 0 then 0 else sbMaxValue);
               ta = ta\<lparr>ta_scrollBar := (ta_scrollBar ta)\<lparr>sb_MaxValue := sbMaxValue,
                                                          sb_Height := visibleHeight\<rparr>\<rparr>;
               ta = ta_SetValue (sb_Value (ta_scrollBar ta)) ta
           in ta\<lparr>ta_viewTopLine := sb_Value (ta_scrollBar ta)\<rparr>
         else
           let ta = ta\<lparr>ta_scrollBar := (ta_scrollBar ta)\<lparr>sb_MaxValue := 0\<rparr>\<rparr>;
               ta = ta_SetValue 0 ta
           in ta\<lparr>ta_viewTopLine := 0\<rparr>)"

definition ensureCursorVisible :: "TextArea \<Rightarrow> TextArea" where
  "ensureCursorVisible ta =
     (let visibleHeight = ta_Height ta - 1;
          visibleHeight = (if visibleHeight < 1 then 1 else visibleHeight);
          bottomVisibleLine = ta_viewTopLine ta + visibleHeight - 1
      in if ta_cursorLine ta < ta_viewTopLine ta
         then (let ta = ta\<lparr>ta_viewTopLine := ta_cursorLine ta\<rparr>
               in ta_SetValue (ta_viewTopLine ta) ta)
         else if ta_cursorLine ta > bottomVisibleLine
         then (let ta = ta\<lparr>ta_viewTopLine := ta_cursorLine ta - visibleHeight + 1\<rparr>
               in ta_SetValue (ta_viewTopLine ta) ta)
         else ta)"

definition NewTextArea ::
  "string \<Rightarrow> int \<Rightarrow> int \<Rightarrow> int \<Rightarrow> int \<Rightarrow> int \<Rightarrow> string \<Rightarrow> string \<Rightarrow> bool \<Rightarrow> bool \<Rightarrow> TextArea" where
  "NewTextArea initialText x y width height maxChars color activeColor showWordCount
       showCharCount =
     (let width = (if width < 3 then 3 else width);
          height = (if height < 2 then 2 else height);
          lines = Split (ReplaceAll initialText [CHR 0x0D, CHR 0x0A] [CHR 0x0A]) [CHR 0x0A];
          lines = (if length lines = 0 then [[]] else lines);
          sbX = width - 1;
          sbY = 0;
          sbHeight = height - 1;
          sbHeight = (if sbHeight < 1 then 1 else sbHeight);
          containerID = ''textarea_'' @ itoa x @ ''_'' @ itoa y @ ''_scrollbar'';
          scrollBar = NewScrollBar sbX sbY sbHeight 0 0 colors_Gray colors_BoldWhite containerID;
          scrollBar = scrollBar\<lparr>sb_Visible := False\<rparr>;
          ta = \<lparr> ta_X = x, ta_Y = y, ta_Width = width, ta_Height = height, ta_Color = color,
                 ta_ActiveColor = activeColor, ta_IsActive = False, ta_Lines = lines,
                 ta_cursorLine = 0, ta_cursorCol = 0, ta_viewTopLine = 0,
                 ta_scrollBar = scrollBar, ta_needsScroll = False, ta_maxChars = maxChars,
                 ta_wordCount = 0, ta_charCount = 0, ta_cursorAbsX = 0, ta_cursorAbsY = 0,
                 ta_showWordCount = showWordCount, ta_showCharCount = showCharCount,
                 ta_bottomLineText = [] \<rparr>;
          ta = ta\<lparr>ta_scrollBar := (ta_scrollBar ta)\<lparr>sb_OnScroll := True\<rparr>\<rparr>;
          ta = calculateCounts ta;
          ta = ta_updateScrollState ta
      in ensureCursorVisible ta)"

definition clampCursorCol :: "TextArea \<Rightarrow> TextArea" where
  "clampCursorCol ta0 =
     (let ta = (if ta_cursorLine ta0 < 0 then ta0\<lparr>ta_cursorLine := 0\<rparr> else ta0);
          ta = (if ta_cursorLine ta \<ge> int (length (ta_Lines ta))
                then (if length (ta_Lines ta) > 0
                      then ta\<lparr>ta_cursorLine := int (length (ta_Lines ta)) - 1\<rparr>
                      else ta\<lparr>ta_Lines := [[]], ta_cursorLine := 0\<rparr>)
                else ta)
      in if length (ta_Lines ta) = 0
         then ta\<lparr>ta_Lines := [[]], ta_cursorLine := 0, ta_cursorCol := 0\<rparr>
         else
           let currentLineLen = int (length (runesOf (ta_Lines ta ! nat (ta_cursorLine ta))))
           in if ta_cursorCol ta < 0 then ta\<lparr>ta_cursorCol := 0\<rparr>
              else if ta_cursorCol ta > currentLineLen then ta\<lparr>ta_cursorCol := currentLineLen\<rparr>
              else ta)"

definition lineOutOfRange :: "TextArea \<Rightarrow> bool" where
  \<comment> \<open>\<open>ta.cursorLine < 0 || ta.cursorLine >= len(ta.Lines)\<close>\<close>
  "lineOutOfRange ta = (ta_cursorLine ta < 0 \<or> ta_cursorLine ta \<ge> int (length (ta_Lines ta)))"

definition colOutOfRange :: "int \<Rightarrow> int list \<Rightarrow> bool" where
  \<comment> \<open>a bound of a slice of runes the Go runtime rejects\<close>
  "colOutOfRange col runes = (col < 0 \<or> col > int (length runes))"

definition afterEdit :: "TextArea \<Rightarrow> TextArea" where
  \<comment> \<open>the four calls that end every editing method\<close>
  "afterEdit ta = ensureCursorVisible (ta_updateScrollState (calculateCounts (clampCursorCol ta)))"

definition InsertChar :: "int \<Rightarrow> TextArea \<Rightarrow> TextArea option" where
  "InsertChar r ta0 =
     (if ta_IsActive ta0 then
        if ta_maxChars ta0 > 0 \<and> ta_charCount ta0 \<ge> ta_maxChars ta0 \<and> r \<noteq> 0x0A then Some ta0
        else
          let ta = (if lineOutOfRange ta0 then clampCursorCol ta0 else ta0);
              currentLineRunes = runesOf (ta_Lines ta ! nat (ta_cursorLine ta));
              col = ta_cursorCol ta
          in if colOutOfRange col currentLineRunes then None
             else if r = 0x0A then
               let textAfterCursor = stringOf (drop (nat col) currentLineRunes);
                   ls = (ta_Lines ta)[nat (ta_cursorLine ta) :=
                                        stringOf (take (nat col) currentLineRunes)];
                   nextLineIndex = ta_cursorLine ta + 1;
                   ls = take (nat nextLineIndex) ls @ [textAfterCursor] @ drop (nat nextLineIndex) ls
               in Some (afterEdit (ta\<lparr>ta_Lines := ls, ta_cursorLine := nextLineIndex,
                                        ta_cursorCol := 0\<rparr>))
             else
               let newLine = stringOf (take (nat col) currentLineRunes) @ encodeRune r
                               @ stringOf (drop (nat col) currentLineRunes)
               in Some (afterEdit (ta\<lparr>ta_Lines := (ta_Lines ta)[nat (ta_cursorLine ta) := newLine],
                                        ta_cursorCol := col + 1\<rparr>))
      else Some ta0)"

definition DeleteChar :: "TextArea \<Rightarrow> TextArea option" where
  "DeleteChar ta0 =
     (if ta_IsActive ta0 then
        if ta_cursorLine ta0 = 0 \<and> ta_cursorCol ta0 = 0 then Some ta0
        else
          let ta = (if lineOutOfRange ta0 then clampCursorCol ta0 else ta0);
              col = ta_cursorCol ta
          in if col > 0 then
               let currentLineRunes = runesOf (ta_Lines ta ! nat (ta_cursorLine ta))
               in if colOutOfRange col currentLineRunes then None
                  else
                    let newLine = stringOf (take (nat (col - 1)) currentLineRunes)
                                    @ stringOf (drop (nat col) currentLineRunes)
                    in Some (afterEdit (ta\<lparr>ta_Lines := (ta_Lines ta)[nat (ta_cursorLine ta) := newLine],
                                             ta_cursorCol := col - 1\<rparr>))
             else
               let prevLineIndex = ta_cursorLine ta - 1
               in if prevLineIndex < 0 then None
                  else
                    let prevLineRunes = runesOf (ta_Lines ta ! nat prevLineIndex);
                        currentLineRunes = runesOf (ta_Lines ta ! nat (ta_cursorLine ta));
                        newCursorCol = int (length prevLineRunes);
                        ls = (ta_Lines ta)[nat prevLineIndex :=
                                             stringOf prevLineRunes @ stringOf currentLineRunes];
                        ls = take (nat (ta_cursorLine ta)) ls @ drop (nat (ta_cursorLine ta + 1)) ls
                    in Some (afterEdit (ta\<lparr>ta_Lines := ls, ta_cursorLine := prevLineIndex,
                                             ta_cursorCol := newCursorCol\<rparr>))
      else Some ta0)"

definition DeleteForward :: "TextArea \<Rightarrow> TextArea option" where
  "DeleteForward ta0 =
     (if ta_IsActive ta0 then
        let ta = (if lineOutOfRange ta0 then clampCursorCol ta0 else ta0)
        in if lineOutOfRange ta then Some ta
           else
             let currentLineRunes = runesOf (ta_Lines ta ! nat (ta_cursorLine ta));
                 col = ta_cursorCol ta
             in if col < int (length currentLineRunes) then
                  if col < 0 then None
                  else
                    let newLine = stringOf (take (nat col) currentLineRunes)
                                    @ stringOf (drop (nat (col + 1)) currentLineRunes)
                    in Some (afterEdit (ta\<lparr>ta_Lines := (ta_Lines ta)[nat (ta_cursorLine ta) := newLine]\<rparr>))
                else if ta_cursorLine ta < int (length (ta_Lines ta)) - 1 then
                  let nextLineIndex = ta_cursorLine ta + 1;
                      nextLineRunes = runesOf (ta_Lines ta ! nat nextLineIndex);
                      ls = (ta_Lines ta)[nat (ta_cursorLine ta) :=
                                           stringOf currentLineRunes @ stringOf nextLineRunes];
                      ls = take (nat nextLineIndex) ls @ drop (nat (nextLineIndex + 1)) ls
                  in Some (afterEdit (ta\<lparr>ta_Lines := ls\<rparr>))
                else Some ta
      else Some ta0)"

definition MoveCursorLeft :: "TextArea \<Rightarrow> TextArea" where
  "MoveCursorLeft ta =
     ensureCursorVisible
       (if ta_cursorCol ta > 0 then ta\<lparr>ta_cursorCol := ta_cursorCol ta - 1\<rparr>
        else if ta_cursorLine ta > 0 then
          let ta = ta\<lparr>ta_cursorLine := ta_cursorLine ta - 1\<rparr>
          in if ta_cursorLine ta \<ge> 0 \<and> ta_cursorLine ta < int (length (ta_Lines ta))
             then ta\<lparr>ta_cursorCol := int (length (runesOf (ta_Lines ta ! nat (ta_cursorLine ta))))\<rparr>
             else ta\<lparr>ta_cursorCol := 0\<rparr>
        else ta)"

definition MoveCursorRight :: "TextArea \<Rightarrow> TextArea" where
  "MoveCursorRight ta0 =
     (let ta = (if lineOutOfRange ta0 then clampCursorCol ta0 else ta0)
      in if lineOutOfRange ta then ta
         else
           let currentLineLen = int (length (runesOf (ta_Lines ta ! nat (ta_cursorLine ta))))
           in ensureCursorVisible
                (if ta_cursorCol ta < currentLineLen then ta\<lparr>ta_cursorCol := ta_cursorCol ta + 1\<rparr>
                 else if ta_cursorLine ta < int (length (ta_Lines ta)) - 1
                 then ta\<lparr>ta_cursorLine := ta_cursorLine ta + 1, ta_cursorCol := 0\<rparr>
                 else ta))"

definition MoveCursorUp :: "TextArea \<Rightarrow> TextArea" where
  "MoveCursorUp ta =
     (if ta_cursorLine ta > 0
      then ensureCursorVisible (clampCursorCol (ta\<lparr>ta_cursorLine := ta_cursorLine ta - 1\<rparr>))
      else ta)"

definition MoveCursorDown :: "TextArea \<Rightarrow> TextArea" where
  "MoveCursorDown ta =
     (if ta_cursorLine ta < int (length (ta_Lines ta)) - 1
      then ensureCursorVisible (clampCursorCol (ta\<lparr>ta_cursorLine := ta_cursorLine ta + 1\<rparr>))
      else ta)"

definition GetText :: "TextArea \<Rightarrow> string" where
  "GetText ta = Join (ta_Lines ta) [CHR 0x0A]"

definition SetText :: "string \<Rightarrow> TextArea \<Rightarrow> TextArea" where
  "SetText text ta =
     (let ls = Split (ReplaceAll text [CHR 0x0D, CHR 0x0A] [CHR 0x0A]) [CHR 0x0A];
          ls = (if length ls = 0 then [[]] else ls);
          ta = ta\<lparr>ta_Lines := ls, ta_cursorLine := 0, ta_cursorCol := 0, ta_viewTopLine := 0\<rparr>
      in ensureCursorVisible (ta_updateScrollState (calculateCounts ta)))"



definition cursor_inv :: "TextArea \<Rightarrow> bool" where
  "cursor_inv ta =
     (ta_Lines ta \<noteq> [] \<and>
      0 \<le> ta_cursorLine ta \<and> ta_cursorLine ta < int (length (ta_Lines ta)) \<and>
      0 \<le> ta_cursorCol ta \<and>
      ta_cursorCol ta \<le> int (length (runesOf (ta_Lines ta ! nat (ta_cursorLine ta)))))"



text \<open>
  The normalisation in the words of the specification: every occurrence of a carriage
  return followed by a line feed is replaced by a line feed, scanning from the left.
\<close>

fun crlf_to_lf :: "string \<Rightarrow> string" where
  "crlf_to_lf (c # d # cs) =
     (if c = CHR 0x0D \<and> d = CHR 0x0A then CHR 0x0A # crlf_to_lf cs else c # crlf_to_lf (d # cs))"
| "crlf_to_lf cs = cs"


text \<open>The rune a conversion to a string and back gives: the rune itself when it is a
  Unicode scalar value, \<open>U+FFFD\<close> otherwise.\<close>

definition validRune :: "int \<Rightarrow> int" where
  "validRune r =
     (if r < 0 \<or> r > 0x10FFFF \<or> (0xD800 \<le> r \<and> r \<le> 0xDFFF) then RuneError else r)"

subsection \<open>Menu, MenuItem and MenuBar\<close>

text \<open>
  A menu owns its items and an item may own a submenu: the menus of a bar form a tree, a
  datatype here. The fields of the two structs are records; the back-reference
  \<open>Parent\<close> of an item (written by \<open>AddItem\<close>, read nowhere) is the position of the
  item in the tree. \<open>Action\<close> is a callback \<open>func() bool\<close> of the client: an item
  keeps a handle of it (\<open>None\<close> for nil), and the method that calls it takes the
  function \<open>run\<close> that gives the value each callback returns; what a callback does
  beside returning is outside the model.

  \<open>MenuBar.ActiveMenu\<close> points at a submenu of the bar's tree or is nil: the model
  keeps the path to that submenu, the indices of the items to follow from the top-level
  menu, or \<open>None\<close>.
\<close>

record MenuItemRec =
  mi_Text :: string
  mi_Color :: string
  mi_ActiveColor :: string
  mi_Action :: "nat option"
  mi_IsActive :: bool
  mi_Width :: int
  mi_X :: int
  mi_Y :: int

record MenuRec =
  m_X :: int
  m_Y :: int
  m_Width :: int
  m_Height :: int
  m_Color :: string
  m_BorderColor :: string
  m_SelectedIdx :: int
  m_IsOpen :: bool
  m_IsTopLevel :: bool
  m_zIndex :: int

datatype Menu = Menu (menuRec: MenuRec) (Items: "MenuItem list")
  and MenuItem = MenuItem (itemRec: MenuItemRec) (SubMenu: "Menu option")

text \<open>
  \<open>getStringDisplayWidth\<close> of window.go reads the string rune by rune and asks
  \<open>width.LookupRune\<close> of the library golang.org/x/text/width for the East Asian width
  of each rune: that table is the parameter \<open>kind\<close>. \<open>RuneLen\<close> is
  \<open>utf8.RuneLen\<close>, the number of bytes of the encoding of a rune.
\<close>

datatype Kind =
    Neutral
  | EastAsianAmbiguous
  | EastAsianWide
  | EastAsianNarrow
  | EastAsianFullwidth
  | EastAsianHalfwidth

definition RuneLen :: "int \<Rightarrow> int" where
  "RuneLen r =
     (if r < 0 then - 1
      else if r \<le> 0x7F then 1
      else if r \<le> 0x7FF then 2
      else if 0xD800 \<le> r \<and> r \<le> 0xDFFF then - 1
      else if r \<le> 0xFFFF then 3
      else if r \<le> 0x10FFFF then 4
      else - 1)"

definition getStringDisplayWidth :: "(int \<Rightarrow> Kind) \<Rightarrow> string \<Rightarrow> int" where
  "getStringDisplayWidth kind s =
     fold (\<lambda>r displayWidth.
             case kind r of
               EastAsianWide \<Rightarrow> displayWidth + 2
             | EastAsianFullwidth \<Rightarrow> displayWidth + 2
             | Neutral \<Rightarrow> (if RuneLen r \<ge> 4 then displayWidth + 2 else displayWidth + 1)
             | _ \<Rightarrow> displayWidth + 1)
          (runesOf s) 0"

definition NewMenuItem ::
  "(int \<Rightarrow> Kind) \<Rightarrow> string \<Rightarrow> string \<Rightarrow> string \<Rightarrow> nat option \<Rightarrow> MenuItem" where
  "NewMenuItem kind text color activeColor action =
     (let displayWidth = getStringDisplayWidth kind text
      in MenuItem \<lparr> mi_Text = text, mi_Color = color, mi_ActiveColor = activeColor,
                     mi_Action = action, mi_IsActive = False,
                     mi_Width = displayWidth + 2, mi_X = 0, mi_Y = 0 \<rparr> None)"

definition NewMenu :: "int \<Rightarrow> int \<Rightarrow> string \<Rightarrow> string \<Rightarrow> bool \<Rightarrow> Menu" where
  "NewMenu x y color borderColor isTopLevel =
     Menu \<lparr> m_X = x, m_Y = y, m_Width = 0, m_Height = 0, m_Color = color,
            m_BorderColor = borderColor, m_SelectedIdx = - 1, m_IsOpen = isTopLevel,
            m_IsTopLevel = isTopLevel, m_zIndex = 150 \<rparr> []"

definition Menu_GetZIndex :: "Menu \<Rightarrow> int" where
  "Menu_GetZIndex m = (if m_IsTopLevel (menuRec m) then 100 else 150)"

definition recalculateSize :: "(int \<Rightarrow> Kind) \<Rightarrow> Menu \<Rightarrow> Menu" where
  "recalculateSize kind m =
     (if m_IsTopLevel (menuRec m)
      then Menu ((menuRec m)\<lparr>m_Width := (\<Sum>item\<leftarrow>Items m. mi_Width (itemRec item)),
                              m_Height := 1\<rparr>) (Items m)
      else
        let width = fold (\<lambda>item width.
                       let displayWidth = getStringDisplayWidth kind (mi_Text (itemRec item))
                       in if displayWidth + 2 > width then displayWidth + 2 else width)
                     (Items m) 0
        in Menu ((menuRec m)\<lparr>m_Width := width + 4,
                                m_Height := int (length (Items m)) + 2\<rparr>) (Items m))"

definition AddItem :: "(int \<Rightarrow> Kind) \<Rightarrow> MenuItem \<Rightarrow> Menu \<Rightarrow> Menu" where
  "AddItem kind item m =
     (let r = itemRec item;
          r = (if m_IsTopLevel (menuRec m)
               then (if length (Items m) > 0
                     then (let prevItem = itemRec (last (Items m))
                           in r\<lparr>mi_X := mi_X prevItem + mi_Width prevItem\<rparr>)
                     else r\<lparr>mi_X := 0\<rparr>)\<lparr>mi_Y := 0\<rparr>
               else r\<lparr>mi_X := 1, mi_Y := int (length (Items m)) + 1\<rparr>)
      in recalculateSize kind (Menu (menuRec m) (Items m @ [MenuItem r (SubMenu item)])))"

definition setItemActive :: "bool \<Rightarrow> MenuItem \<Rightarrow> MenuItem" where
  "setItemActive b item = MenuItem ((itemRec item)\<lparr>mi_IsActive := b\<rparr>) (SubMenu item)"

definition goRem :: "int \<Rightarrow> int \<Rightarrow> int" where
  \<comment> \<open>Go's \<open>%\<close>: the remainder of the division that truncates towards zero\<close>
  "goRem a b = sgn a * (\<bar>a\<bar> mod \<bar>b\<bar>)"

definition Menu_SelectNext :: "Menu \<Rightarrow> Menu option" where
  "Menu_SelectNext m =
     (if length (Items m) = 0 then Some m
      else
        let n = int (length (Items m));
            sel = m_SelectedIdx (menuRec m);
            items = (if sel \<ge> 0 \<and> sel < n
                     then (Items m)[nat sel := setItemActive False (Items m ! nat sel)]
                     else Items m);
            sel = goRem (sel + 1) n
        in if sel < 0 \<or> sel \<ge> n then None
           else Some (Menu ((menuRec m)\<lparr>m_SelectedIdx := sel\<rparr>)
                        (items[nat sel := setItemActive True (items ! nat sel)])))"

definition Menu_SelectPrevious :: "Menu \<Rightarrow> Menu option" where
  "Menu_SelectPrevious m =
     (if length (Items m) = 0 then Some m
      else
        let n = int (length (Items m));
            sel = m_SelectedIdx (menuRec m);
            items = (if sel \<ge> 0 \<and> sel < n
                     then (Items m)[nat sel := setItemActive False (Items m ! nat sel)]
                     else Items m);
            sel = sel - 1;
            sel = (if sel < 0 then n - 1 else sel)
        in if sel \<ge> n then None
           else Some (Menu ((menuRec m)\<lparr>m_SelectedIdx := sel\<rparr>)
                        (items[nat sel := setItemActive True (items ! nat sel)])))"

definition openSubMenu :: "int \<Rightarrow> int \<Rightarrow> Menu \<Rightarrow> Menu" where
  \<comment> \<open>the statements that open a submenu at a position and select its first item\<close>
  "openSubMenu x y sm =
     Menu ((menuRec sm)\<lparr>m_X := x, m_Y := y, m_IsOpen := True, m_SelectedIdx := 0\<rparr>)
       (if length (Items sm) > 0 then (Items sm)[0 := setItemActive True (Items sm ! 0)]
        else Items sm)"

definition Menu_ActivateSelected :: "(nat \<Rightarrow> bool) \<Rightarrow> Menu \<Rightarrow> bool \<times> Menu" where
  "Menu_ActivateSelected run m =
     (let sel = m_SelectedIdx (menuRec m)
      in if sel < 0 \<or> sel \<ge> int (length (Items m)) then (False, m)
         else
           let item = Items m ! nat sel
           in case SubMenu item of
                Some sm \<Rightarrow>
                  let sm' = (if m_IsTopLevel (menuRec m)
                             then openSubMenu (m_X (menuRec m) + mi_X (itemRec item))
                                    (m_Y (menuRec m) + 1) sm
                             else openSubMenu (m_X (menuRec m) + m_Width (menuRec m))
                                    (m_Y (menuRec m) + mi_Y (itemRec item) - 1) sm)
                  in (False, Menu (menuRec m) ((Items m)[nat sel := MenuItem (itemRec item) (Some sm')]))
              | None \<Rightarrow>
                  (case mi_Action (itemRec item) of
                     Some a \<Rightarrow> (run a, m)
                   | None \<Rightarrow> (False, m)))"

fun CloseSubMenus :: "Menu \<Rightarrow> Menu" and closeSubMenuOf :: "MenuItem \<Rightarrow> MenuItem" where
  "CloseSubMenus (Menu r items) = Menu r (map closeSubMenuOf items)"
| "closeSubMenuOf (MenuItem r None) = MenuItem r None"
| "closeSubMenuOf (MenuItem r (Some sm)) =
     MenuItem r (Some (case CloseSubMenus sm of
                         Menu r' items' \<Rightarrow> Menu (r'\<lparr>m_IsOpen := False\<rparr>) items'))"

fun collectSubmenus :: "Menu \<Rightarrow> Menu list" and collectSubmenuOf :: "MenuItem \<Rightarrow> Menu list" where
  "collectSubmenus (Menu r items) = concat (map collectSubmenuOf items)"
| "collectSubmenuOf (MenuItem r None) = []"
| "collectSubmenuOf (MenuItem r (Some sm)) =
     (if m_IsOpen (menuRec sm) then sm # collectSubmenus sm else [])"

text \<open>The submenu a path leads to, and a change made to it in place.\<close>

fun menuAt :: "nat list \<Rightarrow> Menu \<Rightarrow> Menu option" where
  "menuAt [] m = Some m"
| "menuAt (i # p) m =
     (if i < length (Items m)
      then (case SubMenu (Items m ! i) of Some sm \<Rightarrow> menuAt p sm | None \<Rightarrow> None)
      else None)"

fun modifyAt :: "nat list \<Rightarrow> (Menu \<Rightarrow> Menu option) \<Rightarrow> Menu \<Rightarrow> Menu option" where
  "modifyAt [] f m = f m"
| "modifyAt (i # p) f m =
     (if i < length (Items m)
      then (case SubMenu (Items m ! i) of
              Some sm \<Rightarrow>
                (case modifyAt p f sm of
                   Some sm' \<Rightarrow>
                     Some (Menu (menuRec m)
                             ((Items m)[i := MenuItem (itemRec (Items m ! i)) (Some sm')]))
                 | None \<Rightarrow> None)
            | None \<Rightarrow> None)
      else None)"

record MenuBar =
  mb_Menu :: Menu
  mb_X :: int
  mb_Y :: int
  mb_Width :: int
  mb_BackgroundColor :: string
  mb_IsActive :: bool
  mb_ActiveMenu :: "nat list option"
  mb_zIndex :: int

definition NewMenuBar :: "int \<Rightarrow> int \<Rightarrow> int \<Rightarrow> string \<Rightarrow> string \<Rightarrow> string \<Rightarrow> MenuBar" where
  "NewMenuBar x y width color borderColor bgColor =
     \<lparr> mb_Menu = NewMenu x y color borderColor True, mb_X = x, mb_Y = y, mb_Width = width,
       mb_BackgroundColor = bgColor, mb_IsActive = False, mb_ActiveMenu = None,
       mb_zIndex = 100 \<rparr>"

definition MenuBar_GetZIndex :: "MenuBar \<Rightarrow> int" where
  "MenuBar_GetZIndex mb = 100"

definition Activate :: "MenuBar \<Rightarrow> MenuBar" where
  "Activate mb0 =
     (let mb = mb0\<lparr>mb_IsActive := True\<rparr>;
          m = mb_Menu mb
      in if m_SelectedIdx (menuRec m) < 0 \<and> length (Items m) > 0
         then mb\<lparr>mb_Menu := Menu ((menuRec m)\<lparr>m_SelectedIdx := 0\<rparr>)
                                ((Items m)[0 := setItemActive True (Items m ! 0)])\<rparr>
         else mb)"

definition Deactivate :: "MenuBar \<Rightarrow> MenuBar" where
  "Deactivate mb0 =
     (let mb = mb0\<lparr>mb_IsActive := False, mb_ActiveMenu := None\<rparr>;
          m = mb_Menu mb;
          sel = m_SelectedIdx (menuRec m);
          items = (if sel \<ge> 0 \<and> sel < int (length (Items m))
                   then (Items m)[nat sel := setItemActive False (Items m ! nat sel)]
                   else Items m)
      in mb\<lparr>mb_Menu := CloseSubMenus (Menu ((menuRec m)\<lparr>m_SelectedIdx := - 1\<rparr>) items)\<rparr>)"

definition withMenu :: "MenuBar \<Rightarrow> Menu option \<Rightarrow> MenuBar option" where
  "withMenu mb r = (case r of Some m \<Rightarrow> Some (mb\<lparr>mb_Menu := m\<rparr>) | None \<Rightarrow> None)"

definition MoveRight :: "MenuBar \<Rightarrow> MenuBar option" where
  "MoveRight mb =
     (if \<not> mb_IsActive mb \<or> mb_ActiveMenu mb \<noteq> None then Some mb
      else withMenu mb (Menu_SelectNext (mb_Menu mb)))"

definition MoveLeft :: "MenuBar \<Rightarrow> MenuBar option" where
  "MoveLeft mb =
     (if \<not> mb_IsActive mb \<or> mb_ActiveMenu mb \<noteq> None then Some mb
      else withMenu mb (Menu_SelectPrevious (mb_Menu mb)))"

definition MoveDown :: "MenuBar \<Rightarrow> MenuBar option" where
  "MoveDown mb =
     (if \<not> mb_IsActive mb then Some mb
      else case mb_ActiveMenu mb of
        Some p \<Rightarrow> withMenu mb (modifyAt p Menu_SelectNext (mb_Menu mb))
      | None \<Rightarrow>
          let m = mb_Menu mb; sel = m_SelectedIdx (menuRec m)
          in if sel \<ge> 0 \<and> sel < int (length (Items m))
             then
               let item = Items m ! nat sel
               in case SubMenu item of
                    Some sm \<Rightarrow>
                      let sm' = openSubMenu (mb_X mb + mi_X (itemRec item)) (mb_Y mb + 1) sm
                      in Some (mb\<lparr>mb_Menu := Menu (menuRec m)
                                     ((Items m)[nat sel := MenuItem (itemRec item) (Some sm')]),
                                  mb_ActiveMenu := Some [nat sel]\<rparr>)
                  | None \<Rightarrow> Some mb
             else Some mb)"

definition MoveUp :: "MenuBar \<Rightarrow> MenuBar option" where
  "MoveUp mb =
     (if \<not> mb_IsActive mb then Some mb
      else case mb_ActiveMenu mb of
        Some p \<Rightarrow>
          (case menuAt p (mb_Menu mb) of
             None \<Rightarrow> None
           | Some am \<Rightarrow>
               if m_SelectedIdx (menuRec am) > 0
               then withMenu mb (modifyAt p Menu_SelectPrevious (mb_Menu mb))
               else (case modifyAt p (\<lambda>am. Some (Menu ((menuRec am)\<lparr>m_IsOpen := False\<rparr>) (Items am)))
                            (mb_Menu mb) of
                       Some m \<Rightarrow> Some (mb\<lparr>mb_Menu := m, mb_ActiveMenu := None\<rparr>)
                     | None \<Rightarrow> None))
      | None \<Rightarrow> Some mb)"

definition openedSubMenu :: "Menu \<Rightarrow> bool" where
  \<comment> \<open>the selected item of the menu has a submenu and that submenu is open\<close>
  "openedSubMenu m =
     (let sel = m_SelectedIdx (menuRec m)
      in sel \<ge> 0 \<and> sel < int (length (Items m)) \<and>
         (case SubMenu (Items m ! nat sel) of
            Some sm \<Rightarrow> m_IsOpen (menuRec sm)
          | None \<Rightarrow> False))"

definition MenuBar_ActivateSelected :: "(nat \<Rightarrow> bool) \<Rightarrow> MenuBar \<Rightarrow> (bool \<times> MenuBar) option" where
  "MenuBar_ActivateSelected run mb =
     (if \<not> mb_IsActive mb then Some (False, mb)
      else case mb_ActiveMenu mb of
        Some p \<Rightarrow>
          (case menuAt p (mb_Menu mb) of
             None \<Rightarrow> None
           | Some currentMenu \<Rightarrow>
               let (result, cm) = Menu_ActivateSelected run currentMenu
               in case modifyAt p (\<lambda>_. Some cm) (mb_Menu mb) of
                    None \<Rightarrow> None
                  | Some m \<Rightarrow>
                      let mb = mb\<lparr>mb_Menu := m\<rparr>
                      in if result then Some (True, Deactivate mb)
                         else if openedSubMenu cm
                         then Some (result,
                                mb\<lparr>mb_ActiveMenu := Some (p @ [nat (m_SelectedIdx (menuRec cm))])\<rparr>)
                         else Some (result, mb))
      | None \<Rightarrow>
          let (result, m) = Menu_ActivateSelected run (mb_Menu mb);
              mb = mb\<lparr>mb_Menu := m\<rparr>
          in if result then Some (True, Deactivate mb)
             else if openedSubMenu m
             then Some (result, mb\<lparr>mb_ActiveMenu := Some [nat (m_SelectedIdx (menuRec m))]\<rparr>)
             else Some (result, mb))"


subsection \<open>Prompt\<close>

datatype PromptStyle = SingleLinePrompt | DialogBoxPrompt

record PromptButton =
  pbtn_Text :: string
  pbtn_Color :: string
  pbtn_ActiveColor :: string
  pbtn_IsActive :: bool
  pbtn_Action :: "nat option"

definition NewPromptButton :: "string \<Rightarrow> string \<Rightarrow> string \<Rightarrow> nat option \<Rightarrow> PromptButton" where
  "NewPromptButton text color activeColor action =
     \<lparr> pbtn_Text = text, pbtn_Color = color, pbtn_ActiveColor = activeColor,
       pbtn_IsActive = False, pbtn_Action = action \<rparr>"

record Prompt =
  p_Title :: string
  p_Message :: string
  p_Buttons :: "PromptButton list"
  p_X :: int
  p_Y :: int
  p_Width :: int
  p_Height :: int
  p_Style :: PromptStyle
  p_Color :: string
  p_BorderColor :: string
  p_TitleColor :: string
  p_MessageColor :: string
  p_IsActive :: bool
  p_SelectedIdx :: int
  p_Modal :: bool
  p_zIndex :: int

definition NewSingleLinePrompt ::
  "string \<Rightarrow> string \<Rightarrow> int \<Rightarrow> int \<Rightarrow> int \<Rightarrow> string \<Rightarrow> string \<Rightarrow> PromptButton list \<Rightarrow> Prompt" where
  "NewSingleLinePrompt title message x y width titleColor messageColor buttons =
     \<lparr> p_Title = title, p_Message = message, p_Buttons = buttons, p_X = x, p_Y = y,
       p_Width = width, p_Height = 1, p_Style = SingleLinePrompt, p_Color = [],
       p_BorderColor = [], p_TitleColor = titleColor, p_MessageColor = messageColor,
       p_IsActive = False, p_SelectedIdx = 0, p_Modal = False, p_zIndex = 1000 \<rparr>"

text \<open>
  \<open>NewDialogPrompt\<close> computes with the width as it is given, so the arithmetic of Go's
  \<open>int\<close> is written out here: 64 bits in two's complement, \<open>/\<close> truncating
  towards zero.
\<close>

definition wrap64 :: "int \<Rightarrow> int" where
  "wrap64 i = (i + 2 ^ 63) mod 2 ^ 64 - 2 ^ 63"

definition goQuo :: "int \<Rightarrow> int \<Rightarrow> int" where
  "goQuo a b = sgn a * sgn b * (\<bar>a\<bar> div \<bar>b\<bar>)"

definition NewDialogPrompt ::
  "string \<Rightarrow> string \<Rightarrow> int \<Rightarrow> int \<Rightarrow> int \<Rightarrow> string \<Rightarrow> string \<Rightarrow> string \<Rightarrow> string
     \<Rightarrow> PromptButton list \<Rightarrow> Prompt" where
  "NewDialogPrompt title message x y width color borderColor titleColor messageColor buttons =
     (let messageChars = int (length message);
          charsPerLine = wrap64 (width - 4);
          charsPerLine = (if charsPerLine < 1 then 1 else charsPerLine);
          messageLines = goQuo (wrap64 (wrap64 (messageChars + charsPerLine) - 1)) charsPerLine;
          messageLines = (if messageLines < 1 then 1 else messageLines);
          height = wrap64 (messageLines + 5)
      in \<lparr> p_Title = title, p_Message = message, p_Buttons = buttons, p_X = x, p_Y = y,
           p_Width = width, p_Height = height, p_Style = DialogBoxPrompt, p_Color = color,
           p_BorderColor = borderColor, p_TitleColor = titleColor,
           p_MessageColor = messageColor, p_IsActive = False, p_SelectedIdx = 0,
           p_Modal = True, p_zIndex = 1000 \<rparr>)"

definition SetActive :: "bool \<Rightarrow> Prompt \<Rightarrow> Prompt" where
  "SetActive active p =
     p\<lparr>p_IsActive := active,
       p_Buttons := map (\<lambda>(i, button). button\<lparr>pbtn_IsActive := (int i = p_SelectedIdx p \<and> active)\<rparr>)
                      (enumerate 0 (p_Buttons p))\<rparr>"

definition Prompt_SelectNext :: "Prompt \<Rightarrow> Prompt option" where
  "Prompt_SelectNext p =
     (if \<not> p_IsActive p \<or> length (p_Buttons p) \<le> 1 then Some p
      else
        let n = int (length (p_Buttons p));
            sel = p_SelectedIdx p;
            buttons = (if sel \<ge> 0 \<and> sel < n
                       then (p_Buttons p)[nat sel := (p_Buttons p ! nat sel)\<lparr>pbtn_IsActive := False\<rparr>]
                       else p_Buttons p);
            sel = goRem (sel + 1) n
        in if sel < 0 \<or> sel \<ge> n then None
           else Some (p\<lparr>p_SelectedIdx := sel,
                        p_Buttons := buttons[nat sel := (buttons ! nat sel)\<lparr>pbtn_IsActive := True\<rparr>]\<rparr>))"

definition Prompt_SelectPrevious :: "Prompt \<Rightarrow> Prompt option" where
  "Prompt_SelectPrevious p =
     (if \<not> p_IsActive p \<or> length (p_Buttons p) \<le> 1 then Some p
      else
        let n = int (length (p_Buttons p));
            sel = p_SelectedIdx p;
            buttons = (if sel \<ge> 0 \<and> sel < n
                       then (p_Buttons p)[nat sel := (p_Buttons p ! nat sel)\<lparr>pbtn_IsActive := False\<rparr>]
                       else p_Buttons p);
            sel = sel - 1;
            sel = (if sel < 0 then n - 1 else sel)
        in if sel \<ge> n then None
           else Some (p\<lparr>p_SelectedIdx := sel,
                        p_Buttons := buttons[nat sel := (buttons ! nat sel)\<lparr>pbtn_IsActive := True\<rparr>]\<rparr>))"

definition Prompt_ActivateSelected :: "(nat \<Rightarrow> bool) \<Rightarrow> Prompt \<Rightarrow> bool \<times> Prompt" where
  "Prompt_ActivateSelected run p =
     (if \<not> p_IsActive p \<or> p_SelectedIdx p < 0 \<or> p_SelectedIdx p \<ge> int (length (p_Buttons p))
      then (False, p)
      else case pbtn_Action (p_Buttons p ! nat (p_SelectedIdx p)) of
             Some a \<Rightarrow> (let result = run a in (result, if result then SetActive False p else p))
           | None \<Rightarrow> (False, p))"

definition IsModal :: "Prompt \<Rightarrow> bool" where
  "IsModal p = (p_Modal p \<and> p_IsActive p)"

subsection \<open>The other elements\<close>

record Label =
  l_Text :: string
  l_Color :: string
  l_X :: int
  l_Y :: int

definition NewLabel :: "string \<Rightarrow> int \<Rightarrow> int \<Rightarrow> string \<Rightarrow> Label" where
  "NewLabel text x y color = \<lparr> l_Text = text, l_Color = color, l_X = x, l_Y = y \<rparr>"

record Button =
  b_Text :: string
  b_Color :: string
  b_ActiveColor :: string
  b_X :: int
  b_Y :: int
  b_Width :: int
  b_Action :: "nat option"
  b_IsActive :: bool

definition NewButton :: "string \<Rightarrow> int \<Rightarrow> int \<Rightarrow> int \<Rightarrow> string \<Rightarrow> string \<Rightarrow> nat option \<Rightarrow> Button" where
  "NewButton text x y width color activeColor action =
     \<lparr> b_Text = text, b_Color = color, b_ActiveColor = activeColor, b_X = x, b_Y = y,
       b_Width = width, b_Action = action, b_IsActive = False \<rparr>"

record TextBox =
  tb_Text :: string
  tb_Color :: string
  tb_ActiveColor :: string
  tb_X :: int
  tb_Y :: int
  tb_Width :: int
  tb_IsActive :: bool
  tb_cursorPos :: int
  tb_isPristine :: bool
  tb_cursorAbsX :: int
  tb_cursorAbsY :: int

definition NewTextBox :: "string \<Rightarrow> int \<Rightarrow> int \<Rightarrow> int \<Rightarrow> string \<Rightarrow> string \<Rightarrow> TextBox" where
  "NewTextBox initialText x y width color activeColor =
     (let tb = \<lparr> tb_Text = initialText, tb_Color = color, tb_ActiveColor = activeColor,
                 tb_X = x, tb_Y = y, tb_Width = width, tb_IsActive = False,
                 tb_cursorPos = int (length initialText), tb_isPristine = True,
                 tb_cursorAbsX = 0, tb_cursorAbsY = 0 \<rparr>
      in if tb_cursorPos tb > int (length (tb_Text tb))
         then tb\<lparr>tb_cursorPos := int (length (tb_Text tb))\<rparr> else tb)"

record CheckBox =
  cb_Label :: string
  cb_Color :: string
  cb_ActiveColor :: string
  cb_Checked :: bool
  cb_X :: int
  cb_Y :: int
  cb_IsActive :: bool

definition NewCheckBox :: "string \<Rightarrow> int \<Rightarrow> int \<Rightarrow> bool \<Rightarrow> string \<Rightarrow> string \<Rightarrow> CheckBox" where
  "NewCheckBox label x y initialChecked color activeColor =
     \<lparr> cb_Label = label, cb_Color = color, cb_ActiveColor = activeColor,
       cb_Checked = initialChecked, cb_X = x, cb_Y = y, cb_IsActive = False \<rparr>"

record Spacer =
  sp_Height :: int
  sp_X :: int
  sp_Y :: int

definition NewSpacer :: "int \<Rightarrow> int \<Rightarrow> int \<Rightarrow> Spacer" where
  "NewSpacer x y height = \<lparr> sp_Height = height, sp_X = x, sp_Y = y \<rparr>"

text \<open>
  An element of a window is held by pointer. A pointer is the address of an object of the
  store, or the address of the scrollbar a container or a text area of the store owns
  (the pointer \<open>GetScrollbar\<close> hands out): the scrollbar is a field of its owner in the
  model and one object with it in the store.
\<close>

datatype ref = Obj nat | ScrollbarOf nat

record RadioButton =
  rb_Label :: string
  rb_Value :: string
  rb_Color :: string
  rb_ActiveColor :: string
  rb_X :: int
  rb_Y :: int
  rb_IsActive :: bool
  rb_IsSelected :: bool
  rb_Group :: nat

record RadioGroup =
  rg_Buttons :: "ref list"
  rg_SelectedIndex :: int
  rg_SelectedValue :: string

definition NewRadioGroup :: RadioGroup where
  "NewRadioGroup = \<lparr> rg_Buttons = [], rg_SelectedIndex = - 1, rg_SelectedValue = [] \<rparr>"

record Segment =
  seg_X :: int
  seg_Y :: int
  seg_Width :: int
  seg_Height :: int
  seg_Elements :: "ref list"
  seg_BgColor :: string
  seg_BorderStyle :: string
  seg_BorderColor :: string
  seg_Title :: string
  seg_TitleColor :: string

record SegmentGroup =
  sg_X :: int
  sg_Y :: int
  sg_Segments :: "ref list"
  sg_SeparatorChar :: string
  sg_SeparatorColor :: string

text \<open>The types that implement \<open>UIElement\<close>: what a type switch of the window sees.\<close>

datatype UIElement =
    LabelE Label
  | ButtonE Button
  | TextBoxE TextBox
  | CheckBoxE CheckBox
  | SpacerE Spacer
  | RadioButtonE RadioButton
  | ProgressBarE ProgressBar
  | GradientProgressBarE GradientProgressBar
  | ScrollBarE ScrollBar
  | ContainerE Container
  | TextAreaE TextArea
  | MenuE Menu
  | MenuBarE MenuBar
  | PromptE Prompt
  | SegmentE Segment
  | SegmentGroupE SegmentGroup

subsection \<open>Window\<close>

record Window =
  w_Title :: string
  w_Icon :: string
  w_X :: int
  w_Y :: int
  w_Width :: int
  w_Height :: int
  w_BoxStyle :: string
  w_TitleColor :: string
  w_BorderColor :: string
  w_BgColor :: string
  w_ContentColor :: string
  w_Elements :: "ref list"
  w_buffer :: string
  w_focusableElements :: "ref list"
  w_focusedIndex :: int
  w_KeyHandler :: "nat option"

definition NewWindow ::
  "string \<Rightarrow> string \<Rightarrow> int \<Rightarrow> int \<Rightarrow> int \<Rightarrow> int \<Rightarrow> string \<Rightarrow> string \<Rightarrow> string \<Rightarrow> string \<Rightarrow> string
     \<Rightarrow> Window" where
  "NewWindow icon title x y width height boxStyle titleColor borderColor bgColor contentColor =
     (let boxStyle = (if BoxTypes boxStyle = None then ''single'' else boxStyle)
      in \<lparr> w_Title = title, w_Icon = icon, w_X = x, w_Y = y, w_Width = width,
           w_Height = height, w_BoxStyle = boxStyle, w_TitleColor = titleColor,
           w_BorderColor = borderColor, w_BgColor = bgColor, w_ContentColor = contentColor,
           w_Elements = [], w_buffer = [], w_focusableElements = [], w_focusedIndex = - 1,
           w_KeyHandler = None \<rparr>)"

text \<open>
  The state a method of the window works on: the store of the objects its pointers lead
  to, the radio groups, and the window itself.
\<close>

record State =
  objs :: "nat \<rightharpoonup> UIElement"
  groups :: "nat \<rightharpoonup> RadioGroup"
  win :: Window

definition lookup :: "State \<Rightarrow> ref \<Rightarrow> UIElement option" where
  "lookup st r =
     (case r of
        Obj n \<Rightarrow> objs st n
      | ScrollbarOf n \<Rightarrow>
          (case objs st n of
             Some (ContainerE c) \<Rightarrow> Some (ScrollBarE (c_scrollBar c))
           | Some (TextAreaE t) \<Rightarrow> Some (ScrollBarE (ta_scrollBar t))
           | _ \<Rightarrow> None))"

definition store :: "ref \<Rightarrow> UIElement \<Rightarrow> State \<Rightarrow> State" where
  "store r e st =
     (case r of
        Obj n \<Rightarrow> st\<lparr>objs := (objs st)(n \<mapsto> e)\<rparr>
      | ScrollbarOf n \<Rightarrow>
          (case (objs st n, e) of
             (Some (ContainerE c), ScrollBarE sb) \<Rightarrow>
               st\<lparr>objs := (objs st)(n \<mapsto> ContainerE (c\<lparr>c_scrollBar := sb\<rparr>))\<rparr>
           | (Some (TextAreaE t), ScrollBarE sb) \<Rightarrow>
               st\<lparr>objs := (objs st)(n \<mapsto> TextAreaE (t\<lparr>ta_scrollBar := sb\<rparr>))\<rparr>
           | _ \<Rightarrow> st))"

definition modify :: "ref \<Rightarrow> (UIElement \<Rightarrow> UIElement) \<Rightarrow> State \<Rightarrow> State" where
  "modify r f st = (case lookup st r of Some e \<Rightarrow> store r (f e) st | None \<Rightarrow> st)"

definition deactivateElement :: "UIElement \<Rightarrow> UIElement" where
  \<comment> \<open>the first type switch of \<open>setFocus\<close>\<close>
  "deactivateElement e =
     (case e of
        ButtonE el \<Rightarrow> ButtonE (el\<lparr>b_IsActive := False\<rparr>)
      | TextBoxE el \<Rightarrow> TextBoxE (el\<lparr>tb_IsActive := False\<rparr>)
      | CheckBoxE el \<Rightarrow> CheckBoxE (el\<lparr>cb_IsActive := False\<rparr>)
      | RadioButtonE el \<Rightarrow> RadioButtonE (el\<lparr>rb_IsActive := False\<rparr>)
      | ScrollBarE el \<Rightarrow> ScrollBarE (el\<lparr>sb_IsActive := False\<rparr>)
      | ContainerE el \<Rightarrow> ContainerE (el\<lparr>c_IsActive := False\<rparr>)
      | TextAreaE el \<Rightarrow> TextAreaE (el\<lparr>ta_IsActive := False\<rparr>)
      | MenuBarE el \<Rightarrow> MenuBarE (Deactivate (el\<lparr>mb_IsActive := False\<rparr>))
      | PromptE el \<Rightarrow> PromptE (SetActive False el)
      | _ \<Rightarrow> e)"

definition activateElement :: "UIElement \<Rightarrow> UIElement" where
  \<comment> \<open>the second type switch of \<open>setFocus\<close>\<close>
  "activateElement e =
     (case e of
        ButtonE el \<Rightarrow> ButtonE (el\<lparr>b_IsActive := True\<rparr>)
      | TextBoxE el \<Rightarrow> TextBoxE (el\<lparr>tb_IsActive := True\<rparr>)
      | CheckBoxE el \<Rightarrow> CheckBoxE (el\<lparr>cb_IsActive := True\<rparr>)
      | RadioButtonE el \<Rightarrow> RadioButtonE (el\<lparr>rb_IsActive := True\<rparr>)
      | ScrollBarE el \<Rightarrow> ScrollBarE (el\<lparr>sb_IsActive := True\<rparr>)
      | ContainerE el \<Rightarrow> ContainerE (el\<lparr>c_IsActive := True\<rparr>)
      | TextAreaE el \<Rightarrow> TextAreaE (el\<lparr>ta_IsActive := True\<rparr>)
      | MenuBarE el \<Rightarrow> MenuBarE (Activate (el\<lparr>mb_IsActive := True\<rparr>))
      | PromptE el \<Rightarrow> PromptE (SetActive True el)
      | _ \<Rightarrow> e)"

definition setFocusedIndex :: "int \<Rightarrow> State \<Rightarrow> State" where
  "setFocusedIndex i st = st\<lparr>win := (win st)\<lparr>w_focusedIndex := i\<rparr>\<rparr>"

definition setFocus :: "int \<Rightarrow> State \<Rightarrow> State" where
  "setFocus newIndex st =
     (let n = int (length (w_focusableElements (win st)))
      in if n = 0 then setFocusedIndex (- 1) st
         else
           let fi = w_focusedIndex (win st);
               st = (if fi \<ge> 0 \<and> fi < n
                     then modify (w_focusableElements (win st) ! nat fi) deactivateElement st
                     else st);
               st = (if newIndex < 0 then setFocusedIndex (n - 1) st
                     else if newIndex \<ge> n then setFocusedIndex 0 st
                     else setFocusedIndex newIndex st);
               fi = w_focusedIndex (win st)
           in if fi \<ge> 0 \<and> fi < n
              then modify (w_focusableElements (win st) ! nat fi) activateElement st
              else st)"

definition addFocusable :: "ref \<Rightarrow> State \<Rightarrow> State" where
  \<comment> \<open>the body of the loop that ends \<open>AddElement\<close>\<close>
  "addFocusable focusableElement st =
     (if focusableElement \<in> set (w_focusableElements (win st)) then st
      else
        let st = st\<lparr>win := (win st)\<lparr>w_focusableElements :=
                       w_focusableElements (win st) @ [focusableElement]\<rparr>\<rparr>
        in if w_focusedIndex (win st) = - 1
           then setFocus 0 (setFocusedIndex 0 st)
           else st)"

definition AddElement :: "ref \<Rightarrow> State \<Rightarrow> State" where
  "AddElement element st0 =
     (let st = st0\<lparr>win := (win st0)\<lparr>w_Elements := w_Elements (win st0) @ [element]\<rparr>\<rparr>;
          (st, elementsToAdd) =
            (case lookup st element of
               Some (ButtonE v) \<Rightarrow> (st, [element])
             | Some (TextBoxE v) \<Rightarrow> (store element (TextBoxE (v\<lparr>tb_IsActive := False\<rparr>)) st, [element])
             | Some (CheckBoxE v) \<Rightarrow> (store element (CheckBoxE (v\<lparr>cb_IsActive := False\<rparr>)) st, [element])
             | Some (RadioButtonE v) \<Rightarrow>
                 (store element (RadioButtonE (v\<lparr>rb_IsActive := False\<rparr>)) st, [element])
             | Some (ScrollBarE v) \<Rightarrow> (store element (ScrollBarE (v\<lparr>sb_IsActive := False\<rparr>)) st, [element])
             | Some (TextAreaE v) \<Rightarrow> (store element (TextAreaE (v\<lparr>ta_IsActive := False\<rparr>)) st, [element])
             | Some (ContainerE v) \<Rightarrow>
                 (store element
                    (ContainerE (v\<lparr>c_IsActive := False,
                                    c_scrollBar := (c_scrollBar v)\<lparr>sb_IsActive := False\<rparr>\<rparr>)) st,
                  (case element of
                     Obj n \<Rightarrow> [element, ScrollbarOf n]
                   | ScrollbarOf n \<Rightarrow> [element]))
             | Some (MenuBarE v) \<Rightarrow> (store element (MenuBarE (v\<lparr>mb_IsActive := False\<rparr>)) st, [element])
             | Some (PromptE v) \<Rightarrow> (store element (PromptE (SetActive False v)) st, [element])
             | _ \<Rightarrow> (st, []))
      in fold addFocusable elementsToAdd st)"

fun indexOf :: "'a \<Rightarrow> 'a list \<Rightarrow> nat option" where
  "indexOf x [] = None"
| "indexOf x (y # ys) = (if y = x then Some 0 else map_option Suc (indexOf x ys))"

definition removeAt :: "nat \<Rightarrow> 'a list \<Rightarrow> 'a list" where
  \<comment> \<open>\<open>append(s[:i], s[i+1:]...)\<close>\<close>
  "removeAt i xs = take i xs @ drop (Suc i) xs"

definition RemoveElement :: "ref \<Rightarrow> State \<Rightarrow> State" where
  "RemoveElement element st =
     (let w = win st;
          w = (case indexOf element (w_Elements w) of
                 Some i \<Rightarrow> w\<lparr>w_Elements := removeAt i (w_Elements w)\<rparr>
               | None \<Rightarrow> w);
          w = (case indexOf element (w_focusableElements w) of
                 Some i \<Rightarrow>
                   (let w = w\<lparr>w_focusableElements := removeAt i (w_focusableElements w)\<rparr>
                    in if w_focusedIndex w \<ge> int i
                       then w\<lparr>w_focusedIndex := w_focusedIndex w - 1\<rparr>
                       else w)
               | None \<Rightarrow> w)
      in st\<lparr>win := w\<rparr>)"

definition getAllElements :: "State \<Rightarrow> UIElement list" where
  "getAllElements st =
     (let elements = List.map_filter (lookup st) (w_Elements (win st))
      in elements @
         concat (map (\<lambda>element. case element of
                                   MenuBarE menuBar \<Rightarrow> map MenuE (collectSubmenus (mb_Menu menuBar))
                                 | _ \<Rightarrow> [])
                     elements))"

definition zIndexOf :: "UIElement \<Rightarrow> int" where
  \<comment> \<open>\<open>GetZIndex\<close> of the types that implement \<open>ZIndexer\<close>, 0 for the others\<close>
  "zIndexOf e =
     (case e of
        MenuE m \<Rightarrow> Menu_GetZIndex m
      | MenuBarE mb \<Rightarrow> MenuBar_GetZIndex mb
      | _ \<Rightarrow> 0)"

definition getSortedElements :: "State \<Rightarrow> UIElement list" where
  \<comment> \<open>\<open>sort.SliceStable\<close> by z-index: the stable sort of the list\<close>
  "getSortedElements st = sort_key zIndexOf (getAllElements st)"


text \<open>
  What the focus invariant speaks of: the active flag of an element, the types the focus
  chain holds, and the number of entries of the chain whose element is active.
\<close>

definition elementActive :: "UIElement \<Rightarrow> bool" where
  "elementActive e =
     (case e of
        ButtonE el \<Rightarrow> b_IsActive el
      | TextBoxE el \<Rightarrow> tb_IsActive el
      | CheckBoxE el \<Rightarrow> cb_IsActive el
      | RadioButtonE el \<Rightarrow> rb_IsActive el
      | ScrollBarE el \<Rightarrow> sb_IsActive el
      | ContainerE el \<Rightarrow> c_IsActive el
      | TextAreaE el \<Rightarrow> ta_IsActive el
      | MenuBarE el \<Rightarrow> mb_IsActive el
      | PromptE el \<Rightarrow> p_IsActive el
      | _ \<Rightarrow> False)"

definition focusableType :: "UIElement \<Rightarrow> bool" where
  \<comment> \<open>the types \<open>AddElement\<close> puts on the focus chain\<close>
  "focusableType e =
     (case e of
        ButtonE el \<Rightarrow> True
      | TextBoxE el \<Rightarrow> True
      | CheckBoxE el \<Rightarrow> True
      | RadioButtonE el \<Rightarrow> True
      | ScrollBarE el \<Rightarrow> True
      | ContainerE el \<Rightarrow> True
      | TextAreaE el \<Rightarrow> True
      | MenuBarE el \<Rightarrow> True
      | PromptE el \<Rightarrow> True
      | _ \<Rightarrow> False)"

definition activeAt :: "State \<Rightarrow> ref \<Rightarrow> bool" where
  "activeAt st r = (case lookup st r of Some e \<Rightarrow> elementActive e | None \<Rightarrow> False)"

definition activeEntries :: "State \<Rightarrow> ref list" where
  "activeEntries st = filter (activeAt st) (w_focusableElements (win st))"

text \<open>
  The focus chain as \<open>AddElement\<close> builds it: its entries are distinct pointers to
  objects of the focusable types.
\<close>

definition chain_wf :: "State \<Rightarrow> bool" where
  "chain_wf st =
     (distinct (w_focusableElements (win st)) \<and>
      list_all (\<lambda>r. case lookup st r of Some e \<Rightarrow> focusableType e | None \<Rightarrow> False)
        (w_focusableElements (win st)))"

definition others_inactive :: "State \<Rightarrow> bool" where
  \<comment> \<open>no entry of the chain but the one at the focus index is active\<close>
  "others_inactive st =
     list_all (\<lambda>(i, r). int i = w_focusedIndex (win st) \<or> \<not> activeAt st r)
       (enumerate 0 (w_focusableElements (win st)))"


text \<open>The two changes the focus makes: each keeps the type of the element, the scrollbar of
  a container or text area, and changes the active flag of a scrollbar only.\<close>

definition flagChange :: "(UIElement \<Rightarrow> UIElement) \<Rightarrow> bool" where
  "flagChange f = (f = activateElement \<or> f = deactivateElement)"


text \<open>All entries of the chain inactive but the one at index \<open>i\<close>, which is active.\<close>

definition only_active :: "State \<Rightarrow> int \<Rightarrow> bool" where
  "only_active st i =
     (\<forall>j < length (w_focusableElements (win st)).
        activeAt st (w_focusableElements (win st) ! j) = (int j = i))"


subsection \<open>States of a small program\<close>

text \<open>
  A window with two buttons, as \<open>NewWindow\<close> and \<open>AddElement\<close> build it, and the
  objects of its store: the buttons, a dialog and a label.
\<close>

definition demo_objs :: "nat \<rightharpoonup> UIElement" where
  "demo_objs =
     [0 \<mapsto> ButtonE (NewButton ''Show dialog'' 2 5 20 [] [] (Some 0)),
      1 \<mapsto> ButtonE (NewButton ''Quit'' 2 7 20 [] [] (Some 1)),
      2 \<mapsto> PromptE (NewDialogPrompt ''Confirm'' ''Proceed?'' 5 5 40 [] [] [] []
             [NewPromptButton ''Yes'' [] [] (Some 2), NewPromptButton ''No'' [] [] (Some 3)]),
      3 \<mapsto> LabelE (NewLabel ''Status'' 2 2 [])]"

definition demo_window :: State where
  "demo_window =
     AddElement (Obj 1) (AddElement (Obj 0)
       \<lparr> objs = demo_objs, groups = Map.empty,
         win = NewWindow [] ''Demo'' 0 0 80 24 ''single'' [] [] [] [] \<rparr>)"

text \<open>
  What the action of a button of the demo program (main.go) does to show a dialog:
  \<open>win.AddElement(currentDialog)\<close>, then \<open>currentDialog.SetActive(true)\<close>. The
  dialog is active and the button keeps the focus.
\<close>

definition clientSetActive :: "bool \<Rightarrow> UIElement \<Rightarrow> UIElement" where
  "clientSetActive b e = (case e of PromptE p \<Rightarrow> PromptE (SetActive b p) | _ \<Rightarrow> e)"

definition demo_dialog_shown :: State where
  "demo_dialog_shown = modify (Obj 2) (clientSetActive True) (AddElement (Obj 2) demo_window)"


text \<open>
  A menu bar with one top-level item \<open>File\<close>, whose submenu holds \<open>Open\<close> and
  \<open>New\<close>, the latter with a submenu of its own. \<open>menu_nested\<close> is the bar after it
  got the focus and the keys Down, Down, Enter: the submenu of \<open>File\<close> is open with
  \<open>New\<close> selected, and the submenu of \<open>New\<close> is open and current.
\<close>

definition asciiKind :: "int \<Rightarrow> Kind" where
  \<comment> \<open>the width kind of the ASCII letters the demo menus are written in\<close>
  "asciiKind r = EastAsianNarrow"

definition menu_demo :: MenuBar where
  "menu_demo =
     (let recent = AddItem asciiKind (NewMenuItem asciiKind ''Local'' [] [] None)
                     (NewMenu 0 0 [] [] False);
          file = AddItem asciiKind
                   (MenuItem (itemRec (NewMenuItem asciiKind ''New'' [] [] None)) (Some recent))
                   (AddItem asciiKind (NewMenuItem asciiKind ''Open'' [] [] None)
                      (NewMenu 0 0 [] [] False));
          bar = NewMenuBar 0 0 40 [] [] []
      in bar\<lparr>mb_Menu := AddItem asciiKind
                            (MenuItem (itemRec (NewMenuItem asciiKind ''File'' [] [] None)) (Some file))
                            (mb_Menu bar)\<rparr>)"

definition menu_nested :: "MenuBar option" where
  "menu_nested =
     Option.bind (Option.bind (Option.bind (Some (Activate menu_demo)) MoveDown) MoveDown)
       (\<lambda>mb. map_option snd (MenuBar_ActivateSelected (\<lambda>_. False) mb))"

text \<open>The selected index and the open flag of the submenu a path leads to.\<close>

definition selectedAt :: "nat list \<Rightarrow> MenuBar \<Rightarrow> int option" where
  "selectedAt p mb = map_option (\<lambda>m. m_SelectedIdx (menuRec m)) (menuAt p (mb_Menu mb))"

definition openAt :: "nat list \<Rightarrow> MenuBar \<Rightarrow> bool option" where
  "openAt p mb = map_option (\<lambda>m. m_IsOpen (menuRec m)) (menuAt p (mb_Menu mb))"


text \<open>The dynamic type of an element, and a window holding a dialog, a label and the menu
  bar above, added in this order.\<close>

definition typeName :: "UIElement \<Rightarrow> string" where
  "typeName e =
     (case e of
        LabelE _ \<Rightarrow> ''Label'' | ButtonE _ \<Rightarrow> ''Button'' | TextBoxE _ \<Rightarrow> ''TextBox''
      | CheckBoxE _ \<Rightarrow> ''CheckBox'' | SpacerE _ \<Rightarrow> ''Spacer'' | RadioButtonE _ \<Rightarrow> ''RadioButton''
      | ProgressBarE _ \<Rightarrow> ''ProgressBar'' | GradientProgressBarE _ \<Rightarrow> ''GradientProgressBar''
      | ScrollBarE _ \<Rightarrow> ''ScrollBar'' | ContainerE _ \<Rightarrow> ''Container'' | TextAreaE _ \<Rightarrow> ''TextArea''
      | MenuE _ \<Rightarrow> ''Menu'' | MenuBarE _ \<Rightarrow> ''MenuBar'' | PromptE _ \<Rightarrow> ''Prompt''
      | SegmentE _ \<Rightarrow> ''Segment'' | SegmentGroupE _ \<Rightarrow> ''SegmentGroup'')"

definition zorder_demo :: State where
  "zorder_demo =
     AddElement (Obj 2) (AddElement (Obj 1) (AddElement (Obj 0)
       \<lparr> objs = [0 \<mapsto> PromptE (NewDialogPrompt ''Confirm'' ''Proceed?'' 5 5 40 [] [] [] []
                         [NewPromptButton ''OK'' [] [] None]),
                 1 \<mapsto> LabelE (NewLabel ''Status'' 2 2 []),
                 2 \<mapsto> MenuBarE (case menu_nested of Some mb \<Rightarrow> mb | None \<Rightarrow> menu_demo)],
         groups = Map.empty,
         win = NewWindow [] ''Demo'' 0 0 80 24 ''single'' [] [] [] [] \<rparr>))"


subsection \<open>The key dispatcher of \<open>WindowActions\<close>\<close>

text \<open>
  The body of the input loop for one chunk of bytes read from the terminal: \<open>key\<close> is
  \<open>inputBuf[:n]\<close>, a list of byte values. The result is the new state with the two
  flags of the iteration, \<open>loopNeedsRender\<close> and \<open>loopShouldQuit\<close>; rendering and
  the terminal are outside the model. The parameters stand for the client's code:
  \<open>handler h\<close> is \<open>HandleKeyStroke\<close> of the key handler with handle \<open>h\<close>, which
  gets the window and may change it; \<open>run a\<close> is the value the callback with handle
  \<open>a\<close> returns (what a callback does beside returning is outside the model);
  \<open>makeRawOk\<close> tells whether \<open>term.MakeRaw\<close> succeeds after a button's action. The
  source tests the focused element type by type, menu bar first, then prompt, text area,
  text box, container and scrollbar; the element has one type, so the chain of tests is a
  case distinction on it.
\<close>

definition focusedRef :: "State \<Rightarrow> ref option" where
  "focusedRef st =
     (let fi = w_focusedIndex (win st)
      in if fi \<ge> 0 \<and> fi < int (length (w_focusableElements (win st)))
         then Some (w_focusableElements (win st) ! nat fi) else None)"

definition focusedElement :: "State \<Rightarrow> UIElement option" where
  "focusedElement st = (case focusedRef st of Some r \<Rightarrow> lookup st r | None \<Rightarrow> None)"

definition focusNext :: "State \<Rightarrow> State" where
  \<comment> \<open>\<open>w.setFocus(w.focusedIndex + 1)\<close>\<close>
  "focusNext st = setFocus (w_focusedIndex (win st) + 1) st"

definition focusPrevious :: "State \<Rightarrow> State" where
  \<comment> \<open>\<open>w.setFocus(w.focusedIndex - 1)\<close>\<close>
  "focusPrevious st = setFocus (w_focusedIndex (win st) - 1) st"

definition isEscapeSeq :: "nat list \<Rightarrow> bool" where
  \<comment> \<open>\<open>n == 3 && key[0] == '\x1b' && key[1] == '['\<close>\<close>
  "isEscapeSeq key = (length key = 3 \<and> key ! 0 = 27 \<and> key ! 1 = 91)"

definition isTildeSeq :: "nat list \<Rightarrow> bool" where
  \<comment> \<open>\<open>n == 4 && key[0] == '\x1b' && key[1] == '[' && key[3] == '~'\<close>\<close>
  "isTildeSeq key = (length key = 4 \<and> key ! 0 = 27 \<and> key ! 1 = 91 \<and> key ! 3 = 126)"

definition isPrintable :: "nat list \<Rightarrow> bool" where
  "isPrintable key = (length key = 1 \<and> key ! 0 \<ge> 32 \<and> key ! 0 < 127)"

definition stored :: "ref \<Rightarrow> (('a \<Rightarrow> UIElement) \<times> 'a option) \<Rightarrow> State \<Rightarrow> bool \<Rightarrow> (State \<times> bool \<times> bool) option" where
  \<comment> \<open>the element a method returned, written back; \<open>None\<close> is a panic of the method\<close>
  "stored r res st render =
     (case snd res of Some el \<Rightarrow> Some (store r (fst res el) st, render, False) | None \<Rightarrow> None)"

definition menuBarKey ::
  "(nat \<Rightarrow> bool) \<Rightarrow> nat list \<Rightarrow> ref \<Rightarrow> MenuBar \<Rightarrow> State \<Rightarrow> (State \<times> bool \<times> bool) option" where
  "menuBarKey run key r mb st =
     (if isEscapeSeq key then
        (if key ! 2 = 65 then stored r (MenuBarE, MoveUp mb) st True
         else if key ! 2 = 66 then stored r (MenuBarE, MoveDown mb) st True
         else if key ! 2 = 67 then stored r (MenuBarE, MoveRight mb) st True
         else if key ! 2 = 68 then stored r (MenuBarE, MoveLeft mb) st True
         else if key ! 2 = 90 then Some (focusPrevious st, True, False)
         else Some (st, False, False))
      else if length key = 1 then
        (if key ! 0 = 9 then Some (focusNext st, True, False)
         else if key ! 0 = 13 then
           (case MenuBar_ActivateSelected run mb of
              Some (shouldQuit, mb') \<Rightarrow> Some (store r (MenuBarE mb') st, True, shouldQuit)
            | None \<Rightarrow> None)
         else if key ! 0 = 27 then Some (store r (MenuBarE (Deactivate mb)) st, True, False)
         else if key ! 0 = 3 then Some (st, False, True)
         else Some (st, False, False))
      else Some (st, False, False))"

definition promptKey ::
  "(nat \<Rightarrow> bool) \<Rightarrow> nat list \<Rightarrow> ref \<Rightarrow> Prompt \<Rightarrow> State \<Rightarrow> (State \<times> bool \<times> bool) option" where
  "promptKey run key r p st =
     (if isEscapeSeq key then
        (if key ! 2 = 67 then stored r (PromptE, Prompt_SelectNext p) st True
         else if key ! 2 = 68 then stored r (PromptE, Prompt_SelectPrevious p) st True
         else if key ! 2 = 90 then
           (if \<not> IsModal p then Some (focusPrevious st, True, False) else Some (st, False, False))
         else Some (st, False, False))
      else if length key = 1 then
        (if key ! 0 = 9 then
           (if IsModal p then stored r (PromptE, Prompt_SelectNext p) st True
            else Some (focusNext st, True, False))
         else if key ! 0 = 13 then
           (let (shouldQuit, p') = Prompt_ActivateSelected run p
            in Some (store r (PromptE p') st, True, shouldQuit))
         else if key ! 0 = 27 then
           (if \<not> IsModal p
            then Some (focusNext (store r (PromptE (SetActive False p)) st), True, False)
            else Some (st, False, False))
         else if key ! 0 = 3 then Some (st, False, True)
         else Some (st, False, False))
      else Some (st, False, False))"

definition textAreaKey ::
  "nat list \<Rightarrow> ref \<Rightarrow> TextArea \<Rightarrow> State \<Rightarrow> (State \<times> bool \<times> bool) option" where
  "textAreaKey key r ta st =
     (if isPrintable key then stored r (TextAreaE, InsertChar (int (key ! 0)) ta) st True
      else if length key = 1 then
        (if key ! 0 = 127 \<or> key ! 0 = 8 then stored r (TextAreaE, DeleteChar ta) st True
         else if key ! 0 = 9 then Some (focusNext st, True, False)
         else if key ! 0 = 13 then stored r (TextAreaE, InsertChar 0x0A ta) st True
         else if key ! 0 = 3 then Some (st, False, True)
         else Some (st, False, False))
      else if isEscapeSeq key then
        (if key ! 2 = 68 then Some (store r (TextAreaE (MoveCursorLeft ta)) st, True, False)
         else if key ! 2 = 67 then Some (store r (TextAreaE (MoveCursorRight ta)) st, True, False)
         else if key ! 2 = 65 then Some (store r (TextAreaE (MoveCursorUp ta)) st, True, False)
         else if key ! 2 = 66 then Some (store r (TextAreaE (MoveCursorDown ta)) st, True, False)
         else if key ! 2 = 90 then Some (focusPrevious st, True, False)
         else Some (st, False, False))
      else if isTildeSeq key then
        (if key ! 2 = 51 then stored r (TextAreaE, DeleteForward ta) st True
         else Some (st, False, False))
      else Some (st, False, False))"

definition textBoxKey ::
  "nat list \<Rightarrow> ref \<Rightarrow> TextBox \<Rightarrow> State \<Rightarrow> (State \<times> bool \<times> bool) option" where
  "textBoxKey key r tb0 st =
     (if isPrintable key then
        (let tb = (if tb_isPristine tb0
                   then tb0\<lparr>tb_Text := [], tb_cursorPos := 0, tb_isPristine := False\<rparr>
                   else tb0);
             pos = tb_cursorPos tb
         in if pos < 0 \<or> pos > int (length (tb_Text tb)) then None
            else Some (store r (TextBoxE (tb\<lparr>tb_Text := take (nat pos) (tb_Text tb)
                                                    @ [char_of (key ! 0)] @ drop (nat pos) (tb_Text tb),
                                                 tb_cursorPos := pos + 1\<rparr>)) st, True, False))
      else if length key = 1 then
        (if key ! 0 = 127 \<or> key ! 0 = 8 then
           (let pos = tb_cursorPos tb0
            in if pos > 0 then
                 (if pos > int (length (tb_Text tb0)) then None
                  else Some (store r (TextBoxE (tb0\<lparr>tb_Text := take (nat (pos - 1)) (tb_Text tb0)
                                                           @ drop (nat pos) (tb_Text tb0),
                                                        tb_cursorPos := pos - 1,
                                                        tb_isPristine := False\<rparr>)) st, True, False))
               else Some (st, False, False))
         else if key ! 0 = 9 then Some (focusNext st, True, False)
         else if key ! 0 = 13 then Some (focusNext st, True, False)
         else if key ! 0 = 3 then Some (st, False, True)
         else Some (st, False, False))
      else if isEscapeSeq key then
        (if key ! 2 = 68 then
           (if tb_cursorPos tb0 > 0
            then Some (store r (TextBoxE (tb0\<lparr>tb_cursorPos := tb_cursorPos tb0 - 1,
                                                  tb_isPristine := False\<rparr>)) st, True, False)
            else Some (st, False, False))
         else if key ! 2 = 67 then
           (if tb_cursorPos tb0 < int (length (tb_Text tb0))
            then Some (store r (TextBoxE (tb0\<lparr>tb_cursorPos := tb_cursorPos tb0 + 1,
                                                  tb_isPristine := False\<rparr>)) st, True, False)
            else Some (st, False, False))
         else if key ! 2 = 90 then Some (focusPrevious st, True, False)
         else Some (st, False, False))
      else if isTildeSeq key then
        (if key ! 2 = 51 then
           (let pos = tb_cursorPos tb0
            in if pos < int (length (tb_Text tb0)) then
                 (if pos < 0 then None
                  else Some (store r (TextBoxE (tb0\<lparr>tb_Text := take (nat pos) (tb_Text tb0)
                                                           @ drop (nat (pos + 1)) (tb_Text tb0),
                                                        tb_isPristine := False\<rparr>)) st, True, False))
               else Some (st, False, False))
         else Some (st, False, False))
      else Some (st, False, False))"

definition containerKey ::
  "nat list \<Rightarrow> ref \<Rightarrow> Container \<Rightarrow> State \<Rightarrow> (State \<times> bool \<times> bool) option" where
  "containerKey key r c st =
     (if isEscapeSeq key then
        (if key ! 2 = 65 then Some (store r (ContainerE (fst (c_SelectPrevious c))) st, True, False)
         else if key ! 2 = 66 then Some (store r (ContainerE (fst (c_SelectNext c))) st, True, False)
         else if key ! 2 = 90 then Some (focusPrevious st, True, False)
         else Some (st, False, False))
      else if length key = 1 then
        (if key ! 0 = 9 then Some (focusNext st, True, False)
         else if key ! 0 = 13 then Some (st, True, False)
         else if key ! 0 = 3 then Some (st, False, True)
         else if key ! 0 = 113 \<or> key ! 0 = 81 then Some (st, False, True)
         else Some (st, False, False))
      else Some (st, False, False))"

definition scrollTo :: "ref \<Rightarrow> int \<Rightarrow> State \<Rightarrow> State" where
  \<comment> \<open>\<open>SetValue\<close> on the scrollbar at \<open>r\<close>; the scrollbar of a text area calls the text
      area's callback\<close>
  "scrollTo r v st =
     (case r of
        ScrollbarOf n \<Rightarrow>
          (case objs st n of
             Some (TextAreaE t) \<Rightarrow> store (Obj n) (TextAreaE (ta_SetValue v t)) st
           | _ \<Rightarrow> modify r (\<lambda>e. case e of ScrollBarE sb \<Rightarrow> ScrollBarE (fst (SetValue v sb)) | _ \<Rightarrow> e) st)
      | Obj n \<Rightarrow> modify r (\<lambda>e. case e of ScrollBarE sb \<Rightarrow> ScrollBarE (fst (SetValue v sb)) | _ \<Rightarrow> e) st)"

definition scrollBarKey ::
  "nat list \<Rightarrow> ref \<Rightarrow> ScrollBar \<Rightarrow> State \<Rightarrow> (State \<times> bool \<times> bool) option" where
  "scrollBarKey key r sb st =
     (if isEscapeSeq key then
        (let (st, render) =
               (if sb_Visible sb then
                  (if key ! 2 = 65 then (scrollTo r (sb_Value sb - 1) st, True)
                   else if key ! 2 = 66 then (scrollTo r (sb_Value sb + 1) st, True)
                   else (st, False))
                else (st, False))
         in if key ! 2 = 90 then Some (focusPrevious st, True, False)
            else Some (st, render, False))
      else if length key = 1 then
        (if key ! 0 = 9 then Some (focusNext st, True, False)
         else if key ! 0 = 13 then Some (focusNext st, True, False)
         else if key ! 0 = 3 then Some (st, False, True)
         else if key ! 0 = 113 \<or> key ! 0 = 81 then Some (st, False, True)
         else Some (st, False, False))
      else Some (st, False, False))"

definition RadioGroup_Select :: "nat \<Rightarrow> int \<Rightarrow> State \<Rightarrow> State option" where
  \<comment> \<open>\<open>rg.Select(selectedIndex)\<close> on the group with handle \<open>g\<close>\<close>
  "RadioGroup_Select g selectedIndex st =
     (case groups st g of
        None \<Rightarrow> None
      | Some rg \<Rightarrow>
          if selectedIndex < 0 \<or> selectedIndex \<ge> int (length (rg_Buttons rg)) then Some st
          else
            (case lookup st (rg_Buttons rg ! nat selectedIndex) of
               Some (RadioButtonE chosen) \<Rightarrow>
                 Some (fold (\<lambda>(i, btn). modify btn
                               (\<lambda>e. case e of
                                       RadioButtonE b \<Rightarrow>
                                         RadioButtonE (b\<lparr>rb_IsSelected := (int i = selectedIndex)\<rparr>)
                                     | _ \<Rightarrow> e))
                         (enumerate 0 (rg_Buttons rg))
                         (st\<lparr>groups := (groups st)(g \<mapsto> rg\<lparr>rg_SelectedIndex := selectedIndex,
                                                               rg_SelectedValue := rb_Value chosen\<rparr>)\<rparr>))
             | _ \<Rightarrow> None))"

definition otherKey ::
  "(nat \<Rightarrow> bool) \<Rightarrow> bool \<Rightarrow> nat list \<Rightarrow> State \<Rightarrow> (State \<times> bool \<times> bool) option" where
  "otherKey run makeRawOk key st =
     (if length key = 1 then
        (if key ! 0 = 9 then
           (if length (w_focusableElements (win st)) > 0 then Some (focusNext st, True, False)
            else Some (st, False, False))
         else if key ! 0 = 13 then
           (case (focusedRef st, focusedElement st) of
              (Some r, Some (ButtonE btn)) \<Rightarrow>
                if b_IsActive btn then
                  (case b_Action btn of
                     Some a \<Rightarrow>
                       (let quitAction = run a
                        in if \<not> quitAction
                           then (if \<not> makeRawOk then Some (st, False, True) else Some (st, True, False))
                           else Some (st, False, True))
                   | None \<Rightarrow> Some (st, False, False))
                else Some (focusNext st, True, False)
            | (Some r, Some (CheckBoxE cb)) \<Rightarrow>
                if cb_IsActive cb
                then Some (store r (CheckBoxE (cb\<lparr>cb_Checked := \<not> cb_Checked cb\<rparr>)) st, True, False)
                else Some (focusNext st, True, False)
            | (Some r, Some (RadioButtonE rb)) \<Rightarrow>
                if rb_IsActive rb then
                  (case groups st (rb_Group rb) of
                     None \<Rightarrow> None
                   | Some rg \<Rightarrow>
                       (case indexOf r (rg_Buttons rg) of
                          Some targetIndex \<Rightarrow>
                            (case RadioGroup_Select (rb_Group rb) (int targetIndex) st of
                               Some st' \<Rightarrow> Some (st', True, False)
                             | None \<Rightarrow> None)
                        | None \<Rightarrow> Some (st, False, False)))
                else Some (focusNext st, True, False)
            | _ \<Rightarrow> Some (focusNext st, True, False))
         else if key ! 0 = 113 \<or> key ! 0 = 81 then Some (st, False, True)
         else if key ! 0 = 3 then Some (st, False, True)
         else Some (st, False, False))
      else if isEscapeSeq key then
        (if key ! 2 = 90 then
           (if length (w_focusableElements (win st)) > 0 then Some (focusPrevious st, True, False)
            else Some (st, False, False))
         else Some (st, False, False))
      else Some (st, False, False))"

definition defaultKey ::
  "(nat \<Rightarrow> bool) \<Rightarrow> bool \<Rightarrow> nat list \<Rightarrow> State \<Rightarrow> (State \<times> bool \<times> bool) option" where
  \<comment> \<open>the key handling of the window itself, in the order of its \<open>if\<close> chain\<close>
  "defaultKey run makeRawOk key st =
     (case (focusedRef st, focusedElement st) of
        (Some r, Some (MenuBarE mb)) \<Rightarrow>
          if mb_IsActive mb then menuBarKey run key r mb st else otherKey run makeRawOk key st
      | (Some r, Some (PromptE p)) \<Rightarrow>
          if p_IsActive p then promptKey run key r p st else otherKey run makeRawOk key st
      | (Some r, Some (TextAreaE ta)) \<Rightarrow>
          if ta_IsActive ta then textAreaKey key r ta st else otherKey run makeRawOk key st
      | (Some r, Some (TextBoxE tb)) \<Rightarrow>
          if tb_IsActive tb then textBoxKey key r tb st else otherKey run makeRawOk key st
      | (Some r, Some (ContainerE c)) \<Rightarrow>
          if c_IsActive c then containerKey key r c st else otherKey run makeRawOk key st
      | (Some r, Some (ScrollBarE sb)) \<Rightarrow>
          if sb_IsActive sb then scrollBarKey key r sb st else otherKey run makeRawOk key st
      | _ \<Rightarrow> otherKey run makeRawOk key st)"

definition handleKey ::
  "(nat \<Rightarrow> nat list \<Rightarrow> State \<Rightarrow> (bool \<times> bool \<times> bool) \<times> State) \<Rightarrow> (nat \<Rightarrow> bool) \<Rightarrow> bool
     \<Rightarrow> nat list \<Rightarrow> State \<Rightarrow> (State \<times> bool \<times> bool) option" where
  "handleKey handler run makeRawOk key st =
     (if length key = 0 then Some (st, False, False)
      else case w_KeyHandler (win st) of
        Some h \<Rightarrow>
          (let ((handled, render, quit), st') = handler h key st
           in if handled then Some (st', render, quit)
              else defaultKey run makeRawOk key st')
      | None \<Rightarrow> defaultKey run makeRawOk key st)"


text \<open>
  The focused element is a prompt that is modal and active; the installed key handler, if
  there is one, reports the key as not handled and leaves the window as it is.
\<close>

definition focusedModalPrompt :: "State \<Rightarrow> bool" where
  "focusedModalPrompt st =
     (case focusedElement st of
        Some (PromptE p) \<Rightarrow> p_Modal p \<and> p_IsActive p
      | _ \<Rightarrow> False)"

definition handlerDeclines ::
  "(nat \<Rightarrow> nat list \<Rightarrow> State \<Rightarrow> (bool \<times> bool \<times> bool) \<times> State) \<Rightarrow> nat list \<Rightarrow> State \<Rightarrow> bool" where
  "handlerDeclines handler key st =
     (case w_KeyHandler (win st) of
        None \<Rightarrow> True
      | Some h \<Rightarrow> \<not> fst (fst (handler h key st)) \<and> snd (handler h key st) = st)"

text \<open>The window of two buttons with the dialog added and given the focus.\<close>

definition demo_dialog_focused :: State where
  "demo_dialog_focused = setFocus 2 (AddElement (Obj 2) demo_window)"


text \<open>
  The window of two buttons after the actions of the demo program (main.go) have shown a
  single-line prompt and a dialog, each added to the window and then activated, and two
  Tab keys have moved the focus from the first button to the single-line prompt.
\<close>

definition demo_two_prompts :: State where
  "demo_two_prompts =
     (let st = demo_window\<lparr>objs := (objs demo_window)
                 (4 \<mapsto> PromptE (NewSingleLinePrompt ''Confirm'' ''Do you want to proceed?''
                                   2 20 76 [] []
                                   [NewPromptButton ''Yes'' [] [] (Some 4),
                                    NewPromptButton ''No'' [] [] (Some 5)]))\<rparr>;
          st = modify (Obj 4) (clientSetActive True) (AddElement (Obj 4) st);
          st = modify (Obj 2) (clientSetActive True) (AddElement (Obj 2) st)
      in focusNext (focusNext st))"

definition modalActivePrompt :: "State \<Rightarrow> ref \<Rightarrow> bool" where
  \<comment> \<open>the object at \<open>r\<close> is a prompt with \<open>Modal\<close> and \<open>IsActive\<close> set\<close>
  "modalActivePrompt st r =
     (case lookup st r of Some (PromptE p) \<Rightarrow> p_Modal p \<and> p_IsActive p | _ \<Rightarrow> False)"


section \<open>Properties\<close>

subsection \<open>ScrollBar.SetValue\<close>

text \<open>
  C6 (as amended). On a scrollbar whose maximum is not negative, \<open>SetValue v\<close> leaves the
  value clamped into \<open>[0, MaxValue]\<close> stored; the callback, when one is installed, is
  called exactly when the clamped value differs from the value stored before, once and
  with the new value; with no callback installed nothing is called. Setting the value that
  is already stored calls nothing when that value lies in \<open>[0, MaxValue]\<close>, as it does
  after every \<open>SetValue\<close>.
\<close>

theorem SetValue_clamps_and_notifies:
  assumes "0 \<le> sb_MaxValue sb"
  shows "sb_Value (fst (SetValue v sb)) = max 0 (min (sb_MaxValue sb) v)
       \<and> 0 \<le> sb_Value (fst (SetValue v sb))
       \<and> sb_Value (fst (SetValue v sb)) \<le> sb_MaxValue sb
       \<and> (sb_OnScroll sb \<longrightarrow>
             snd (SetValue v sb) =
               (if max 0 (min (sb_MaxValue sb) v) \<noteq> sb_Value sb
                then [max 0 (min (sb_MaxValue sb) v)] else []))
       \<and> (\<not> sb_OnScroll sb \<longrightarrow> snd (SetValue v sb) = [])
       \<and> (0 \<le> sb_Value sb \<and> sb_Value sb \<le> sb_MaxValue sb \<longrightarrow>
             snd (SetValue (sb_Value sb) sb) = [])
       \<and> snd (SetValue (sb_Value (fst (SetValue v sb))) (fst (SetValue v sb))) = []"
  using assms by (auto simp: SetValue_def Let_def)

text \<open>The theorem at a scrollbar with maximum 5, value 0 and a callback, set to 7.\<close>

theorem SetValue_clamps_and_notifies_witness:
  "0 \<le> sb_MaxValue ((NewScrollBar 0 0 10 0 5 [] [] [])\<lparr>sb_OnScroll := True\<rparr>)
   \<and> sb_Value (fst (SetValue 7 ((NewScrollBar 0 0 10 0 5 [] [] [])\<lparr>sb_OnScroll := True\<rparr>))) = 5
   \<and> snd (SetValue 7 ((NewScrollBar 0 0 10 0 5 [] [] [])\<lparr>sb_OnScroll := True\<rparr>)) = [5]"
  using SetValue_clamps_and_notifies [of "(NewScrollBar 0 0 10 0 5 [] [] [])\<lparr>sb_OnScroll := True\<rparr>" 7]
  by (simp add: NewScrollBar_def)


text \<open>
  C6 as stated fails on a scrollbar whose stored value lies above its maximum: there
  \<open>SetValue\<close>, called with the stored value, stores the maximum and calls the callback.
  \<open>Container.updateScrollState\<close> makes that call after it has lowered the maximum:
  when the content of a container scrolled to offset 15 shrinks to 12 rows, the callback is
  called with 2 (and then with 0, as the highlighted row 0 is brought into view).
\<close>

theorem SetValue_stored_value_fires_counterexample:
  "sb_Value lowered_scrollBar = 15
   \<and> sb_MaxValue lowered_scrollBar = 2
   \<and> snd (SetValue (sb_Value lowered_scrollBar) lowered_scrollBar) = [2]
   \<and> sb_Value (fst (SetValue (sb_Value lowered_scrollBar) lowered_scrollBar)) = 2
   \<and> snd (SetContent (replicate 12 ''row'') scrolled_to_end) = [2, 0]"
  by code_simp

subsection \<open>Container: the viewport\<close>

lemma fst_SetValue: "fst (SetValue v sb) = sb\<lparr>sb_Value := clampValue (sb_MaxValue sb) v\<rparr>"
  by (simp add: SetValue_def Let_def clampValue_def)

lemma fst_c_SetValue:
  "fst (c_SetValue v c) =
     c\<lparr>c_scrollBar := (c_scrollBar c)\<lparr>sb_Value := clampValue (sb_MaxValue (c_scrollBar c)) v\<rparr>\<rparr>"
  by (simp add: c_SetValue_def split_beta fst_SetValue)

lemma fst_ensureHighlightVisible:
  "fst (ensureHighlightVisible c) = c\<lparr>c_scrollBar := (c_scrollBar c)\<lparr>sb_Value := ehvOffset c\<rparr>\<rparr>"
  by (simp add: ensureHighlightVisible_def Let_def fst_c_SetValue ehvOffset_def)

lemma ensureHighlightVisible_wf:
  "container_wf c \<Longrightarrow> container_wf (fst (ensureHighlightVisible c))"
  by (auto simp: container_wf_def fst_ensureHighlightVisible ehvOffset_def clampValue_def
        maxOffset_def)

lemma HighlightNext_wf: "container_wf c \<Longrightarrow> container_wf (fst (HighlightNext c))"
  by (auto simp: container_wf_def HighlightNext_def fst_ensureHighlightVisible ehvOffset_def
        clampValue_def maxOffset_def)

lemma HighlightPrevious_wf: "container_wf c \<Longrightarrow> container_wf (fst (HighlightPrevious c))"
  by (auto simp: container_wf_def HighlightPrevious_def fst_ensureHighlightVisible ehvOffset_def
        clampValue_def maxOffset_def)

lemma fst_updateScrollState:
  "fst (updateScrollState c) = fst (ensureHighlightVisible (ussPre c))"
  by (simp add: updateScrollState_def Let_def split_beta fst_c_SetValue ussPre_def
        clampValue_def)

lemma ussPre_wf:
  "1 \<le> c_Height c \<Longrightarrow> - 1 \<le> c_HighlightedIndex c \<Longrightarrow> container_wf (ussPre c)"
  by (simp add: container_wf_def ussPre_def Let_def clampValue_def maxOffset_def)

lemma updateScrollState_wf:
  "1 \<le> c_Height c \<Longrightarrow> - 1 \<le> c_HighlightedIndex c \<Longrightarrow>
   container_wf (fst (updateScrollState c))"
  by (simp add: fst_updateScrollState ensureHighlightVisible_wf ussPre_wf)

lemma SetContent_wf:
  "1 \<le> c_Height c \<Longrightarrow> - 1 \<le> c_HighlightedIndex c \<Longrightarrow>
   container_wf (fst (SetContent content c))"
  by (simp add: SetContent_def updateScrollState_wf)


lemma wf_adjust:
  "container_wf c1 \<Longrightarrow>
   container_wf (if c_HighlightedIndex c1 \<ge> int (length (c_Content c1)) \<and> length (c_Content c1) > 0
            then c1\<lparr>c_HighlightedIndex := int (length (c_Content c1)) - 1\<rparr>
            else if length (c_Content c1) = 0 then c1\<lparr>c_HighlightedIndex := - 1\<rparr>
            else c1)"
  by (auto simp: container_wf_def)

lemma NewContainer_wf: "container_wf (NewContainer x y w h content)"
  unfolding NewContainer_def Let_def
  by (intro ensureHighlightVisible_wf wf_adjust updateScrollState_wf) simp_all

lemma ensureHighlightVisible_fields [simp]:
  "c_Height (fst (ensureHighlightVisible c)) = c_Height c"
  "c_Width (fst (ensureHighlightVisible c)) = c_Width c"
  "c_Content (fst (ensureHighlightVisible c)) = c_Content c"
  "c_HighlightedIndex (fst (ensureHighlightVisible c)) = c_HighlightedIndex c"
  "c_totalContentHeight (fst (ensureHighlightVisible c)) = c_totalContentHeight c"
  by (simp_all add: fst_ensureHighlightVisible)

lemma updateScrollState_fields [simp]:
  "c_Height (fst (updateScrollState c)) = c_Height c"
  "c_Width (fst (updateScrollState c)) = c_Width c"
  "c_Content (fst (updateScrollState c)) = c_Content c"
  "c_totalContentHeight (fst (updateScrollState c)) = int (length (c_Content c))"
  by (simp_all add: fst_updateScrollState ussPre_def Let_def)

lemma NewContainer_fields:
  "c_Height (NewContainer x y w h content) = max 1 h"
  "c_Width (NewContainer x y w h content) = max 1 w"
  "c_Content (NewContainer x y w h content) = content"
  "c_totalContentHeight (NewContainer x y w h content) = int (length content)"
  unfolding NewContainer_def Let_def by (simp_all add: max_def)

lemma NewContainer_start:
  assumes "content \<noteq> []"
  shows "c_HighlightedIndex (NewContainer x y w h content) = 0"
    and "sb_Value (c_scrollBar (NewContainer x y w h content)) = 0"
  using assms unfolding NewContainer_def Let_def
  by (simp_all add: fst_ensureHighlightVisible fst_updateScrollState ussPre_def Let_def
        ehvOffset_def clampValue_def NewScrollBar_def)

text \<open>One more row highlighted: the offset follows the highlight past the last visible row.\<close>

lemma HighlightNext_step:
  assumes "container_wf c" and "0 \<le> c_HighlightedIndex c"
    and "c_HighlightedIndex c + 1 \<le> int (length (c_Content c)) - 1"
    and "sb_Value (c_scrollBar c) = max 0 (c_HighlightedIndex c - c_Height c + 1)"
  shows "c_HighlightedIndex (fst (HighlightNext c)) = c_HighlightedIndex c + 1"
    and "sb_Value (c_scrollBar (fst (HighlightNext c))) =
           max 0 (c_HighlightedIndex c + 1 - c_Height c + 1)"
  using assms
  by (auto simp: container_wf_def HighlightNext_def fst_ensureHighlightVisible ehvOffset_def
        clampValue_def maxOffset_def)

lemma HighlightNext_fields [simp]:
  "c_Height (fst (HighlightNext c)) = c_Height c"
  "c_Content (fst (HighlightNext c)) = c_Content c"
  by (simp_all add: HighlightNext_def)

lemma HighlightNext_funpow:
  assumes "container_wf c" and "c_HighlightedIndex c = 0" and "sb_Value (c_scrollBar c) = 0"
    and "int n \<le> int (length (c_Content c)) - 1"
  shows "container_wf (((\<lambda>c. fst (HighlightNext c)) ^^ n) c)
       \<and> c_Height (((\<lambda>c. fst (HighlightNext c)) ^^ n) c) = c_Height c
       \<and> c_Content (((\<lambda>c. fst (HighlightNext c)) ^^ n) c) = c_Content c
       \<and> c_HighlightedIndex (((\<lambda>c. fst (HighlightNext c)) ^^ n) c) = int n
       \<and> sb_Value (c_scrollBar (((\<lambda>c. fst (HighlightNext c)) ^^ n) c)) =
            max 0 (int n - c_Height c + 1)"
  using assms(4)
proof (induction n)
  case 0
  with assms show ?case by (simp add: container_wf_def)
next
  case (Suc n)
  let ?d = "((\<lambda>c. fst (HighlightNext c)) ^^ n) c"
  from Suc have ih: "container_wf ?d" "c_Height ?d = c_Height c" "c_Content ?d = c_Content c"
    "c_HighlightedIndex ?d = int n" "sb_Value (c_scrollBar ?d) = max 0 (int n - c_Height c + 1)"
    by simp_all
  have le: "c_HighlightedIndex ?d + 1 \<le> int (length (c_Content ?d)) - 1"
    using Suc.prems ih by simp
  have v: "sb_Value (c_scrollBar ?d) = max 0 (c_HighlightedIndex ?d - c_Height ?d + 1)"
    using ih by simp
  have nn: "0 \<le> c_HighlightedIndex ?d" using ih by simp
  show ?case
    using HighlightNext_step [OF ih(1) nn le v] HighlightNext_wf [OF ih(1)] ih
    by (simp add: add.commute)
qed


text \<open>
  C3 (as amended). On a container in the state its own operations keep:
  when the scrollbar is visible and a row is highlighted, \<open>ensureHighlightVisible\<close>
  leaves the offset the specification's \<open>ensureVisible\<close> computes: the highlighted index
  when it lies above the offset, \<open>highlighted - height + 1\<close> when it lies below the last
  visible row, the old offset otherwise; when the scrollbar is hidden or no row is
  highlighted (index \<open>-1\<close>) the offset is left as it is; in every case the offset lies in
  \<open>[0, maxOffset]\<close> with \<open>maxOffset = max 0 (contentLength - height)\<close>. A container
  of 25 rows and height 10 has highlighted index 12 and offset 3 after 12 calls of
  \<open>HighlightNext\<close>.
\<close>

theorem ensureHighlightVisible_viewport:
  assumes "container_wf c" and "length content = 25"
  shows "(sb_Visible (c_scrollBar c) \<and> 0 \<le> c_HighlightedIndex c \<longrightarrow>
            sb_Value (c_scrollBar (fst (ensureHighlightVisible c))) =
              ensureVisible_spec (sb_Value (c_scrollBar c)) (c_Height c)
                (maxOffset (int (length (c_Content c))) (c_Height c)) (c_HighlightedIndex c)
          \<and> (c_HighlightedIndex c < sb_Value (c_scrollBar c) \<longrightarrow>
               sb_Value (c_scrollBar (fst (ensureHighlightVisible c))) = c_HighlightedIndex c)
          \<and> (c_HighlightedIndex c > sb_Value (c_scrollBar c) + c_Height c - 1 \<longrightarrow>
               sb_Value (c_scrollBar (fst (ensureHighlightVisible c))) =
                 c_HighlightedIndex c - c_Height c + 1))
       \<and> (\<not> sb_Visible (c_scrollBar c) \<or> c_HighlightedIndex c < 0 \<longrightarrow>
            sb_Value (c_scrollBar (fst (ensureHighlightVisible c))) = sb_Value (c_scrollBar c))
       \<and> 0 \<le> sb_Value (c_scrollBar (fst (ensureHighlightVisible c)))
       \<and> sb_Value (c_scrollBar (fst (ensureHighlightVisible c)))
            \<le> maxOffset (int (length (c_Content c))) (c_Height c)
       \<and> c_HighlightedIndex (((\<lambda>c. fst (HighlightNext c)) ^^ 12) (NewContainer x y w 10 content)) = 12
       \<and> sb_Value (c_scrollBar (((\<lambda>c. fst (HighlightNext c)) ^^ 12) (NewContainer x y w 10 content))) = 3"
proof -
  have a: "sb_Visible (c_scrollBar c) \<and> 0 \<le> c_HighlightedIndex c \<longrightarrow>
            sb_Value (c_scrollBar (fst (ensureHighlightVisible c))) =
              ensureVisible_spec (sb_Value (c_scrollBar c)) (c_Height c)
                (maxOffset (int (length (c_Content c))) (c_Height c)) (c_HighlightedIndex c)
          \<and> (c_HighlightedIndex c < sb_Value (c_scrollBar c) \<longrightarrow>
               sb_Value (c_scrollBar (fst (ensureHighlightVisible c))) = c_HighlightedIndex c)
          \<and> (c_HighlightedIndex c > sb_Value (c_scrollBar c) + c_Height c - 1 \<longrightarrow>
               sb_Value (c_scrollBar (fst (ensureHighlightVisible c))) =
                 c_HighlightedIndex c - c_Height c + 1)"
    using assms(1)
    by (auto simp: container_wf_def fst_ensureHighlightVisible ehvOffset_def clampValue_def
          maxOffset_def ensureVisible_spec_def)
  have b: "\<not> sb_Visible (c_scrollBar c) \<or> c_HighlightedIndex c < 0 \<longrightarrow>
            sb_Value (c_scrollBar (fst (ensureHighlightVisible c))) = sb_Value (c_scrollBar c)"
    by (auto simp: fst_ensureHighlightVisible ehvOffset_def)
  have c: "0 \<le> sb_Value (c_scrollBar (fst (ensureHighlightVisible c)))
       \<and> sb_Value (c_scrollBar (fst (ensureHighlightVisible c)))
            \<le> maxOffset (int (length (c_Content c))) (c_Height c)"
    using ensureHighlightVisible_wf [OF assms(1)] by (simp add: container_wf_def)
  have ne: "content \<noteq> []" using assms(2) by auto
  let ?c0 = "NewContainer x y w 10 content"
  have "int 12 \<le> int (length (c_Content ?c0)) - 1"
    using assms(2) by (simp add: NewContainer_fields)
  from HighlightNext_funpow [OF NewContainer_wf NewContainer_start(1) [OF ne]
      NewContainer_start(2) [OF ne] this]
  have d: "c_HighlightedIndex (((\<lambda>c. fst (HighlightNext c)) ^^ 12) ?c0) = 12
       \<and> sb_Value (c_scrollBar (((\<lambda>c. fst (HighlightNext c)) ^^ 12) ?c0)) = 3"
    by (simp add: NewContainer_fields)
  from a b c d show ?thesis by blast
qed

text \<open>The theorem at a container of 25 rows and height 10, as \<open>NewContainer\<close> builds it.\<close>

theorem ensureHighlightVisible_viewport_witness:
  "container_wf (NewContainer 0 0 20 10 (replicate 25 ''row''))
   \<and> length (replicate 25 ''row'') = 25
   \<and> 0 \<le> sb_Value (c_scrollBar (fst (ensureHighlightVisible
            (NewContainer 0 0 20 10 (replicate 25 ''row'')))))
   \<and> c_HighlightedIndex (((\<lambda>c. fst (HighlightNext c)) ^^ 12)
        (NewContainer 0 0 20 10 (replicate 25 ''row''))) = 12
   \<and> sb_Value (c_scrollBar (((\<lambda>c. fst (HighlightNext c)) ^^ 12)
        (NewContainer 0 0 20 10 (replicate 25 ''row'')))) = 3"
proof -
  have wf: "container_wf (NewContainer 0 0 20 10 (replicate 25 ''row''))"
    by (rule NewContainer_wf)
  have len: "length (replicate 25 ''row'') = 25" by simp
  from ensureHighlightVisible_viewport [OF wf len, of 0 0 20] wf len
  show ?thesis by blast
qed

text \<open>
  C3 as stated fails where no row is highlighted: in \<open>viewport_no_highlight\<close> the
  highlighted index \<open>-1\<close> lies below the offset \<open>1\<close>, and the offset is neither set
  to it nor to the clamped \<open>0\<close> of the specification's routine: the guard at the head of
  \<open>ensureHighlightVisible\<close> returns first.
\<close>

theorem ensureVisible_no_highlight_counterexample:
  "container_wf viewport_no_highlight
   \<and> c_HighlightedIndex viewport_no_highlight = - 1
   \<and> sb_Value (c_scrollBar viewport_no_highlight) = 1
   \<and> c_HighlightedIndex viewport_no_highlight < sb_Value (c_scrollBar viewport_no_highlight)
   \<and> sb_Value (c_scrollBar (fst (ensureHighlightVisible viewport_no_highlight))) = 1
   \<and> sb_Value (c_scrollBar (fst (ensureHighlightVisible viewport_no_highlight)))
        \<noteq> c_HighlightedIndex viewport_no_highlight
   \<and> sb_Value (c_scrollBar (fst (ensureHighlightVisible viewport_no_highlight)))
        \<noteq> ensureVisible_spec (sb_Value (c_scrollBar viewport_no_highlight))
             (c_Height viewport_no_highlight)
             (maxOffset (int (length (c_Content viewport_no_highlight)))
                (c_Height viewport_no_highlight))
             (c_HighlightedIndex viewport_no_highlight)"
  by (simp add: viewport_no_highlight_def Let_def SetContent_def NewContainer_def
        fst_updateScrollState fst_ensureHighlightVisible ussPre_def ehvOffset_def
        clampValue_def NewScrollBar_def fst_SetValue container_wf_def maxOffset_def
        ensureVisible_spec_def)


subsection \<open>TextArea: text round trip\<close>

lemma splitFrom_nonempty: "splitFrom sep cur s \<noteq> []"
  by (induction sep cur s rule: splitFrom.induct) (subst splitFrom.simps, simp)

lemma Join_Cons: "ys \<noteq> [] \<Longrightarrow> Join (x # ys) sep = x @ sep @ Join ys sep"
  by (cases ys) simp_all

lemma Join_splitFrom: "sep \<noteq> [] \<Longrightarrow> Join (splitFrom sep cur s) sep = cur @ s"
proof (induction sep cur s rule: splitFrom.induct)
  case (1 sep cur s)
  show ?case
  proof (cases "s = []")
    case True
    then show ?thesis by (subst splitFrom.simps) simp
  next
    case False
    show ?thesis
    proof (cases "prefix sep s")
      case True
      then obtain r where r: "s = sep @ r" by (auto simp: prefix_def)
      have "Join (splitFrom sep [] (drop (length sep) s)) sep = [] @ drop (length sep) s"
        using "1.IH"(1) [OF False] True "1.prems" by simp
      then show ?thesis
        using False True "1.prems" r
        by (subst splitFrom.simps) (simp add: Join_Cons splitFrom_nonempty)
    next
      case np: False
      have "Join (splitFrom sep (cur @ [hd s]) (tl s)) sep = (cur @ [hd s]) @ tl s"
        using "1.IH"(2) [OF False] np "1.prems" by simp
      then show ?thesis
        using False np by (subst splitFrom.simps) simp
    qed
  qed
qed

lemma Join_Split: "sep \<noteq> [] \<Longrightarrow> Join (Split s sep) sep = s"
  by (simp add: Split_def Join_splitFrom)

lemma Split_nonempty: "sep \<noteq> [] \<Longrightarrow> Split s sep \<noteq> []"
  by (simp add: Split_def splitFrom_nonempty)

lemma ReplaceAll_crlf: "ReplaceAll s [CHR 0x0D, CHR 0x0A] [CHR 0x0A] = crlf_to_lf s"
proof (induction s rule: crlf_to_lf.induct)
  case (1 c d cs)
  then show ?case by (subst ReplaceAll.simps) auto
qed ((subst ReplaceAll.simps, simp)+)

lemma ta_SetValue_fields [simp]:
  "ta_Lines (ta_SetValue v ta) = ta_Lines ta"
  "ta_cursorLine (ta_SetValue v ta) = ta_cursorLine ta"
  "ta_cursorCol (ta_SetValue v ta) = ta_cursorCol ta"
  "ta_Height (ta_SetValue v ta) = ta_Height ta"
  "ta_IsActive (ta_SetValue v ta) = ta_IsActive ta"
  by (simp_all add: ta_SetValue_def SetValue_def Let_def)

lemma ensureCursorVisible_fields [simp]:
  "ta_Lines (ensureCursorVisible ta) = ta_Lines ta"
  "ta_cursorLine (ensureCursorVisible ta) = ta_cursorLine ta"
  "ta_cursorCol (ensureCursorVisible ta) = ta_cursorCol ta"
  by (simp_all add: ensureCursorVisible_def Let_def)

lemma ta_updateScrollState_fields [simp]:
  "ta_Lines (ta_updateScrollState ta) = ta_Lines ta"
  "ta_cursorLine (ta_updateScrollState ta) = ta_cursorLine ta"
  "ta_cursorCol (ta_updateScrollState ta) = ta_cursorCol ta"
  "ta_Height (ta_updateScrollState ta) = ta_Height ta"
  by (simp_all add: ta_updateScrollState_def Let_def)

lemma calculateCounts_fields [simp]:
  "ta_Lines (calculateCounts ta) = ta_Lines ta"
  "ta_cursorLine (calculateCounts ta) = ta_cursorLine ta"
  "ta_cursorCol (calculateCounts ta) = ta_cursorCol ta"
  "ta_Height (calculateCounts ta) = ta_Height ta"
  by (simp_all add: calculateCounts_def Let_def)

lemma SetText_Lines:
  "ta_Lines (SetText s ta) = Split (ReplaceAll s [CHR 0x0D, CHR 0x0A] [CHR 0x0A]) [CHR 0x0A]"
  by (simp add: SetText_def Let_def Split_nonempty)

text \<open>
  C7. For every string \<open>s\<close> and every text area, \<open>GetText\<close> after \<open>SetText s\<close>
  returns \<open>strings.ReplaceAll(s, "\r\n", "\n")\<close>, which is \<open>s\<close> with every occurrence
  of a carriage return and line feed replaced by a line feed.
\<close>

theorem SetText_GetText_roundtrip:
  "GetText (SetText s ta) = ReplaceAll s [CHR 0x0D, CHR 0x0A] [CHR 0x0A]
   \<and> GetText (SetText s ta) = crlf_to_lf s"
  by (simp add: GetText_def SetText_Lines Join_Split ReplaceAll_crlf)


text \<open>The round trip at a text with two line ends, one of them with a carriage return.\<close>

theorem SetText_GetText_roundtrip_witness:
  "GetText (SetText [CHR ''a'', CHR 0x0D, CHR 0x0A, CHR ''b'', CHR 0x0A, CHR ''c'']
      (NewTextArea [] 0 0 10 5 0 [] [] False False))
   = [CHR ''a'', CHR 0x0A, CHR ''b'', CHR 0x0A, CHR ''c'']"
proof -
  have "GetText (SetText [CHR ''a'', CHR 0x0D, CHR 0x0A, CHR ''b'', CHR 0x0A, CHR ''c'']
      (NewTextArea [] 0 0 10 5 0 [] [] False False))
    = crlf_to_lf [CHR ''a'', CHR 0x0D, CHR 0x0A, CHR ''b'', CHR 0x0A, CHR ''c'']"
    by (rule conjunct2 [OF SetText_GetText_roundtrip])
  also have "\<dots> = [CHR ''a'', CHR 0x0A, CHR ''b'', CHR 0x0A, CHR ''c'']"
    by simp
  finally show ?thesis .
qed


subsection \<open>Runes and strings\<close>

text \<open>Decoding the encoding of a rune gives the rune back (\<open>U+FFFD\<close> for a rune that is
  no scalar value) and passes exactly the bytes of the encoding.\<close>

lemma decode1: "a < 0x80 \<Longrightarrow> DecodeRuneInString (char_of a # t) = (int a, 1)"
  by simp

lemma decode2:
  "0xC2 \<le> a \<Longrightarrow> a \<le> 0xDF \<Longrightarrow> 0x80 \<le> b \<Longrightarrow> b \<le> 0xBF \<Longrightarrow>
   DecodeRuneInString (char_of a # char_of b # t) = (int ((a - 0xC0) * 0x40 + (b - 0x80)), 2)"
  by (simp add: isCont_def)

lemma decode3:
  "0xE0 \<le> a \<Longrightarrow> a \<le> 0xEF \<Longrightarrow> secondLo a \<le> b \<Longrightarrow> b \<le> secondHi a \<Longrightarrow>
   0x80 \<le> c \<Longrightarrow> c \<le> 0xBF \<Longrightarrow>
   DecodeRuneInString (char_of a # char_of b # char_of c # t)
     = (int ((a - 0xE0) * 0x1000 + (b - 0x80) * 0x40 + (c - 0x80)), 3)"
proof -
  assume h: "0xE0 \<le> a" "a \<le> 0xEF" "secondLo a \<le> b" "b \<le> secondHi a" "0x80 \<le> c" "c \<le> 0xBF"
  have "secondHi a \<le> 0xBF" by (simp add: secondHi_def)
  with h have b: "b < 256" by simp
  from h have a: "a < 256" "c < 256" by simp_all
  show ?thesis using h a b by (simp add: isCont_def)
qed

lemma decode4:
  "0xF0 \<le> a \<Longrightarrow> a \<le> 0xF4 \<Longrightarrow> secondLo a \<le> b \<Longrightarrow> b \<le> secondHi a \<Longrightarrow>
   0x80 \<le> c \<Longrightarrow> c \<le> 0xBF \<Longrightarrow> 0x80 \<le> d \<Longrightarrow> d \<le> 0xBF \<Longrightarrow>
   DecodeRuneInString (char_of a # char_of b # char_of c # char_of d # t)
     = (int ((a - 0xF0) * 0x40000 + (b - 0x80) * 0x1000 + (c - 0x80) * 0x40 + (d - 0x80)), 4)"
proof -
  assume h: "0xF0 \<le> a" "a \<le> 0xF4" "secondLo a \<le> b" "b \<le> secondHi a" "0x80 \<le> c" "c \<le> 0xBF"
     "0x80 \<le> d" "d \<le> 0xBF"
  have "secondHi a \<le> 0xBF" by (simp add: secondHi_def)
  with h have b: "b < 256" by simp
  from h have a: "a < 256" "c < 256" "d < 256" by simp_all
  show ?thesis using h a b by (simp add: isCont_def)
qed


lemma encode_invalid:
  "r < 0 \<or> r > 0x10FFFF \<or> (0xD800 \<le> r \<and> r \<le> 0xDFFF) \<Longrightarrow>
   encodeRune r = [CHR 0xEF, CHR 0xBF, CHR 0xBD]"
  by (simp add: encodeRune_def)

lemma encode_valid:
  "\<not> (int n > 0x10FFFF \<or> (0xD800 \<le> int n \<and> int n \<le> 0xDFFF)) \<Longrightarrow>
   encodeRune (int n) =
     (if n < 0x80 then [char_of n]
      else if n < 0x800 then [char_of (0xC0 + n div 0x40), char_of (0x80 + n mod 0x40)]
      else if n < 0x10000
      then [char_of (0xE0 + n div 0x1000), char_of (0x80 + (n div 0x40) mod 0x40),
            char_of (0x80 + n mod 0x40)]
      else [char_of (0xF0 + n div 0x40000), char_of (0x80 + (n div 0x1000) mod 0x40),
            char_of (0x80 + (n div 0x40) mod 0x40), char_of (0x80 + n mod 0x40)])"
  unfolding encodeRune_def Let_def by (auto simp del: char_of_def)

lemma dec_enc_invalid:
  assumes "r < 0 \<or> r > 0x10FFFF \<or> (0xD800 \<le> r \<and> r \<le> 0xDFFF)"
  shows "DecodeRuneInString (encodeRune r @ t) = (RuneError, 3)"
  using assms
  by (simp add: encode_invalid RuneError_def isCont_def secondLo_def secondHi_def)

lemma dec_enc_1: "n < 0x80 \<Longrightarrow> DecodeRuneInString (encodeRune (int n) @ t) = (int n, 1)"
  using decode1 [of n t] by (simp add: encode_valid del: DecodeRuneInString.simps)

lemma dec_enc_2:
  assumes "0x80 \<le> n" "n < 0x800"
  shows "DecodeRuneInString (encodeRune (int n) @ t) = (int n, 2)"
proof -
  have e: "encodeRune (int n) = [char_of (0xC0 + n div 0x40), char_of (0x80 + n mod 0x40)]"
    using assms by (simp add: encode_valid del: char_of_def)
  have "DecodeRuneInString (char_of (0xC0 + n div 0x40) # char_of (0x80 + n mod 0x40) # t)
          = (int ((0xC0 + n div 0x40 - 0xC0) * 0x40 + (0x80 + n mod 0x40 - 0x80)), 2)"
    using assms by (intro decode2) arith+
  also have "(0xC0 + n div 0x40 - 0xC0) * 0x40 + (0x80 + n mod 0x40 - 0x80) = n" by simp
  finally show ?thesis by (simp add: e del: DecodeRuneInString.simps)
qed

lemma div4096: "(n::nat) div 0x1000 = n div 0x40 div 0x40"
  by (simp add: div_mult2_eq [symmetric])

lemma div262144: "(n::nat) div 0x40000 = n div 0x1000 div 0x40"
  by (simp add: div_mult2_eq [symmetric])

lemma modq: "(q::nat) div 64 = k \<Longrightarrow> q mod 64 = q - k * 64"
  by (metis add_diff_cancel_left' mult.commute mult_div_mod_eq)

lemma l3lo:
  assumes "0x800 \<le> (n::nat)" "n < 0x10000"
  shows "secondLo (0xE0 + n div 0x1000) \<le> 0x80 + (n div 0x40) mod 0x40"
proof (cases "n div 0x1000 = 0")
  case True
  then have "n div 0x40 div 0x40 = 0" by (simp add: div4096)
  from modq [OF this] have "(n div 0x40) mod 0x40 = n div 0x40" by simp
  moreover from assms have "32 \<le> n div 0x40" by simp
  ultimately show ?thesis using True by (simp add: secondLo_def)
next
  case False
  moreover from assms have "n div 0x1000 < 16" by simp
  ultimately show ?thesis by (simp add: secondLo_def)
qed

lemma l3hi:
  assumes "0x800 \<le> (n::nat)" "n < 0x10000" "\<not> (0xD800 \<le> n \<and> n \<le> 0xDFFF)"
  shows "0x80 + (n div 0x40) mod 0x40 \<le> secondHi (0xE0 + n div 0x1000)"
proof (cases "n div 0x1000 = 13")
  case True
  then have "n div 0x40 div 0x40 = 13" by (simp add: div4096)
  from modq [OF this] have m: "(n div 0x40) mod 0x40 = n div 0x40 - 13 * 64" by simp
  from True have "n < 0xE000" by simp
  with assms have "n < 0xD800" by simp
  then have "n div 0x40 < 864" by simp
  with m have "(n div 0x40) mod 0x40 < 32" by simp
  with True show ?thesis by (simp add: secondHi_def)
next
  case False
  have "(n div 0x40) mod 0x40 < 64" by simp
  then have "0x80 + (n div 0x40) mod 0x40 \<le> 0xBF" by simp
  moreover from assms have "n div 0x1000 < 16" by simp
  ultimately show ?thesis using False by (simp add: secondHi_def)
qed

lemma l4lo:
  assumes "0x10000 \<le> (n::nat)" "n \<le> 0x10FFFF"
  shows "secondLo (0xF0 + n div 0x40000) \<le> 0x80 + (n div 0x1000) mod 0x40"
proof (cases "n div 0x40000 = 0")
  case True
  then have "n div 0x1000 div 0x40 = 0" by (simp add: div262144)
  from modq [OF this] have "(n div 0x1000) mod 0x40 = n div 0x1000" by simp
  moreover from assms have "16 \<le> n div 0x1000" by simp
  ultimately show ?thesis using True by (simp add: secondLo_def)
next
  case False
  then show ?thesis by (simp add: secondLo_def)
qed

lemma l4hi:
  assumes "0x10000 \<le> (n::nat)" "n \<le> 0x10FFFF"
  shows "0x80 + (n div 0x1000) mod 0x40 \<le> secondHi (0xF0 + n div 0x40000)"
proof (cases "n div 0x40000 = 4")
  case True
  then have "n div 0x1000 div 0x40 = 4" by (simp add: div262144)
  from modq [OF this] have m: "(n div 0x1000) mod 0x40 = n div 0x1000 - 4 * 64" by simp
  from assms have "n div 0x1000 < 272" by simp
  with m have "(n div 0x1000) mod 0x40 < 16" by simp
  with True show ?thesis by (simp add: secondHi_def)
next
  case False
  have "(n div 0x1000) mod 0x40 < 64" by simp
  then have "0x80 + (n div 0x1000) mod 0x40 \<le> 0xBF" by simp
  moreover from assms have "n div 0x40000 < 5" by simp
  ultimately show ?thesis using False by (simp add: secondHi_def)
qed

lemma mul64: "(q::nat) * 0x40 = q div 0x40 * 0x1000 + q mod 0x40 * 0x40"
proof -
  have "(a * 0x40 + b) * 0x40 = a * 0x1000 + b * 0x40" for a b :: nat by simp
  from this [of "q div 0x40" "q mod 0x40"] show ?thesis by (simp only: div_mult_mod_eq)
qed

lemma val3: "(n::nat) div 0x1000 * 0x1000 + (n div 0x40) mod 0x40 * 0x40 + n mod 0x40 = n"
proof -
  have "n div 0x40 * 0x40 = (n div 0x1000) * 0x1000 + (n div 0x40) mod 0x40 * 0x40"
    using mul64 [of "n div 0x40"] by (simp only: div4096)
  moreover have "n = n div 0x40 * 0x40 + n mod 0x40" by simp
  ultimately show ?thesis by simp
qed

lemma mul4096: "(q::nat) * 0x1000 = q div 0x40 * 0x40000 + q mod 0x40 * 0x1000"
proof -
  have "(a * 0x40 + b) * 0x1000 = a * 0x40000 + b * 0x1000" for a b :: nat by simp
  from this [of "q div 0x40" "q mod 0x40"] show ?thesis by (simp only: div_mult_mod_eq)
qed

lemma val4: "(n::nat) div 0x40000 * 0x40000 + (n div 0x1000) mod 0x40 * 0x1000 + (n div 0x40) mod 0x40 * 0x40 + n mod 0x40 = n"
proof -
  have "n div 0x1000 * 0x1000 = (n div 0x40000) * 0x40000 + (n div 0x1000) mod 0x40 * 0x1000"
    using mul4096 [of "n div 0x1000"] by (simp only: div262144)
  with val3 [of n] show ?thesis by simp
qed

lemma dec_enc_3:
  assumes "0x800 \<le> n" "n < 0x10000" "\<not> (0xD800 \<le> n \<and> n \<le> 0xDFFF)"
  shows "DecodeRuneInString (encodeRune (int n) @ t) = (int n, 3)"
proof -
  let ?a = "0xE0 + n div 0x1000" and ?b = "0x80 + (n div 0x40) mod 0x40" and ?c = "0x80 + n mod 0x40"
  have e: "encodeRune (int n) = [char_of ?a, char_of ?b, char_of ?c]"
    using assms by (simp add: encode_valid del: char_of_def)
  have a: "0xE0 \<le> ?a" "?a \<le> 0xEF" using assms by simp_all
  have c: "0x80 \<le> ?c" "?c \<le> 0xBF" by simp_all
  have "DecodeRuneInString (char_of ?a # char_of ?b # char_of ?c # t)
          = (int ((?a - 0xE0) * 0x1000 + (?b - 0x80) * 0x40 + (?c - 0x80)), 3)"
    by (rule decode3 [OF a l3lo [OF assms(1,2)] l3hi [OF assms] c])
  also have "(?a - 0xE0) * 0x1000 + (?b - 0x80) * 0x40 + (?c - 0x80) = n"
    using val3 [of n] by simp
  finally show ?thesis by (simp add: e del: DecodeRuneInString.simps)
qed

lemma dec_enc_4:
  assumes "0x10000 \<le> n" "n \<le> 0x10FFFF"
  shows "DecodeRuneInString (encodeRune (int n) @ t) = (int n, 4)"
proof -
  let ?a = "0xF0 + n div 0x40000" and ?b = "0x80 + (n div 0x1000) mod 0x40"
    and ?c = "0x80 + (n div 0x40) mod 0x40" and ?d = "0x80 + n mod 0x40"
  have e: "encodeRune (int n) = [char_of ?a, char_of ?b, char_of ?c, char_of ?d]"
    using assms by (simp add: encode_valid del: char_of_def)
  have a: "0xF0 \<le> ?a" "?a \<le> 0xF4" using assms by simp_all
  have c: "0x80 \<le> ?c" "?c \<le> 0xBF" by simp_all
  have d: "0x80 \<le> ?d" "?d \<le> 0xBF" by simp_all
  have "DecodeRuneInString (char_of ?a # char_of ?b # char_of ?c # char_of ?d # t)
          = (int ((?a - 0xF0) * 0x40000 + (?b - 0x80) * 0x1000 + (?c - 0x80) * 0x40 + (?d - 0x80)), 4)"
    by (rule decode4 [OF a l4lo [OF assms] l4hi [OF assms] c d])
  also have "(?a - 0xF0) * 0x40000 + (?b - 0x80) * 0x1000 + (?c - 0x80) * 0x40 + (?d - 0x80) = n"
    using val4 [of n] by simp
  finally show ?thesis by (simp add: e del: DecodeRuneInString.simps)
qed

lemma length_encodeRune: "0 < length (encodeRune r)"
  by (simp add: encodeRune_def Let_def)

lemma dec_enc:
  "DecodeRuneInString (encodeRune r @ t) = (validRune r, length (encodeRune r))"
proof (cases "r < 0 \<or> r > 0x10FFFF \<or> (0xD800 \<le> r \<and> r \<le> 0xDFFF)")
  case True
  from dec_enc_invalid [OF this, of t] encode_invalid [OF this] True show ?thesis
    by (simp add: validRune_def del: DecodeRuneInString.simps)
next
  case False
  then obtain n where n: "r = int n" by (metis nat_0_le not_le_imp_less order_less_imp_le)
  with False have v: "\<not> (int n > 0x10FFFF \<or> (0xD800 \<le> int n \<and> int n \<le> 0xDFFF))" by simp
  have f: "validRune r = int n" using False n by (auto simp: validRune_def)
  consider "n < 0x80" | "0x80 \<le> n" "n < 0x800" | "0x800 \<le> n" "n < 0x10000" | "0x10000 \<le> n"
    by linarith
  then show ?thesis
  proof cases
    case 1
    then show ?thesis unfolding n f [unfolded n] using dec_enc_1 [of n t]
      by (simp add: encode_valid [OF v] del: DecodeRuneInString.simps char_of_def)
  next
    case 2
    then show ?thesis unfolding n using dec_enc_2 [of n t] f [unfolded n]
      by (simp add: encode_valid [OF v] del: DecodeRuneInString.simps char_of_def)
  next
    case 3
    moreover have "\<not> (0xD800 \<le> n \<and> n \<le> 0xDFFF)" using v by simp
    ultimately show ?thesis unfolding n using dec_enc_3 [of n t] f [unfolded n]
      by (simp add: encode_valid [OF v] del: DecodeRuneInString.simps char_of_def)
  next
    case 4
    moreover have "n \<le> 0x10FFFF" using v by simp
    ultimately show ?thesis unfolding n using dec_enc_4 [of n t] f [unfolded n]
      by (simp add: encode_valid [OF v] del: DecodeRuneInString.simps char_of_def)
  qed
qed

lemma runesOf_encodeRune: "runesOf (encodeRune r @ t) = validRune r # runesOf t"
proof -
  have "encodeRune r @ t \<noteq> []" using length_encodeRune [of r] by auto
  then show ?thesis
    unfolding runesOf_def
    by (subst rangeString.simps) (simp add: dec_enc del: DecodeRuneInString.simps)
qed

lemma runesOf_stringOf_append: "runesOf (stringOf rs @ t) = map validRune rs @ runesOf t"
  by (induction rs) (simp_all add: stringOf_def runesOf_encodeRune)

lemma runesOf_Nil: "runesOf [] = []"
  by (simp add: runesOf_def rangeString.simps)

lemma runesOf_stringOf: "runesOf (stringOf rs) = map validRune rs"
  using runesOf_stringOf_append [of rs "[]"] by (simp add: runesOf_Nil)

lemma length_runesOf_stringOf: "length (runesOf (stringOf rs)) = length rs"
  by (simp add: runesOf_stringOf)

text \<open>Examples: a two-byte and a three-byte character are one rune each, the first two
  bytes of the three alone are two ill-formed bytes, and the no-break space \<open>U+00A0\<close>
  separates fields.\<close>

lemma runesOf_examples:
  "runesOf [CHR 0xC3, CHR 0xA9] = [0xE9]"
  "runesOf [CHR 0xE2, CHR 0x82, CHR 0xAC] = [0x20AC]"
  "runesOf [CHR 0xE2, CHR 0x82] = [RuneError, RuneError]"
  by (simp_all add: runesOf_def rangeString.simps isCont_def secondLo_def secondHi_def)

lemma runesOf_stringOf_example:
  "runesOf (stringOf [0xE9, 0x20AC, 0xD800]) = [0xE9, 0x20AC, RuneError]"
  by (simp add: runesOf_stringOf validRune_def)

lemma Fields_example:
  "Fields (''a c'' @ [CHR 0xC2, CHR 0xA0] @ ''e'') = [''a'', ''c'', ''e'']"
  by (simp add: Fields_def rangeString.simps isCont_def IsSpace_def)


subsection \<open>TextArea: the cursor\<close>

lemma cursor_inv_cong:
  "ta_Lines a = ta_Lines b \<Longrightarrow> ta_cursorLine a = ta_cursorLine b \<Longrightarrow>
   ta_cursorCol a = ta_cursorCol b \<Longrightarrow> cursor_inv a = cursor_inv b"
  by (simp add: cursor_inv_def)

lemma cursor_inv_ensureCursorVisible [simp]:
  "cursor_inv (ensureCursorVisible ta) = cursor_inv ta"
  by (rule cursor_inv_cong) simp_all

lemma cursor_inv_ta_updateScrollState [simp]:
  "cursor_inv (ta_updateScrollState ta) = cursor_inv ta"
  by (rule cursor_inv_cong) simp_all

lemma cursor_inv_calculateCounts [simp]:
  "cursor_inv (calculateCounts ta) = cursor_inv ta"
  by (rule cursor_inv_cong) simp_all

lemma cursor_inv_IsActive [simp]: "cursor_inv (ta\<lparr>ta_IsActive := b\<rparr>) = cursor_inv ta"
  by (simp add: cursor_inv_def)


lemma clampCursorCol_id: "cursor_inv ta \<Longrightarrow> clampCursorCol ta = ta"
  by (auto simp: cursor_inv_def clampCursorCol_def Let_def)


lemma cursor_inv_in_range:
  "cursor_inv ta \<Longrightarrow> \<not> lineOutOfRange ta"
  "cursor_inv ta \<Longrightarrow>
     \<not> colOutOfRange (ta_cursorCol ta) (runesOf (ta_Lines ta ! nat (ta_cursorLine ta)))"
  by (auto simp: cursor_inv_def lineOutOfRange_def colOutOfRange_def)


lemma afterEdit_id:
  "cursor_inv ta \<Longrightarrow>
   ta_Lines (afterEdit ta) = ta_Lines ta \<and> ta_cursorLine (afterEdit ta) = ta_cursorLine ta
     \<and> ta_cursorCol (afterEdit ta) = ta_cursorCol ta"
  by (simp add: afterEdit_def clampCursorCol_id)

text \<open>Typing a character (not a newline, the text area focused and not full) puts its rune
  at the cursor column among the runes of the line and moves the cursor past it.\<close>

lemma InsertChar_rune:
  assumes inv: "cursor_inv ta" and act: "ta_IsActive ta"
    and room: "\<not> (ta_maxChars ta > 0 \<and> ta_charCount ta \<ge> ta_maxChars ta)" and nl: "r \<noteq> 0x0A"
  shows "\<exists>ta'. InsertChar r ta = Some ta'
           \<and> ta_cursorLine ta' = ta_cursorLine ta
           \<and> ta_cursorCol ta' = ta_cursorCol ta + 1
           \<and> runesOf (ta_Lines ta' ! nat (ta_cursorLine ta'))
               = map validRune (take (nat (ta_cursorCol ta))
                                  (runesOf (ta_Lines ta ! nat (ta_cursorLine ta))))
                 @ [validRune r]
                 @ map validRune (drop (nat (ta_cursorCol ta))
                                    (runesOf (ta_Lines ta ! nat (ta_cursorLine ta))))"
proof -
  let ?rs = "runesOf (ta_Lines ta ! nat (ta_cursorLine ta))"
  let ?col = "ta_cursorCol ta"
  let ?new = "stringOf (take (nat ?col) ?rs) @ encodeRune r @ stringOf (drop (nat ?col) ?rs)"
  let ?t = "ta\<lparr>ta_Lines := (ta_Lines ta)[nat (ta_cursorLine ta) := ?new], ta_cursorCol := ?col + 1\<rparr>"
  have rn: "runesOf ?new = map validRune (take (nat ?col) ?rs) @ [validRune r]
                             @ map validRune (drop (nat ?col) ?rs)"
    using runesOf_stringOf_append [of "take (nat ?col) ?rs" "encodeRune r @ stringOf (drop (nat ?col) ?rs)"]
    by (simp add: runesOf_encodeRune runesOf_stringOf)
  have l: "nat (ta_cursorLine ta) < length (ta_Lines ta)" "0 \<le> ?col" "?col \<le> int (length ?rs)"
    using inv by (auto simp: cursor_inv_def)
  have i: "cursor_inv ?t" using inv l by (simp add: cursor_inv_def rn)
  have s: "InsertChar r ta = Some (afterEdit ?t)"
    using act room nl cursor_inv_in_range [OF inv]
    by (auto simp: InsertChar_def Let_def)
  show ?thesis using afterEdit_id [OF i] l by (simp add: s rn)
qed














subsection \<open>Window: the focus chain\<close>

lemma deactivate_focusable:
  "focusableType e \<Longrightarrow> \<not> elementActive (deactivateElement e) \<and> focusableType (deactivateElement e)"
  by (cases e) (simp_all add: focusableType_def elementActive_def deactivateElement_def
      Deactivate_def Let_def SetActive_def)

lemma activate_focusable:
  "focusableType e \<Longrightarrow> elementActive (activateElement e) \<and> focusableType (activateElement e)"
  by (cases e) (simp_all add: focusableType_def elementActive_def activateElement_def
      Activate_def Let_def SetActive_def)

lemma flagChange_shape:
  assumes "flagChange f"
  shows "(\<exists>c'. f (ContainerE c) = ContainerE c' \<and> c_scrollBar c' = c_scrollBar c)"
    and "(\<exists>t'. f (TextAreaE t) = TextAreaE t' \<and> ta_scrollBar t' = ta_scrollBar t)"
    and "(\<exists>sb'. f (ScrollBarE sb) = ScrollBarE sb')"
    and "(\<forall>c. e \<noteq> ContainerE c) \<Longrightarrow> (\<forall>c. f e \<noteq> ContainerE c)"
    and "(\<forall>t. e \<noteq> TextAreaE t) \<Longrightarrow> (\<forall>t. f e \<noteq> TextAreaE t)"
  using assms
  by (auto simp: flagChange_def activateElement_def deactivateElement_def split: UIElement.splits)

lemma win_store [simp]: "win (store r e st) = win st"
  by (auto simp: store_def split: ref.splits option.splits UIElement.splits)

lemma win_modify [simp]: "win (modify r f st) = win st"
  by (simp add: modify_def split: option.splits)

lemma lookup_win_update [simp]: "lookup (st\<lparr>win := w\<rparr>) r = lookup st r"
  by (simp add: lookup_def split: ref.splits)

lemma activeAt_win_update [simp]: "activeAt (st\<lparr>win := w\<rparr>) r = activeAt st r"
  by (simp add: activeAt_def)

lemma lookup_modify_same:
  assumes "flagChange f" and "lookup st r = Some e"
  shows "lookup (modify r f st) r = Some (f e)"
proof (cases r)
  case (Obj n)
  with assms show ?thesis by (simp add: modify_def lookup_def store_def)
next
  case (ScrollbarOf n)
  from assms(2) ScrollbarOf obtain sb where e: "e = ScrollBarE sb"
    by (auto simp: lookup_def split: option.splits UIElement.splits)
  from flagChange_shape(3) [OF assms(1), of sb] obtain sb' where f: "f (ScrollBarE sb) = ScrollBarE sb'"
    by blast
  from assms(2) ScrollbarOf e f show ?thesis
    by (auto simp: modify_def lookup_def store_def split: option.splits UIElement.splits)
qed

lemma lookup_modify_other_Obj:
  assumes "flagChange f" and "r \<noteq> Obj n"
  shows "activeAt (modify r f st) (Obj n) = activeAt st (Obj n)"
    and "(case lookup (modify r f st) (Obj n) of Some e \<Rightarrow> focusableType e | None \<Rightarrow> False)
       = (case lookup st (Obj n) of Some e \<Rightarrow> focusableType e | None \<Rightarrow> False)"
proof -
  have "activeAt (modify r f st) (Obj n) = activeAt st (Obj n)
    \<and> (case lookup (modify r f st) (Obj n) of Some e \<Rightarrow> focusableType e | None \<Rightarrow> False)
       = (case lookup st (Obj n) of Some e \<Rightarrow> focusableType e | None \<Rightarrow> False)"
  proof (cases r)
    case (Obj m)
    with assms(2) have "m \<noteq> n" by simp
    with Obj show ?thesis
      by (simp add: modify_def lookup_def store_def activeAt_def split: option.splits)
  next
    case (ScrollbarOf m)
    show ?thesis
    proof (cases "lookup st r")
      case None
      then show ?thesis by (simp add: modify_def)
    next
      case (Some e)
      with ScrollbarOf obtain sb where e: "e = ScrollBarE sb"
        by (auto simp: lookup_def split: option.splits UIElement.splits)
      from flagChange_shape(3) [OF assms(1), of sb] obtain sb' where f: "f (ScrollBarE sb) = ScrollBarE sb'"
        by blast
      from Some ScrollbarOf e f show ?thesis
        by (auto simp: modify_def lookup_def store_def activeAt_def elementActive_def
              focusableType_def split: option.splits UIElement.splits)
    qed
  qed
  then show "activeAt (modify r f st) (Obj n) = activeAt st (Obj n)"
    and "(case lookup (modify r f st) (Obj n) of Some e \<Rightarrow> focusableType e | None \<Rightarrow> False)
       = (case lookup st (Obj n) of Some e \<Rightarrow> focusableType e | None \<Rightarrow> False)"
    by simp_all
qed

lemma lookup_modify_other_Scrollbar:
  assumes "flagChange f" and "r \<noteq> ScrollbarOf n"
  shows "lookup (modify r f st) (ScrollbarOf n) = lookup st (ScrollbarOf n)"
proof (cases r)
  case (ScrollbarOf m)
  with assms(2) have "m \<noteq> n" by simp
  with ScrollbarOf show ?thesis
    by (auto simp: modify_def lookup_def store_def split: option.splits UIElement.splits)
next
  case (Obj m)
  show ?thesis
  proof (cases "objs st m")
    case None
    with Obj show ?thesis by (simp add: modify_def lookup_def)
  next
    case (Some e)
    show ?thesis
    proof (cases "m = n")
      case False
      with Obj Some show ?thesis by (simp add: modify_def lookup_def store_def)
    next
      case True
      have "(case f e of ContainerE c \<Rightarrow> Some (ScrollBarE (c_scrollBar c))
                       | TextAreaE t \<Rightarrow> Some (ScrollBarE (ta_scrollBar t)) | _ \<Rightarrow> None)
          = (case e of ContainerE c \<Rightarrow> Some (ScrollBarE (c_scrollBar c))
                       | TextAreaE t \<Rightarrow> Some (ScrollBarE (ta_scrollBar t)) | _ \<Rightarrow> None)"
        using assms(1)
        by (auto simp: flagChange_def activateElement_def deactivateElement_def split: UIElement.splits)
      with Obj Some True show ?thesis
        by (simp add: modify_def lookup_def store_def)
    qed
  qed
qed

lemma modify_other:
  assumes "flagChange f" and "r \<noteq> r'"
  shows "activeAt (modify r f st) r' = activeAt st r'"
    and "(case lookup (modify r f st) r' of Some e \<Rightarrow> focusableType e | None \<Rightarrow> False)
       = (case lookup st r' of Some e \<Rightarrow> focusableType e | None \<Rightarrow> False)"
  using assms lookup_modify_other_Obj [OF assms(1), of r _ st]
    lookup_modify_other_Scrollbar [OF assms(1), of r _ st]
  by (cases r'; simp add: activeAt_def)+

lemma modify_same_active:
  assumes "lookup st r = Some e" and "focusableType e"
  shows "activeAt (modify r activateElement st) r"
    and "\<not> activeAt (modify r deactivateElement st) r"
    and "(case lookup (modify r activateElement st) r of Some e \<Rightarrow> focusableType e | None \<Rightarrow> False)"
    and "(case lookup (modify r deactivateElement st) r of Some e \<Rightarrow> focusableType e | None \<Rightarrow> False)"
  using lookup_modify_same [of activateElement st r e] lookup_modify_same [of deactivateElement st r e]
    assms activate_focusable [of e] deactivate_focusable [of e]
  by (simp_all add: flagChange_def activeAt_def)

lemma focusable_modify:
  assumes "flagChange f"
  shows "(case lookup (modify r f st) r' of Some e \<Rightarrow> focusableType e | None \<Rightarrow> False)
       = (case lookup st r' of Some e \<Rightarrow> focusableType e | None \<Rightarrow> False)"
proof (cases "r = r'")
  case False
  then show ?thesis using modify_other(2) [OF assms] by simp
next
  case True
  show ?thesis
  proof (cases "lookup st r")
    case None
    with True show ?thesis by (simp add: modify_def)
  next
    case (Some e)
    have "focusableType (f e) = focusableType e"
      using assms
      by (auto simp: flagChange_def activateElement_def deactivateElement_def focusableType_def
            split: UIElement.splits)
    with lookup_modify_same [OF assms Some] Some True show ?thesis by simp
  qed
qed

lemma chain_wf_modify:
  assumes "flagChange f" and "chain_wf st"
  shows "chain_wf (modify r f st)"
  using assms(2) focusable_modify [OF assms(1), of r st]
  by (simp add: chain_wf_def list_all_iff)

lemma chain_wf_setFocusedIndex [simp]: "chain_wf (setFocusedIndex i st) = chain_wf st"
  by (simp add: chain_wf_def setFocusedIndex_def)

lemma chain_setFocusedIndex [simp]:
  "w_focusableElements (win (setFocusedIndex i st)) = w_focusableElements (win st)"
  "w_focusedIndex (win (setFocusedIndex i st)) = i"
  "activeAt (setFocusedIndex i st) r = activeAt st r"
  by (simp_all add: setFocusedIndex_def)

lemma others_inactive_iff:
  "others_inactive st =
     (\<forall>j < length (w_focusableElements (win st)).
        int j \<noteq> w_focusedIndex (win st) \<longrightarrow> \<not> activeAt st (w_focusableElements (win st) ! j))"
  by (auto simp: others_inactive_def list_all_iff in_set_enumerate_eq)

lemma setFocus_step:
  assumes ne: "w_focusableElements (win st) \<noteq> []" and wf: "chain_wf st" and oi: "others_inactive st"
  shows "chain_wf (setFocus newIndex st)"
    and "w_focusableElements (win (setFocus newIndex st)) = w_focusableElements (win st)"
    and "0 \<le> w_focusedIndex (win (setFocus newIndex st))"
    and "w_focusedIndex (win (setFocus newIndex st)) < int (length (w_focusableElements (win st)))"
    and "only_active (setFocus newIndex st) (w_focusedIndex (win (setFocus newIndex st)))"
proof -
  let ?chain = "w_focusableElements (win st)"
  let ?n = "int (length ?chain)"
  let ?fi = "w_focusedIndex (win st)"
  define st1 where "st1 = (if ?fi \<ge> 0 \<and> ?fi < ?n then modify (?chain ! nat ?fi) deactivateElement st else st)"
  define k where "k = (if newIndex < 0 then ?n - 1 else if newIndex \<ge> ?n then 0 else newIndex)"
  define st2 where "st2 = setFocusedIndex k st1"
  define st3 where "st3 = modify (?chain ! nat k) activateElement st2"
  have n0: "?n \<noteq> 0" using ne by simp
  have krange: "0 \<le> k" "k < ?n" using n0 by (auto simp: k_def)
  have chain1: "w_focusableElements (win st1) = ?chain" by (simp add: st1_def)
  have chain2: "w_focusableElements (win st2) = ?chain" by (simp add: st2_def chain1)
  have chain3: "w_focusableElements (win st3) = ?chain" by (simp add: st3_def chain2)
  have fi3: "w_focusedIndex (win st3) = k" by (simp add: st3_def st2_def)
  have eq: "setFocus newIndex st = st3"
    using n0 krange
    by (simp add: setFocus_def Let_def st3_def st2_def st1_def k_def chain1 [unfolded st1_def]
        split del: if_split cong: if_cong) (auto simp: setFocusedIndex_def)
  have dist: "distinct ?chain" using wf by (simp add: chain_wf_def)
  have foc: "\<And>j. j < length ?chain \<Longrightarrow>
      \<exists>e. lookup st (?chain ! j) = Some e \<and> focusableType e"
    using wf by (auto simp: chain_wf_def list_all_length split: option.splits)
  have wf1: "chain_wf st1"
    using wf by (simp add: st1_def chain_wf_modify flagChange_def)
  have all_inactive1: "\<not> activeAt st1 (?chain ! j)" if j: "j < length ?chain" for j
  proof (cases "?fi \<ge> 0 \<and> ?fi < ?n")
    case False
    then have "int j \<noteq> ?fi" using j by auto
    with oi j False show ?thesis by (auto simp: others_inactive_iff st1_def)
  next
    case True
    show ?thesis
    proof (cases "int j = ?fi")
      case eqj: True
      then have "nat ?fi = j" by simp
      with foc [OF j] True modify_same_active(2) show ?thesis
        by (auto simp: st1_def)
    next
      case neq: False
      then have "?chain ! nat ?fi \<noteq> ?chain ! j"
        using dist j True by (auto simp: nth_eq_iff_index_eq)
      with True oi j neq show ?thesis
        by (simp add: st1_def modify_other(1) flagChange_def others_inactive_iff)
    qed
  qed
  have wf2: "chain_wf st2" using wf1 by (simp add: st2_def)
  have wf3: "chain_wf st3" using wf2 by (simp add: st3_def chain_wf_modify flagChange_def)
  have klt: "nat k < length ?chain" using krange by simp
  from wf2 klt chain2 obtain e where e: "lookup st2 (?chain ! nat k) = Some e" "focusableType e"
    by (auto simp: chain_wf_def list_all_length split: option.splits)
  have oa: "only_active st3 k"
    unfolding only_active_def chain3
  proof (intro allI impI)
    fix j assume j: "j < length ?chain"
    show "activeAt st3 (?chain ! j) = (int j = k)"
    proof (cases "int j = k")
      case True
      then have "nat k = j" by simp
      with modify_same_active(1) [OF e] True show ?thesis by (simp add: st3_def)
    next
      case False
      then have "?chain ! nat k \<noteq> ?chain ! j"
        using dist j klt krange by (auto simp: nth_eq_iff_index_eq)
      with False all_inactive1 [OF j] show ?thesis
        by (simp add: st3_def st2_def modify_other(1) flagChange_def)
    qed
  qed
  show "chain_wf (setFocus newIndex st)" using wf3 eq by simp
  show "w_focusableElements (win (setFocus newIndex st)) = ?chain" using chain3 eq by simp
  show "0 \<le> w_focusedIndex (win (setFocus newIndex st))" using fi3 krange eq by simp
  show "w_focusedIndex (win (setFocus newIndex st)) < ?n" using fi3 krange eq by simp
  show "only_active (setFocus newIndex st) (w_focusedIndex (win (setFocus newIndex st)))"
    using oa fi3 eq by simp
qed

lemma only_active_count:
  assumes "only_active st i" and "0 \<le> i" and "i < int (length (w_focusableElements (win st)))"
  shows "length (activeEntries st) = 1"
proof -
  let ?xs = "w_focusableElements (win st)"
  let ?k = "nat i"
  have k: "?k < length ?xs" using assms by simp
  have xs: "?xs = take ?k ?xs @ ?xs ! ?k # drop (Suc ?k) ?xs"
    using k by (simp add: id_take_nth_drop)
  have a: "filter (activeAt st) (take ?k ?xs) = []"
  proof -
    have "\<not> activeAt st x" if "x \<in> set (take ?k ?xs)" for x
    proof -
      from that obtain j where "j < ?k" "x = ?xs ! j"
        using k by (auto simp: in_set_conv_nth)
      with assms k show ?thesis by (auto simp: only_active_def)
    qed
    then show ?thesis by (simp add: filter_empty_conv)
  qed
  have b: "filter (activeAt st) (drop (Suc ?k) ?xs) = []"
  proof -
    have "\<not> activeAt st x" if "x \<in> set (drop (Suc ?k) ?xs)" for x
    proof -
      from that obtain j where "j < length ?xs - Suc ?k" "x = ?xs ! (Suc ?k + j)"
        by (auto simp: in_set_conv_nth)
      with assms k show ?thesis by (auto simp: only_active_def)
    qed
    then show ?thesis by (simp add: filter_empty_conv)
  qed
  have c: "activeAt st (?xs ! ?k)" using assms k by (auto simp: only_active_def)
  have "activeEntries st = filter (activeAt st) (take ?k ?xs @ ?xs ! ?k # drop (Suc ?k) ?xs)"
    unfolding activeEntries_def using xs by simp
  then show ?thesis using a b c by simp
qed

lemma only_active_others:
  "only_active st (w_focusedIndex (win st)) \<Longrightarrow> others_inactive st"
  by (simp add: others_inactive_iff only_active_def)

lemma setFocus_calls:
  assumes "w_focusableElements (win st) \<noteq> []" and "chain_wf st" and "others_inactive st"
  shows "chain_wf (fold setFocus calls st)
       \<and> others_inactive (fold setFocus calls st)
       \<and> w_focusableElements (win (fold setFocus calls st)) = w_focusableElements (win st)
       \<and> (calls \<noteq> [] \<longrightarrow>
            only_active (fold setFocus calls st) (w_focusedIndex (win (fold setFocus calls st)))
            \<and> 0 \<le> w_focusedIndex (win (fold setFocus calls st))
            \<and> w_focusedIndex (win (fold setFocus calls st))
                < int (length (w_focusableElements (win st))))"
  using assms
proof (induction calls arbitrary: st rule: rev_induct)
  case Nil
  then show ?case by simp
next
  case (snoc c calls)
  let ?st = "fold setFocus calls st"
  from snoc have ih: "chain_wf ?st" "others_inactive ?st"
    "w_focusableElements (win ?st) = w_focusableElements (win st)"
    by simp_all
  have ne: "w_focusableElements (win ?st) \<noteq> []" using ih(3) snoc.prems(1) by simp
  from setFocus_step [OF ne ih(1) ih(2), of c] ih(3) only_active_others [of "setFocus c ?st"]
  show ?case by simp
qed

text \<open>
  C1 (as amended). On a window whose focus chain is not empty, holds distinct pointers to
  focusable elements, and has no active entry but the one at the focus index: after any
  non-empty sequence of \<open>setFocus\<close> calls with arbitrary integer arguments the chain
  is unchanged, exactly one of its entries is active, the entry at the focus index, and
  the focus index lies in \<open>[0, length of the chain)\<close>.
\<close>

theorem setFocus_exactly_one_active:
  assumes "w_focusableElements (win st) \<noteq> []" and "chain_wf st" and "others_inactive st"
    and "calls \<noteq> []"
  shows "length (activeEntries (fold setFocus calls st)) = 1
       \<and> 0 \<le> w_focusedIndex (win (fold setFocus calls st))
       \<and> w_focusedIndex (win (fold setFocus calls st))
           < int (length (w_focusableElements (win (fold setFocus calls st))))
       \<and> activeEntries (fold setFocus calls st) =
           [w_focusableElements (win st) ! nat (w_focusedIndex (win (fold setFocus calls st)))]"
proof -
  let ?st = "fold setFocus calls st"
  from setFocus_calls [OF assms(1-3), of calls] assms(4)
  have c: "w_focusableElements (win ?st) = w_focusableElements (win st)"
    and oa: "only_active ?st (w_focusedIndex (win ?st))"
    and r: "0 \<le> w_focusedIndex (win ?st)"
      "w_focusedIndex (win ?st) < int (length (w_focusableElements (win st)))"
    by simp_all
  have one: "length (activeEntries ?st) = 1"
    using only_active_count [OF oa r(1)] r(2) c by simp
  have act: "activeAt ?st (w_focusableElements (win ?st) ! nat (w_focusedIndex (win ?st)))"
    using oa r c by (simp add: only_active_def)
  have mem: "w_focusableElements (win ?st) ! nat (w_focusedIndex (win ?st)) \<in> set (activeEntries ?st)"
    using act r c by (simp add: activeEntries_def)
  from one obtain x where x: "activeEntries ?st = [x]"
    by (cases "activeEntries ?st") auto
  with mem c have "activeEntries ?st =
      [w_focusableElements (win st) ! nat (w_focusedIndex (win ?st))]"
    by simp
  with one r c show ?thesis by simp
qed

text \<open>In range after a call, whatever the flags were.\<close>

lemma setFocus_index_in_range:
  assumes "w_focusableElements (win st) \<noteq> []"
  shows "w_focusableElements (win (setFocus newIndex st)) = w_focusableElements (win st)
       \<and> 0 \<le> w_focusedIndex (win (setFocus newIndex st))
       \<and> w_focusedIndex (win (setFocus newIndex st)) < int (length (w_focusableElements (win st)))"
  using assms by (auto simp: setFocus_def Let_def setFocusedIndex_def)


text \<open>The theorem at the window of two buttons and the calls \<open>setFocus 1, 5, -1\<close>.\<close>

theorem setFocus_exactly_one_active_witness:
  "w_focusableElements (win demo_window) \<noteq> [] \<and> chain_wf demo_window
   \<and> others_inactive demo_window
   \<and> length (activeEntries (fold setFocus [1, 5, - 1] demo_window)) = 1
   \<and> 0 \<le> w_focusedIndex (win (fold setFocus [1, 5, - 1] demo_window))
   \<and> w_focusedIndex (win (fold setFocus [1, 5, - 1] demo_window))
        < int (length (w_focusableElements (win (fold setFocus [1, 5, - 1] demo_window))))"
proof -
  have a: "w_focusableElements (win demo_window) \<noteq> []" by code_simp
  have b: "chain_wf demo_window" by code_simp
  have c: "others_inactive demo_window" by code_simp
  have d: "[1, 5, - 1] \<noteq> ([] :: int list)" by simp
  from setFocus_exactly_one_active [OF a b c d] a b c show ?thesis by blast
qed

text \<open>
  C1 as stated fails on a window in which an entry away from the focus index is active:
  \<open>setFocus\<close> clears the flag of the entry it leaves and of no other. With the dialog
  shown by the demo program's button, a focus move to the second button leaves two
  active entries, the button and the dialog.
\<close>

theorem setFocus_two_active_counterexample:
  "w_focusableElements (win demo_dialog_shown) = [Obj 0, Obj 1, Obj 2]
   \<and> w_focusedIndex (win demo_dialog_shown) = 0
   \<and> activeEntries (setFocus 1 demo_dialog_shown) = [Obj 1, Obj 2]
   \<and> length (activeEntries (setFocus 1 demo_dialog_shown)) = 2"
  by code_simp


subsection \<open>MenuBar: the key Up\<close>

text \<open>
  What \<open>MoveUp\<close> does in a submenu: with the selection past the first item the
  selection moves up one item; in a submenu of a top-level item, with the selection at the
  first item, the submenu closes, the bar is current again and its own selection and items
  are as before.
\<close>

lemma modifyAt_menuAt:
  "menuAt p m = Some a \<Longrightarrow> f a = Some a' \<Longrightarrow>
   \<exists>m'. modifyAt p f m = Some m' \<and> menuAt p m' = Some a'"
proof (induction p arbitrary: m)
  case Nil
  then show ?case by simp
next
  case (Cons i p)
  from Cons.prems(1) obtain sm where i: "i < length (Items m)"
    and sm: "SubMenu (Items m ! i) = Some sm" and at: "menuAt p sm = Some a"
    by (auto split: if_splits option.splits)
  from Cons.IH [OF at Cons.prems(2)] obtain sm' where
    sm': "modifyAt p f sm = Some sm'" "menuAt p sm' = Some a'" by blast
  with i sm show ?case by simp
qed

lemma Menu_SelectPrevious_up:
  assumes "0 < m_SelectedIdx (menuRec am)" and "m_SelectedIdx (menuRec am) < int (length (Items am))"
  shows "\<exists>am'. Menu_SelectPrevious am = Some am'
           \<and> m_SelectedIdx (menuRec am') = m_SelectedIdx (menuRec am) - 1
           \<and> m_IsOpen (menuRec am') = m_IsOpen (menuRec am)
           \<and> length (Items am') = length (Items am)
           \<and> mi_IsActive (itemRec (Items am' ! nat (m_SelectedIdx (menuRec am) - 1)))
           \<and> \<not> mi_IsActive (itemRec (Items am' ! nat (m_SelectedIdx (menuRec am))))"
proof -
  have ne: "Items am \<noteq> []" using assms by auto
  have neq: "nat (m_SelectedIdx (menuRec am) - 1) \<noteq> nat (m_SelectedIdx (menuRec am))"
    using assms by simp
  show ?thesis
    using assms ne neq
    by (simp add: Menu_SelectPrevious_def Let_def setItemActive_def)
qed

lemma MoveUp_selection_up:
  assumes "mb_IsActive mb" and "mb_ActiveMenu mb = Some p" and "menuAt p (mb_Menu mb) = Some am"
    and "0 < m_SelectedIdx (menuRec am)" and "m_SelectedIdx (menuRec am) < int (length (Items am))"
  shows "\<exists>mb' am'. MoveUp mb = Some mb' \<and> mb_ActiveMenu mb' = Some p
           \<and> menuAt p (mb_Menu mb') = Some am'
           \<and> m_SelectedIdx (menuRec am') = m_SelectedIdx (menuRec am) - 1
           \<and> m_IsOpen (menuRec am') = m_IsOpen (menuRec am)"
proof -
  from Menu_SelectPrevious_up [OF assms(4,5)] obtain am' where am': "Menu_SelectPrevious am = Some am'"
    "m_SelectedIdx (menuRec am') = m_SelectedIdx (menuRec am) - 1"
    "m_IsOpen (menuRec am') = m_IsOpen (menuRec am)"
    by blast
  from modifyAt_menuAt [of p "mb_Menu mb" am Menu_SelectPrevious am', OF assms(3) am'(1)] obtain m' where
    "modifyAt p Menu_SelectPrevious (mb_Menu mb) = Some m'" "menuAt p m' = Some am'" by blast
  with assms am' show ?thesis
    by (simp add: MoveUp_def withMenu_def)
qed

lemma MoveUp_closes_first_level:
  assumes "mb_IsActive mb" and "mb_ActiveMenu mb = Some [i]" and "menuAt [i] (mb_Menu mb) = Some am"
    and "m_SelectedIdx (menuRec am) \<le> 0"
  shows "\<exists>mb'. MoveUp mb = Some mb' \<and> mb_ActiveMenu mb' = None
           \<and> openAt [i] mb' = Some False
           \<and> menuRec (mb_Menu mb') = menuRec (mb_Menu mb)
           \<and> map itemRec (Items (mb_Menu mb')) = map itemRec (Items (mb_Menu mb))"
proof -
  let ?m = "mb_Menu mb"
  let ?mb' = "mb\<lparr>mb_Menu := Menu (menuRec ?m)
                 ((Items ?m)[i := MenuItem (itemRec (Items ?m ! i))
                     (Some (Menu ((menuRec am)\<lparr>m_IsOpen := False\<rparr>) (Items am)))]),
               mb_ActiveMenu := None\<rparr>"
  from assms(3) have i: "i < length (Items ?m)" and sm: "SubMenu (Items ?m ! i) = Some am"
    by (auto split: if_splits option.splits)
  have up: "MoveUp mb = Some ?mb'"
    using assms i sm by (simp add: MoveUp_def)
  have "map itemRec (Items (mb_Menu ?mb')) = map itemRec (Items ?m)"
    using i by (simp add: map_update list_update_same_conv)
  with up i show ?thesis
    by (simp add: openAt_def)
qed

text \<open>
  C4 fails one level further down: in \<open>menu_nested\<close> the current menu is the submenu of
  \<open>New\<close>, at path \<open>[0, 1]\<close>, with its first item selected. \<open>MoveUp\<close> closes it
  and sets \<open>ActiveMenu\<close> to nil, the top level, not to its parent, the submenu of
  \<open>File\<close> at path \<open>[0]\<close>, which stays open with \<open>New\<close> selected.
\<close>

theorem MoveUp_nested_leaves_to_top_level:
  "map_option mb_ActiveMenu menu_nested = Some (Some [0, 1])
   \<and> Option.bind menu_nested (selectedAt [0, 1]) = Some 0
   \<and> Option.bind menu_nested (selectedAt [0]) = Some 1
   \<and> map_option mb_ActiveMenu (Option.bind menu_nested MoveUp) = Some None
   \<and> Option.bind (Option.bind menu_nested MoveUp) (openAt [0, 1]) = Some False
   \<and> Option.bind (Option.bind menu_nested MoveUp) (openAt [0]) = Some True
   \<and> Option.bind (Option.bind menu_nested MoveUp) (selectedAt [0]) = Some 1"
  by code_simp


subsection \<open>Window: removing an element\<close>

text \<open>
  What \<open>RemoveElement\<close> does to the focus index: removing an entry that lies before
  the focused one decrements the index, which stays in range and on the same element;
  removing the focused entry decrements the index too, which stays in range when the entry
  was not the first one and becomes \<open>-1\<close> when it was.
\<close>

lemma indexOf_Some:
  "indexOf x xs = Some i \<Longrightarrow> i < length xs \<and> xs ! i = x \<and> x \<notin> set (take i xs)"
proof (induction xs arbitrary: i)
  case Nil
  then show ?case by simp
next
  case (Cons y ys)
  show ?case
  proof (cases "y = x")
    case True
    with Cons.prems show ?thesis by simp
  next
    case False
    with Cons.prems obtain j where j: "indexOf x ys = Some j" "i = Suc j" by auto
    with Cons.IH [OF j(1)] False show ?thesis by simp
  qed
qed

lemma indexOf_None: "indexOf x xs = None \<Longrightarrow> x \<notin> set xs"
  by (induction xs) (auto split: if_splits)

lemma removeAt_props:
  assumes "i < length xs"
  shows "length (removeAt i xs) = length xs - 1"
    and "j < i \<Longrightarrow> removeAt i xs ! j = xs ! j"
    and "i \<le> j \<Longrightarrow> Suc j < length xs \<Longrightarrow> removeAt i xs ! j = xs ! Suc j"
  using assms by (auto simp: removeAt_def nth_append min_def)

lemma RemoveElement_chain:
  assumes "indexOf element (w_focusableElements (win st)) = Some i"
  shows "w_focusableElements (win (RemoveElement element st)) = removeAt i (w_focusableElements (win st))"
    and "w_focusedIndex (win (RemoveElement element st)) =
           (if w_focusedIndex (win st) \<ge> int i then w_focusedIndex (win st) - 1
            else w_focusedIndex (win st))"
  using assms by (auto simp: RemoveElement_def Let_def split: option.splits)

lemma RemoveElement_earlier:
  assumes "indexOf element (w_focusableElements (win st)) = Some i"
    and "int i < w_focusedIndex (win st)"
    and "w_focusedIndex (win st) < int (length (w_focusableElements (win st)))"
  shows "w_focusedIndex (win (RemoveElement element st)) = w_focusedIndex (win st) - 1"
    and "0 \<le> w_focusedIndex (win (RemoveElement element st))"
    and "w_focusedIndex (win (RemoveElement element st))
           < int (length (w_focusableElements (win (RemoveElement element st))))"
    and "w_focusableElements (win (RemoveElement element st))
             ! nat (w_focusedIndex (win (RemoveElement element st)))
         = w_focusableElements (win st) ! nat (w_focusedIndex (win st))"
proof -
  let ?xs = "w_focusableElements (win st)"
  let ?fi = "w_focusedIndex (win st)"
  from indexOf_Some [OF assms(1)] have i: "i < length ?xs" by simp
  have fi': "w_focusedIndex (win (RemoveElement element st)) = ?fi - 1"
    using RemoveElement_chain(2) [OF assms(1)] assms(2) by simp
  have ch: "w_focusableElements (win (RemoveElement element st)) = removeAt i ?xs"
    by (rule RemoveElement_chain(1) [OF assms(1)])
  show "w_focusedIndex (win (RemoveElement element st)) = ?fi - 1" by (rule fi')
  show "0 \<le> w_focusedIndex (win (RemoveElement element st))" using fi' assms(2) by simp
  show "w_focusedIndex (win (RemoveElement element st))
           < int (length (w_focusableElements (win (RemoveElement element st))))"
    using fi' ch removeAt_props(1) [OF i] assms(3) i by simp
  have le: "i \<le> nat (?fi - 1)" using assms(2) by simp
  have lt: "Suc (nat (?fi - 1)) < length ?xs" using assms(2,3) by simp
  have "Suc (nat (?fi - 1)) = nat ?fi" using assms(2) by simp
  with removeAt_props(3) [OF i le lt] fi' ch
  show "w_focusableElements (win (RemoveElement element st))
             ! nat (w_focusedIndex (win (RemoveElement element st)))
         = ?xs ! nat ?fi"
    by simp
qed

lemma RemoveElement_focused_valid:
  assumes "indexOf element (w_focusableElements (win st)) = Some i"
    and "int i = w_focusedIndex (win st)"
  shows "w_focusedIndex (win (RemoveElement element st)) = w_focusedIndex (win st) - 1"
    and "0 < i \<Longrightarrow> 0 \<le> w_focusedIndex (win (RemoveElement element st))
           \<and> w_focusedIndex (win (RemoveElement element st))
               < int (length (w_focusableElements (win (RemoveElement element st))))"
    and "i = 0 \<Longrightarrow> w_focusedIndex (win (RemoveElement element st)) = - 1"
proof -
  let ?xs = "w_focusableElements (win st)"
  from indexOf_Some [OF assms(1)] have i: "i < length ?xs" by simp
  have fi': "w_focusedIndex (win (RemoveElement element st)) = w_focusedIndex (win st) - 1"
    using RemoveElement_chain(2) [OF assms(1)] assms(2) by simp
  show "w_focusedIndex (win (RemoveElement element st)) = w_focusedIndex (win st) - 1" by (rule fi')
  show "0 < i \<Longrightarrow> 0 \<le> w_focusedIndex (win (RemoveElement element st))
           \<and> w_focusedIndex (win (RemoveElement element st))
               < int (length (w_focusableElements (win (RemoveElement element st))))"
    using fi' assms(2) i RemoveElement_chain(1) [OF assms(1)] removeAt_props(1) [OF i] by simp
  show "i = 0 \<Longrightarrow> w_focusedIndex (win (RemoveElement element st)) = - 1"
    using fi' assms(2) by simp
qed


text \<open>
  C9 fails at the head of the chain: in the window of two buttons the focus is on the
  first; removing it leaves a chain of one entry and the focus index \<open>-1\<close>, outside
  \<open>[0, 1)\<close>.
\<close>

theorem RemoveElement_focused_first_entry:
  "w_focusableElements (win demo_window) = [Obj 0, Obj 1]
   \<and> w_focusedIndex (win demo_window) = 0
   \<and> w_focusableElements (win (RemoveElement (Obj 0) demo_window)) = [Obj 1]
   \<and> w_focusedIndex (win (RemoveElement (Obj 0) demo_window)) = - 1"
  by code_simp


subsection \<open>Window: the order of painting\<close>

text \<open>
  \<open>getSortedElements\<close> is a stable sort of the elements and the open submenus by
  z-index; a menu bar has z-index 100, a submenu 150, and every type without
  \<open>GetZIndex\<close> the default 0: \<open>Prompt\<close> is one of them.
\<close>

lemma getSortedElements_stable_sort:
  "sorted (map zIndexOf (getSortedElements st))
   \<and> mset (getSortedElements st) = mset (getAllElements st)
   \<and> filter (\<lambda>e. zIndexOf e = k) (getSortedElements st) = filter (\<lambda>e. zIndexOf e = k) (getAllElements st)"
  by (simp add: getSortedElements_def sort_key_stable)

lemma zIndexOf_values:
  "zIndexOf (MenuBarE mb) = 100"
  "zIndexOf (MenuE m) = (if m_IsTopLevel (menuRec m) then 100 else 150)"
  "zIndexOf (PromptE p) = 0"
  "zIndexOf (LabelE l) = 0"
  by (simp_all add: zIndexOf_def MenuBar_GetZIndex_def Menu_GetZIndex_def)

text \<open>
  C2 fails for prompts: \<open>Prompt\<close> has the field \<open>zIndex\<close> (set to 1000) and no
  method \<open>GetZIndex\<close>, so the sort gives it 0. In a window holding a dialog, a label
  and a menu bar with two open submenus, added in this order, the dialog is painted first,
  before the label.
\<close>

theorem getSortedElements_prompt_first:
  "map typeName (getAllElements zorder_demo) = [''Prompt'', ''Label'', ''MenuBar'', ''Menu'', ''Menu'']
   \<and> map typeName (getSortedElements zorder_demo) = [''Prompt'', ''Label'', ''MenuBar'', ''Menu'', ''Menu'']
   \<and> map zIndexOf (getSortedElements zorder_demo) = [0, 0, 100, 150, 150]"
  by code_simp


subsection \<open>Constructors\<close>

lemma ta_size_fields [simp]:
  "ta_Width (ta_SetValue v ta) = ta_Width ta"
  "ta_Width (ensureCursorVisible ta) = ta_Width ta"
  "ta_Height (ensureCursorVisible ta) = ta_Height ta"
  "ta_Width (ta_updateScrollState ta) = ta_Width ta"
  "ta_Width (calculateCounts ta) = ta_Width ta"
  by (simp_all add: ta_SetValue_def SetValue_def ensureCursorVisible_def
        ta_updateScrollState_def calculateCounts_def Let_def)

lemma NewTextArea_size:
  "ta_Width (NewTextArea initialText x y width height maxChars color activeColor swc scc)
     = max 3 width"
  "ta_Height (NewTextArea initialText x y width height maxChars color activeColor swc scc)
     = max 2 height"
  unfolding NewTextArea_def Let_def by (simp_all add: max_def)


text \<open>
  C8 (as amended). The constructors of the window, the progress bar, the scrollbar, the
  container and the text area have no error result; each returns the element, with these
  defaults in place of malformed arguments. \<open>NewWindow\<close>: a box style that is not
  a key of \<open>BoxTypes\<close> becomes \<open>single\<close>, and width and height are stored as given.
  \<open>NewProgressBar\<close>: a maximum that is not positive becomes 100, a negative value becomes
  0 and a value above the maximum becomes the maximum. \<open>NewScrollBar\<close>: a negative
  value or maximum becomes 0, a value above the maximum becomes the maximum, and a height
  below 2 becomes 2. \<open>NewContainer\<close>: a width or height below 1 becomes 1.
  \<open>NewTextArea\<close>: a width below 3 becomes 3 and a height below 2 becomes 2.
\<close>

theorem constructors_clamp:
  "w_BoxStyle (NewWindow icon title x y width height boxStyle tc bc bg cc)
     = (if boxStyle = ''single'' \<or> boxStyle = ''double'' \<or> boxStyle = ''round''
           \<or> boxStyle = ''bold'' then boxStyle else ''single'')
   \<and> BoxTypes (w_BoxStyle (NewWindow icon title x y width height boxStyle tc bc bg cc)) \<noteq> None
   \<and> w_Width (NewWindow icon title x y width height boxStyle tc bc bg cc) = width
   \<and> w_Height (NewWindow icon title x y width height boxStyle tc bc bg cc) = height
   \<and> pb_MaxValue (NewProgressBar x y width initialValue maxValue color uc sp)
        = (if maxValue \<le> 0 then 100 else maxValue)
   \<and> pb_Value (NewProgressBar x y width initialValue maxValue color uc sp)
        = max 0 (min (if maxValue \<le> 0 then 100 else maxValue) initialValue)
   \<and> pb_Width (NewProgressBar x y width initialValue maxValue color uc sp) = width
   \<and> sb_MaxValue (NewScrollBar x y height v mx color ac cid) = max 0 mx
   \<and> sb_Value (NewScrollBar x y height v mx color ac cid) = max 0 (min (max 0 mx) v)
   \<and> sb_Height (NewScrollBar x y height v mx color ac cid) = max 2 height
   \<and> c_Width (NewContainer x y width height content) = max 1 width
   \<and> c_Height (NewContainer x y width height content) = max 1 height
   \<and> ta_Width (NewTextArea initialText x y width height maxChars color ac swc scc) = max 3 width
   \<and> ta_Height (NewTextArea initialText x y width height maxChars color ac swc scc) = max 2 height"
proof -
  have w: "w_BoxStyle (NewWindow icon title x y width height boxStyle tc bc bg cc)
     = (if boxStyle = ''single'' \<or> boxStyle = ''double'' \<or> boxStyle = ''round''
           \<or> boxStyle = ''bold'' then boxStyle else ''single'')
   \<and> BoxTypes (w_BoxStyle (NewWindow icon title x y width height boxStyle tc bc bg cc)) \<noteq> None
   \<and> w_Width (NewWindow icon title x y width height boxStyle tc bc bg cc) = width
   \<and> w_Height (NewWindow icon title x y width height boxStyle tc bc bg cc) = height"
    by (simp add: NewWindow_def BoxTypes_def Let_def)
  have p: "pb_MaxValue (NewProgressBar x y width initialValue maxValue color uc sp)
        = (if maxValue \<le> 0 then 100 else maxValue)
   \<and> pb_Value (NewProgressBar x y width initialValue maxValue color uc sp)
        = max 0 (min (if maxValue \<le> 0 then 100 else maxValue) initialValue)
   \<and> pb_Width (NewProgressBar x y width initialValue maxValue color uc sp) = width"
    by (simp add: NewProgressBar_def Let_def max_def min_def)
  have s: "sb_MaxValue (NewScrollBar x y height v mx color ac cid) = max 0 mx
   \<and> sb_Value (NewScrollBar x y height v mx color ac cid) = max 0 (min (max 0 mx) v)
   \<and> sb_Height (NewScrollBar x y height v mx color ac cid) = max 2 height"
    by (simp add: NewScrollBar_def Let_def max_def min_def)
  have c: "c_Width (NewContainer x y width height content) = max 1 width
   \<and> c_Height (NewContainer x y width height content) = max 1 height"
    by (simp add: NewContainer_fields)
  have t: "ta_Width (NewTextArea initialText x y width height maxChars color ac swc scc) = max 3 width
   \<and> ta_Height (NewTextArea initialText x y width height maxChars color ac swc scc) = max 2 height"
    by (simp add: NewTextArea_size)
  from w p s c t show ?thesis by blast
qed

text \<open>The theorem at an unknown style, a maximum of 0, a value of -5 and sizes of 0.\<close>

theorem constructors_clamp_witness:
  "w_BoxStyle (NewWindow [] [] 0 0 0 0 ''rounded'' [] [] [] []) = ''single''
   \<and> pb_MaxValue (NewProgressBar 0 0 0 (- 5) 0 [] [] False) = 100
   \<and> pb_Value (NewProgressBar 0 0 0 (- 5) 0 [] [] False) = 0
   \<and> sb_Value (NewScrollBar 0 0 0 (- 5) 0 [] [] []) = 0
   \<and> c_Width (NewContainer 0 0 0 0 []) = 1
   \<and> c_Height (NewContainer 0 0 0 0 []) = 1"
  using constructors_clamp [where icon = "[]" and title = "[]" and x = 0 and y = 0
      and width = 0 and height = 0 and boxStyle = "''rounded''" and tc = "[]" and bc = "[]"
      and bg = "[]" and cc = "[]" and initialValue = "- 5" and maxValue = 0 and color = "[]"
      and uc = "[]" and sp = False and v = "- 5" and mx = 0 and ac = "[]" and cid = "[]"
      and content = "[]" and initialText = "[]" and maxChars = 0 and swc = False and scc = False]
  by simp

text \<open>
  C8 as stated fails for sizes: \<open>NewScrollBar\<close> raises a height of 0 to 2, not to 1,
  and \<open>NewWindow\<close> stores a width and a height of 0 as they are.
\<close>

theorem constructors_size_counterexample:
  "sb_Height (NewScrollBar 0 0 0 0 0 [] [] []) = 2
   \<and> sb_Height (NewScrollBar 0 0 0 0 0 [] [] []) \<noteq> 1
   \<and> w_Width (NewWindow [] [] 0 0 0 0 ''single'' [] [] [] []) = 0
   \<and> w_Height (NewWindow [] [] 0 0 0 0 ''single'' [] [] [] []) = 0
   \<and> ta_Width (NewTextArea [] 0 0 0 0 0 [] [] False False) = 3
   \<and> ta_Height (NewTextArea [] 0 0 0 0 0 [] [] False False) = 2"
  by (simp add: NewScrollBar_def NewWindow_def BoxTypes_def Let_def NewTextArea_size)


subsection \<open>Dispatcher: Escape on a modal prompt\<close>

text \<open>
  C5 (as amended). When the focused element is a prompt with \<open>Modal\<close> and \<open>IsActive\<close>
  set (and the key handler of the window, if one is installed, does not handle the key),
  dispatching the Escape key (the single byte 27) changes nothing: the state after the key
  is the state before it, so the focus index is unchanged and the prompt is still active;
  no render and no quit is requested.
\<close>

theorem modal_prompt_ignores_escape:
  assumes "focusedModalPrompt st" and "handlerDeclines handler [27] st"
  shows "\<exists>st'. handleKey handler run makeRawOk [27] st = Some (st', False, False)
           \<and> st' = st
           \<and> w_focusedIndex (win st') = w_focusedIndex (win st)
           \<and> focusedModalPrompt st'"
proof -
  from assms(1) obtain r p where r: "focusedRef st = Some r"
    and e: "focusedElement st = Some (PromptE p)" and m: "p_Modal p" "p_IsActive p"
    by (auto simp: focusedModalPrompt_def focusedElement_def split: option.splits UIElement.splits)
  have k: "promptKey run [27] r p st = Some (st, False, False)"
    using m by (simp add: promptKey_def isEscapeSeq_def IsModal_def)
  have d: "defaultKey run makeRawOk [27] st = Some (st, False, False)"
    using r e m k by (simp add: defaultKey_def)
  have "handleKey handler run makeRawOk [27] st = Some (st, False, False)"
  proof (cases "w_KeyHandler (win st)")
    case None
    with d show ?thesis by (simp add: handleKey_def)
  next
    case (Some h)
    with assms(2) have "\<not> fst (fst (handler h [27] st))" "snd (handler h [27] st) = st"
      by (simp_all add: handlerDeclines_def)
    with Some d show ?thesis
      by (simp add: handleKey_def split_beta)
  qed
  with assms(1) show ?thesis by simp
qed

text \<open>The theorem at the window of two buttons with the focused dialog and a key handler
  that declines every key.\<close>

theorem modal_prompt_ignores_escape_witness:
  "focusedModalPrompt demo_dialog_focused
   \<and> handlerDeclines (\<lambda>h key st. ((False, False, False), st)) [27] demo_dialog_focused
   \<and> handleKey (\<lambda>h key st. ((False, False, False), st)) (\<lambda>a. False) True [27] demo_dialog_focused
       = Some (demo_dialog_focused, False, False)
   \<and> w_focusedIndex (win demo_dialog_focused) = 2"
proof -
  have a: "focusedModalPrompt demo_dialog_focused" by code_simp
  have b: "handlerDeclines (\<lambda>h key st. ((False, False, False), st)) [27] demo_dialog_focused"
    by (simp add: handlerDeclines_def split: option.splits)
  have c: "w_focusedIndex (win demo_dialog_focused) = 2" by code_simp
  from modal_prompt_ignores_escape [OF a b, of "\<lambda>a. False" True] a b c
  show ?thesis by simp
qed

text \<open>For contrast: on a focused active prompt that is not modal, Escape deactivates the prompt
  and moves the focus to the next entry.\<close>

lemma nonmodal_prompt_escape:
  assumes "focusedRef st = Some r" and "focusedElement st = Some (PromptE p)"
    and "\<not> p_Modal p" and "p_IsActive p" and "w_KeyHandler (win st) = None"
  shows "handleKey handler run makeRawOk [27] st
           = Some (focusNext (store r (PromptE (SetActive False p)) st), True, False)"
  using assms
  by (simp add: handleKey_def defaultKey_def promptKey_def isEscapeSeq_def IsModal_def)


text \<open>
  C5 as stated fails when the modal, active prompt is not the focused element: the
  dispatcher looks at the focused element only. With the single-line prompt and the dialog
  of the demo program both shown and the focus on the single-line prompt, the dialog is
  modal and active, and Escape deactivates the single-line prompt and moves the focus index
  from 2 to 3.
\<close>

theorem escape_beside_modal_prompt_counterexample:
  "w_focusableElements (win demo_two_prompts) = [Obj 0, Obj 1, Obj 4, Obj 2]
   \<and> modalActivePrompt demo_two_prompts (Obj 2)
   \<and> w_focusedIndex (win demo_two_prompts) = 2
   \<and> map_option (\<lambda>(st', render, quit). (w_focusedIndex (win st'), modalActivePrompt st' (Obj 2)))
        (handleKey (\<lambda>h key st. ((False, False, False), st)) (\<lambda>a. False) True [27]
           demo_two_prompts)
       = Some (3, True)"
  by code_simp

end
